theory Spec2Isabelle
  imports Main "HOL-Library.Word"
begin

unbundle bit_operations_syntax

section \<open>Map colour data\<close>

text \<open>
  The palette table of the converter: 62 base colours (index 0 is the transparent bucket
  \<open>NONE\<close>), each with its base RGB value, the water flag and the list of block
  identifiers that show this colour. JavaScript numbers that hold pixel bytes, palette
  indices and shade numbers are modelled as \<open>nat\<close>; voxel coordinates are \<open>int\<close>.
  A JavaScript string is a \<open>string\<close> (code units below 256).
  The record fields \<open>color_name\<close>, \<open>color_r\<close>, \<open>color_g\<close>, \<open>color_b\<close>, \<open>color_blocks\<close> stand for the
  source fields \<open>name\<close>, \<open>r\<close>, \<open>g\<close>, \<open>b\<close>, \<open>blocks\<close>.
\<close>

definition SHADE_MULTIPLIERS :: "nat list" where
  "SHADE_MULTIPLIERS = [180, 220, 255, 135]"

datatype BaseColor = BaseColor
  (color_name: string)
  (color_r: nat)
  (color_g: nat)
  (color_b: nat)
  (isWater: bool)
  (color_blocks: "string list")

definition blocks_NONE :: "string list" where
  "blocks_NONE =
    [''glass'', ''glass_pane'', ''barrier'', ''chain'', ''end_rod'', ''ladder'', ''rail'',
     ''powered_rail'', ''detector_rail'', ''activator_rail'', ''lever'', ''torch'',
     ''wall_torch'', ''soul_torch'', ''soul_wall_torch'', ''redstone_wire'', ''repeater'',
     ''comparator'', ''tripwire_hook'', ''tripwire'', ''flower_pot'', ''cake'',
     ''stone_button'', ''oak_button'', ''spruce_button'', ''birch_button'', ''jungle_button'',
     ''acacia_button'', ''dark_oak_button'', ''mangrove_button'', ''cherry_button'',
     ''bamboo_button'', ''crimson_button'', ''warped_button'', ''pale_oak_button'',
     ''white_stained_glass_pane'', ''orange_stained_glass_pane'',
     ''magenta_stained_glass_pane'', ''light_blue_stained_glass_pane'',
     ''yellow_stained_glass_pane'', ''lime_stained_glass_pane'', ''pink_stained_glass_pane'',
     ''gray_stained_glass_pane'', ''light_gray_stained_glass_pane'',
     ''cyan_stained_glass_pane'', ''purple_stained_glass_pane'', ''blue_stained_glass_pane'',
     ''brown_stained_glass_pane'', ''green_stained_glass_pane'', ''red_stained_glass_pane'',
     ''black_stained_glass_pane'', ''structure_void'', ''light'', ''nether_portal'',
     ''player_head'', ''zombie_head'', ''skeleton_skull'', ''wither_skeleton_skull'',
     ''creeper_head'', ''dragon_head'', ''piglin_head'']"

definition blocks_GRASS :: "string list" where
  "blocks_GRASS =
    [''grass_block'', ''slime_block'']"

definition blocks_SAND :: "string list" where
  "blocks_SAND =
    [''sand'', ''sandstone'', ''birch_planks'', ''glowstone'', ''end_stone'',
     ''end_stone_bricks'', ''bone_block'', ''scaffolding'', ''candle'', ''suspicious_sand'',
     ''birch_log'', ''birch_stripped_log'', ''birch_wood'', ''birch_stripped_wood'',
     ''birch_sign'', ''birch_pressure_plate'', ''birch_trapdoor'', ''birch_stairs'',
     ''birch_slab'', ''birch_fence_gate'', ''birch_fence'', ''birch_door'', ''turtle_egg'',
     ''ochre_froglight'', ''sandstone_slab'', ''sandstone_stairs'', ''sandstone_wall'',
     ''cut_sandstone'', ''cut_sandstone_slab'', ''chiseled_sandstone'', ''smooth_sandstone'',
     ''smooth_sandstone_slab'', ''smooth_sandstone_stairs'', ''end_stone_brick_slab'',
     ''end_stone_brick_stairs'', ''end_stone_brick_wall'']"

definition blocks_WOOL :: "string list" where
  "blocks_WOOL =
    [''mushroom_stem'', ''cobweb'', ''white_candle'']"

definition blocks_FIRE :: "string list" where
  "blocks_FIRE =
    [''tnt'', ''redstone_block'', ''lava'', ''fire'']"

definition blocks_ICE :: "string list" where
  "blocks_ICE =
    [''ice'', ''packed_ice'', ''blue_ice'', ''frosted_ice'']"

definition blocks_METAL :: "string list" where
  "blocks_METAL =
    [''iron_block'', ''iron_door'', ''iron_trapdoor'', ''iron_bars'', ''anvil'',
     ''brewing_stand'', ''heavy_weighted_pressure_plate'', ''lantern'', ''grindstone'',
     ''lodestone'', ''heavy_core'', ''pale_oak_leaves'', ''closed_eyeblossom'']"

definition blocks_PLANT :: "string list" where
  "blocks_PLANT =
    [''oak_leaves'', ''spruce_leaves'', ''birch_leaves'', ''jungle_leaves'', ''acacia_leaves'',
     ''dark_oak_leaves'', ''lily_pad'', ''cactus'', ''vines'', ''sugar_cane'', ''fern'',
     ''short_grass'', ''tall_grass'', ''pink_petals'']"

definition blocks_SNOW :: "string list" where
  "blocks_SNOW =
    [''white_wool'', ''snow_block'', ''snow'', ''white_carpet'', ''white_concrete'',
     ''white_concrete_powder'', ''white_stained_glass'', ''white_glazed_terracotta'',
     ''powder_snow'', ''white_shulker_box'']"

definition blocks_CLAY :: "string list" where
  "blocks_CLAY =
    [''clay'']"

definition blocks_DIRT :: "string list" where
  "blocks_DIRT =
    [''dirt'', ''coarse_dirt'', ''jungle_planks'', ''granite'', ''polished_granite'',
     ''farmland'', ''jungle_slab'', ''jungle_stairs'', ''packed_mud'', ''dirt_path'',
     ''granite_slab'', ''granite_stairs'', ''granite_wall'', ''polished_granite_slab'',
     ''polished_granite_stairs'', ''jungle_log'', ''jungle_stripped_log'', ''jungle_wood'',
     ''jungle_stripped_wood'', ''jungle_sign'', ''jungle_pressure_plate'', ''jungle_trapdoor'',
     ''jungle_fence_gate'', ''jungle_fence'', ''jungle_door'', ''jukebox'',
     ''brown_mushroom_block'', ''rooted_dirt'', ''hanging_roots'']"

definition blocks_STONE :: "string list" where
  "blocks_STONE =
    [''cobblestone'', ''stone'', ''stone_bricks'', ''andesite'', ''polished_andesite'',
     ''gravel'', ''furnace'', ''dispenser'', ''dropper'', ''observer'', ''hopper'',
     ''cobblestone_stairs'', ''stone_slab'', ''cobblestone_slab'', ''stone_brick_slab'',
     ''stonecutter'', ''spawner'', ''ender_chest'', ''cauldron'', ''stone_stairs'',
     ''bedrock'', ''gold_ore'', ''iron_ore'', ''coal_ore'', ''lapis_lazuli_ore'',
     ''diamond_ore'', ''mossy_cobblestone'', ''mossy_cobblestone_slab'',
     ''mossy_cobblestone_stairs'', ''mossy_cobblestone_wall'', ''stone_pressure_plate'',
     ''redstone_ore'', ''emerald_ore'', ''smooth_stone'', ''smooth_stone_slab'', ''smoker'',
     ''blast_furnace'', ''cobblestone_wall'', ''stone_brick_stairs'', ''stone_brick_wall'',
     ''mossy_stone_bricks'', ''mossy_stone_brick_slab'', ''mossy_stone_brick_stairs'',
     ''mossy_stone_brick_wall'', ''cracked_stone_bricks'', ''chiseled_stone_bricks'',
     ''andesite_slab'', ''andesite_stairs'', ''andesite_wall'', ''polished_andesite_slab'',
     ''polished_andesite_stairs'', ''copper_ore'', ''crafter'', ''pale_oak_wood'',
     ''pale_oak_log'']"

definition blocks_WATER :: "string list" where
  "blocks_WATER =
    [''water'', ''oak_leaves[waterlogged=true]'', ''spruce_leaves[waterlogged=true]'',
     ''birch_leaves[waterlogged=true]'', ''jungle_leaves[waterlogged=true]'',
     ''acacia_leaves[waterlogged=true]'', ''dark_oak_leaves[waterlogged=true]'',
     ''cherry_leaves[waterlogged=true]'', ''pale_oak_leaves[waterlogged=true]'',
     ''mangrove_leaves[waterlogged=true]'', ''azalea_leaves[waterlogged=true]'',
     ''flowering_azalea_leaves[waterlogged=true]'']"

definition blocks_WOOD :: "string list" where
  "blocks_WOOD =
    [''oak_planks'', ''oak_slab'', ''oak_stairs'', ''oak_sign'', ''oak_pressure_plate'',
     ''oak_trapdoor'', ''oak_fence'', ''oak_fence_gate'', ''oak_door'', ''crafting_table'',
     ''bookshelf'', ''note_block'', ''chest'', ''trapped_chest'', ''daylight_detector'',
     ''loom'', ''composter'', ''lectern'', ''smithing_table'', ''fletching_table'',
     ''beehive'', ''oak_wood'', ''oak_stripped_log'', ''oak_stripped_wood'', ''barrel'',
     ''cartography_table'', ''chiseled_bookshelf'', ''petrified_oak_slab'', ''bamboo_sapling'',
     ''dead_bush'']"

definition blocks_QUARTZ :: "string list" where
  "blocks_QUARTZ =
    [''quartz_block'', ''smooth_quartz'', ''chiseled_quartz_block'', ''quartz_pillar'',
     ''quartz_slab'', ''quartz_stairs'', ''diorite'', ''polished_diorite'', ''sea_lantern'',
     ''target'', ''pale_oak_planks'', ''diorite_slab'', ''diorite_stairs'', ''diorite_wall'',
     ''polished_diorite_slab'', ''polished_diorite_stairs'', ''smooth_quartz_slab'',
     ''smooth_quartz_stairs'', ''pale_oak_slab'', ''pale_oak_stairs'', ''pale_oak_fence'',
     ''pale_oak_fence_gate'', ''pale_oak_door'', ''pale_oak_trapdoor'', ''pale_oak_sign'',
     ''pale_oak_pressure_plate'', ''pale_oak_stripped_log'', ''pale_oak_stripped_wood'']"

definition blocks_COLOR_ORANGE :: "string list" where
  "blocks_COLOR_ORANGE =
    [''acacia_planks'', ''acacia_slab'', ''acacia_stairs'', ''acacia_log'', ''pumpkin'',
     ''jack_o_lantern'', ''terracotta'', ''red_sand'', ''red_sandstone'', ''orange_wool'',
     ''orange_carpet'', ''orange_concrete'', ''orange_glazed_terracotta'', ''honey_block'',
     ''honeycomb_block'', ''lightning_rod'', ''copper_block'', ''acacia_sign'',
     ''acacia_trapdoor'', ''acacia_pressure_plate'', ''acacia_fence_gate'', ''acacia_fence'',
     ''acacia_door'', ''acacia_stripped_log'', ''acacia_stripped_wood'',
     ''orange_shulker_box'', ''orange_stained_glass'', ''orange_concrete_powder'',
     ''orange_candle'', ''carved_pumpkin'', ''red_sandstone_slab'', ''red_sandstone_stairs'',
     ''red_sandstone_wall'', ''cut_red_sandstone'', ''cut_red_sandstone_slab'',
     ''chiseled_red_sandstone'', ''smooth_red_sandstone'', ''smooth_red_sandstone_slab'',
     ''smooth_red_sandstone_stairs'', ''raw_copper_block'', ''creaking_heart'',
     ''open_eyeblossom'', ''waxed_copper_block'', ''cut_copper'', ''cut_copper_slab'',
     ''cut_copper_stairs'', ''waxed_cut_copper'', ''waxed_cut_copper_slab'',
     ''waxed_cut_copper_stairs'']"

definition blocks_COLOR_MAGENTA :: "string list" where
  "blocks_COLOR_MAGENTA =
    [''magenta_wool'', ''magenta_carpet'', ''magenta_concrete'', ''magenta_glazed_terracotta'',
     ''purpur_block'', ''purpur_pillar'', ''purpur_slab'', ''purpur_stairs'',
     ''magenta_shulker_box'', ''magenta_stained_glass'', ''magenta_concrete_powder'',
     ''magenta_candle'']"

definition blocks_COLOR_LIGHT_BLUE :: "string list" where
  "blocks_COLOR_LIGHT_BLUE =
    [''light_blue_wool'', ''light_blue_carpet'', ''light_blue_concrete'',
     ''light_blue_glazed_terracotta'', ''light_blue_shulker_box'',
     ''light_blue_stained_glass'', ''light_blue_concrete_powder'', ''light_blue_candle'']"

definition blocks_COLOR_YELLOW :: "string list" where
  "blocks_COLOR_YELLOW =
    [''yellow_wool'', ''yellow_carpet'', ''yellow_concrete'', ''yellow_glazed_terracotta'',
     ''sponge'', ''wet_sponge'', ''hay_block'', ''bee_nest'', ''bamboo_planks'',
     ''yellow_shulker_box'', ''yellow_stained_glass'', ''yellow_concrete_powder'',
     ''yellow_candle'']"

definition blocks_COLOR_LIGHT_GREEN :: "string list" where
  "blocks_COLOR_LIGHT_GREEN =
    [''lime_wool'', ''lime_carpet'', ''lime_concrete'', ''lime_glazed_terracotta'', ''melon'',
     ''lime_shulker_box'', ''lime_stained_glass'', ''lime_concrete_powder'', ''lime_candle'']"

definition blocks_COLOR_PINK :: "string list" where
  "blocks_COLOR_PINK =
    [''pink_wool'', ''pink_carpet'', ''pink_concrete'', ''pink_glazed_terracotta'',
     ''brain_coral_block'', ''pearlescent_froglight'', ''cherry_leaves'', ''pink_shulker_box'',
     ''pink_stained_glass'', ''pink_concrete_powder'', ''pink_candle'']"

definition blocks_COLOR_GRAY :: "string list" where
  "blocks_COLOR_GRAY =
    [''gray_wool'', ''gray_carpet'', ''gray_concrete'', ''gray_glazed_terracotta'',
     ''tinted_glass'', ''acacia_wood'', ''gray_shulker_box'', ''gray_stained_glass'',
     ''gray_concrete_powder'', ''gray_candle'']"

definition blocks_COLOR_LIGHT_GRAY :: "string list" where
  "blocks_COLOR_LIGHT_GRAY =
    [''light_gray_wool'', ''light_gray_carpet'', ''light_gray_concrete'',
     ''light_gray_glazed_terracotta'', ''structure_block'', ''jigsaw_block'',
     ''pale_moss_block'', ''pale_moss_carpet'', ''light_gray_shulker_box'',
     ''light_gray_stained_glass'', ''light_gray_concrete_powder'', ''light_gray_candle'']"

definition blocks_COLOR_CYAN :: "string list" where
  "blocks_COLOR_CYAN =
    [''cyan_wool'', ''cyan_carpet'', ''cyan_concrete'', ''cyan_glazed_terracotta'',
     ''prismarine'', ''sculk_sensor'', ''warped_roots'', ''nether_sprouts'',
     ''twisting_vines'', ''prismarine_slab'', ''prismarine_stairs'', ''prismarine_wall'',
     ''calibrated_sculk_sensor'', ''warped_fungus'', ''cyan_shulker_box'',
     ''cyan_stained_glass'', ''cyan_concrete_powder'', ''cyan_candle'']"

definition blocks_COLOR_PURPLE :: "string list" where
  "blocks_COLOR_PURPLE =
    [''purple_wool'', ''purple_carpet'', ''purple_concrete'', ''purple_glazed_terracotta'',
     ''mycelium'', ''chorus_plant'', ''chorus_flower'', ''budding_amethyst'',
     ''amethyst_block'', ''shulker_box'', ''bubble_coral_block'', ''purple_shulker_box'',
     ''purple_stained_glass'', ''purple_concrete_powder'', ''purple_candle'']"

definition blocks_COLOR_BLUE :: "string list" where
  "blocks_COLOR_BLUE =
    [''blue_wool'', ''blue_carpet'', ''blue_concrete'', ''blue_glazed_terracotta'',
     ''tube_coral_block'', ''blue_shulker_box'', ''blue_stained_glass'',
     ''blue_concrete_powder'', ''blue_candle'']"

definition blocks_COLOR_BROWN :: "string list" where
  "blocks_COLOR_BROWN =
    [''dark_oak_planks'', ''dark_oak_slab'', ''dark_oak_stairs'', ''dark_oak_log'',
     ''dark_oak_wood'', ''spruce_log'', ''soul_sand'', ''soul_soil'', ''brown_wool'',
     ''brown_carpet'', ''brown_concrete'', ''brown_glazed_terracotta'', ''brown_mushroom'',
     ''command_block'', ''dark_oak_stripped_log'', ''dark_oak_stripped_wood'',
     ''dark_oak_sign'', ''dark_oak_pressure_plate'', ''dark_oak_trapdoor'',
     ''dark_oak_fence_gate'', ''dark_oak_fence'', ''dark_oak_door'', ''brown_shulker_box'',
     ''brown_stained_glass'', ''brown_concrete_powder'', ''brown_candle'', ''leaf_litter'']"

definition blocks_COLOR_GREEN :: "string list" where
  "blocks_COLOR_GREEN =
    [''green_wool'', ''green_carpet'', ''green_concrete'', ''green_glazed_terracotta'',
     ''end_portal_frame'', ''moss_block'', ''moss_carpet'', ''dried_kelp_block'',
     ''sea_pickle'', ''green_shulker_box'', ''green_stained_glass'', ''green_concrete_powder'',
     ''green_candle'']"

definition blocks_COLOR_RED :: "string list" where
  "blocks_COLOR_RED =
    [''red_wool'', ''red_carpet'', ''red_concrete'', ''red_glazed_terracotta'', ''bricks'',
     ''brick_slab'', ''brick_stairs'', ''brick_wall'', ''nether_wart_block'', ''nether_wart'',
     ''enchanting_table'', ''red_mushroom_block'', ''red_mushroom'', ''shroomlight'',
     ''mangrove_planks'', ''mangrove_log'', ''sniffer_egg'', ''mangrove_slab'',
     ''mangrove_stairs'', ''mangrove_fence'', ''mangrove_fence_gate'', ''mangrove_door'',
     ''mangrove_trapdoor'', ''mangrove_sign'', ''mangrove_pressure_plate'',
     ''mangrove_stripped_log'', ''mangrove_wood'', ''mangrove_stripped_wood'',
     ''red_shulker_box'', ''red_stained_glass'', ''red_concrete_powder'', ''red_candle'',
     ''fire_coral_block'']"

definition blocks_COLOR_BLACK :: "string list" where
  "blocks_COLOR_BLACK =
    [''black_wool'', ''black_carpet'', ''black_concrete'', ''black_glazed_terracotta'',
     ''obsidian'', ''coal_block'', ''dragon_egg'', ''blackstone'', ''polished_blackstone'',
     ''polished_blackstone_bricks'', ''netherite_block'', ''ancient_debris'',
     ''crying_obsidian'', ''respawn_anchor'', ''sculk'', ''sculk_catalyst'',
     ''sculk_shrieker'', ''sculk_vein'', ''basalt'', ''polished_basalt'', ''smooth_basalt'',
     ''black_shulker_box'', ''black_stained_glass'', ''black_concrete_powder'', ''black_candle'']"

definition blocks_GOLD :: "string list" where
  "blocks_GOLD =
    [''gold_block'', ''light_weighted_pressure_plate'', ''bell'', ''raw_gold_block'']"

definition blocks_DIAMOND :: "string list" where
  "blocks_DIAMOND =
    [''diamond_block'', ''prismarine_bricks'', ''dark_prismarine'', ''conduit'', ''beacon'']"

definition blocks_LAPIS :: "string list" where
  "blocks_LAPIS =
    [''lapis_block'']"

definition blocks_EMERALD :: "string list" where
  "blocks_EMERALD =
    [''emerald_block'']"

definition blocks_PODZOL :: "string list" where
  "blocks_PODZOL =
    [''podzol'', ''spruce_planks'', ''spruce_slab'', ''spruce_stairs'', ''spruce_log'',
     ''spruce_wood'', ''spruce_fence'', ''spruce_fence_gate'', ''spruce_door'',
     ''spruce_trapdoor'', ''spruce_pressure_plate'', ''spruce_sign'', ''oak_log'',
     ''jungle_log'', ''campfire'', ''mangrove_roots'', ''muddy_mangrove_roots'',
     ''spruce_stripped_log'', ''spruce_stripped_wood'', ''soul_campfire'']"

definition blocks_NETHER :: "string list" where
  "blocks_NETHER =
    [''netherrack'', ''nether_bricks'', ''nether_brick_slab'', ''nether_brick_stairs'',
     ''nether_brick_fence'', ''nether_brick_wall'', ''red_nether_bricks'', ''nether_gold_ore'',
     ''nether_quartz_ore'', ''magma_block'', ''crimson_roots'', ''crimson_fungus'',
     ''weeping_vines'', ''chiseled_nether_bricks'', ''cracked_nether_bricks'',
     ''red_nether_brick_slab'', ''red_nether_brick_stairs'', ''red_nether_brick_wall'']"

definition blocks_TERRACOTTA_WHITE :: "string list" where
  "blocks_TERRACOTTA_WHITE =
    [''white_terracotta'', ''calcite'', ''cherry_planks'', ''cherry_slab'', ''cherry_stairs'',
     ''cherry_fence'', ''cherry_fence_gate'', ''cherry_door'', ''cherry_trapdoor'',
     ''cherry_log'', ''cherry_sign'', ''cherry_pressure_plate'']"

definition blocks_TERRACOTTA_ORANGE :: "string list" where
  "blocks_TERRACOTTA_ORANGE =
    [''orange_terracotta'', ''redstone_lamp'', ''resin_block'', ''resin_bricks'',
     ''resin_brick_slab'', ''resin_brick_stairs'', ''resin_brick_wall'',
     ''resin_clump[south=true]'']"

definition blocks_TERRACOTTA_MAGENTA :: "string list" where
  "blocks_TERRACOTTA_MAGENTA =
    [''magenta_terracotta'']"

definition blocks_TERRACOTTA_LIGHT_BLUE :: "string list" where
  "blocks_TERRACOTTA_LIGHT_BLUE =
    [''light_blue_terracotta'']"

definition blocks_TERRACOTTA_YELLOW :: "string list" where
  "blocks_TERRACOTTA_YELLOW =
    [''yellow_terracotta'']"

definition blocks_TERRACOTTA_LIGHT_GREEN :: "string list" where
  "blocks_TERRACOTTA_LIGHT_GREEN =
    [''lime_terracotta'']"

definition blocks_TERRACOTTA_PINK :: "string list" where
  "blocks_TERRACOTTA_PINK =
    [''pink_terracotta'', ''cherry_wood'']"

definition blocks_TERRACOTTA_GRAY :: "string list" where
  "blocks_TERRACOTTA_GRAY =
    [''gray_terracotta'', ''tuff'', ''tuff_bricks'', ''polished_tuff'', ''tuff_slab'',
     ''tuff_brick_slab'', ''tuff_stairs'', ''tuff_brick_stairs'', ''chiseled_tuff'',
     ''chiseled_tuff_bricks'', ''cherry_log'', ''tuff_wall'', ''tuff_brick_wall'',
     ''polished_tuff_slab'', ''polished_tuff_stairs'', ''polished_tuff_wall'']"

definition blocks_TERRACOTTA_LIGHT_GRAY :: "string list" where
  "blocks_TERRACOTTA_LIGHT_GRAY =
    [''light_gray_terracotta'', ''exposed_copper'', ''waxed_exposed_copper'',
     ''exposed_cut_copper'', ''mud_bricks'', ''mud_brick_slab'', ''mud_brick_stairs'',
     ''mud_brick_wall'', ''exposed_copper_trapdoor'', ''exposed_cut_copper_slab'',
     ''exposed_cut_copper_stairs'', ''waxed_exposed_cut_copper'',
     ''waxed_exposed_cut_copper_slab'', ''waxed_exposed_cut_copper_stairs'']"

definition blocks_TERRACOTTA_CYAN :: "string list" where
  "blocks_TERRACOTTA_CYAN =
    [''cyan_terracotta'', ''mud'']"

definition blocks_TERRACOTTA_PURPLE :: "string list" where
  "blocks_TERRACOTTA_PURPLE =
    [''purple_terracotta'']"

definition blocks_TERRACOTTA_BLUE :: "string list" where
  "blocks_TERRACOTTA_BLUE =
    [''blue_terracotta'']"

definition blocks_TERRACOTTA_BROWN :: "string list" where
  "blocks_TERRACOTTA_BROWN =
    [''brown_terracotta'', ''dripstone_block'', ''pointed_dripstone'']"

definition blocks_TERRACOTTA_GREEN :: "string list" where
  "blocks_TERRACOTTA_GREEN =
    [''green_terracotta'']"

definition blocks_TERRACOTTA_RED :: "string list" where
  "blocks_TERRACOTTA_RED =
    [''red_terracotta'', ''decorated_pot'']"

definition blocks_TERRACOTTA_BLACK :: "string list" where
  "blocks_TERRACOTTA_BLACK =
    [''black_terracotta'']"

definition blocks_CRIMSON_NYLIUM :: "string list" where
  "blocks_CRIMSON_NYLIUM =
    [''crimson_nylium'']"

definition blocks_CRIMSON_STEM :: "string list" where
  "blocks_CRIMSON_STEM =
    [''crimson_planks'', ''crimson_stem'', ''stripped_crimson_stem'', ''crimson_slab'',
     ''crimson_stairs'', ''crimson_fence'', ''crimson_fence_gate'', ''crimson_door'',
     ''crimson_trapdoor'', ''crimson_sign'', ''crimson_pressure_plate'']"

definition blocks_CRIMSON_HYPHAE :: "string list" where
  "blocks_CRIMSON_HYPHAE =
    [''crimson_hyphae'', ''stripped_crimson_hyphae'']"

definition blocks_WARPED_NYLIUM :: "string list" where
  "blocks_WARPED_NYLIUM =
    [''warped_nylium'', ''oxidized_copper'', ''waxed_oxidized_copper'',
     ''oxidized_cut_copper'', ''oxidized_copper_trapdoor'', ''oxidized_cut_copper_slab'',
     ''oxidized_cut_copper_stairs'', ''waxed_oxidized_cut_copper'',
     ''waxed_oxidized_cut_copper_slab'', ''waxed_oxidized_cut_copper_stairs'']"

definition blocks_WARPED_STEM :: "string list" where
  "blocks_WARPED_STEM =
    [''warped_planks'', ''warped_stem'', ''stripped_warped_stem'', ''warped_slab'',
     ''warped_stairs'', ''warped_fence'', ''warped_fence_gate'', ''warped_door'',
     ''warped_trapdoor'', ''warped_sign'', ''warped_pressure_plate'', ''weathered_copper'',
     ''waxed_weathered_copper'', ''weathered_cut_copper'', ''weathered_cut_copper_slab'',
     ''weathered_cut_copper_stairs'', ''waxed_weathered_cut_copper'',
     ''waxed_weathered_cut_copper_slab'', ''waxed_weathered_cut_copper_stairs'']"

definition blocks_WARPED_HYPHAE :: "string list" where
  "blocks_WARPED_HYPHAE =
    [''warped_hyphae'', ''stripped_warped_hyphae'']"

definition blocks_WARPED_WART_BLOCK :: "string list" where
  "blocks_WARPED_WART_BLOCK =
    [''warped_wart_block'']"

definition blocks_DEEPSLATE :: "string list" where
  "blocks_DEEPSLATE =
    [''deepslate'', ''cobbled_deepslate'', ''deepslate_bricks'', ''deepslate_tiles'',
     ''polished_deepslate'', ''chiseled_deepslate'', ''cobbled_deepslate_slab'',
     ''deepslate_brick_slab'', ''deepslate_tile_slab'', ''reinforced_deepslate'',
     ''cobbled_deepslate_stairs'', ''cobbled_deepslate_wall'', ''deepslate_brick_stairs'',
     ''deepslate_brick_wall'', ''deepslate_tile_stairs'', ''deepslate_tile_wall'',
     ''cracked_deepslate_bricks'', ''cracked_deepslate_tiles'', ''deepslate_gold_ore'',
     ''deepslate_iron_ore'', ''deepslate_coal_ore'', ''deepslate_lapis_ore'',
     ''deepslate_diamond_ore'', ''deepslate_redstone_ore'', ''deepslate_emerald_ore'',
     ''deepslate_copper_ore'']"

definition blocks_RAW_IRON :: "string list" where
  "blocks_RAW_IRON =
    [''raw_iron_block'']"

definition blocks_GLOW_LICHEN :: "string list" where
  "blocks_GLOW_LICHEN =
    [''glow_lichen[south=true]'', ''verdant_froglight'']"

definition BASE_COLORS :: "BaseColor list" where
  "BASE_COLORS =
    [BaseColor ''NONE'' 0 0 0 False blocks_NONE,
     BaseColor ''GRASS'' 127 178 56 False blocks_GRASS,
     BaseColor ''SAND'' 247 233 163 False blocks_SAND,
     BaseColor ''WOOL'' 199 199 199 False blocks_WOOL,
     BaseColor ''FIRE'' 255 0 0 False blocks_FIRE,
     BaseColor ''ICE'' 160 160 255 False blocks_ICE,
     BaseColor ''METAL'' 167 167 167 False blocks_METAL,
     BaseColor ''PLANT'' 0 124 0 False blocks_PLANT,
     BaseColor ''SNOW'' 255 255 255 False blocks_SNOW,
     BaseColor ''CLAY'' 164 168 184 False blocks_CLAY,
     BaseColor ''DIRT'' 151 109 77 False blocks_DIRT,
     BaseColor ''STONE'' 112 112 112 False blocks_STONE,
     BaseColor ''WATER'' 64 64 255 True blocks_WATER,
     BaseColor ''WOOD'' 143 119 72 False blocks_WOOD,
     BaseColor ''QUARTZ'' 255 252 245 False blocks_QUARTZ,
     BaseColor ''COLOR_ORANGE'' 216 127 51 False blocks_COLOR_ORANGE,
     BaseColor ''COLOR_MAGENTA'' 178 76 216 False blocks_COLOR_MAGENTA,
     BaseColor ''COLOR_LIGHT_BLUE'' 102 153 216 False blocks_COLOR_LIGHT_BLUE,
     BaseColor ''COLOR_YELLOW'' 229 229 51 False blocks_COLOR_YELLOW,
     BaseColor ''COLOR_LIGHT_GREEN'' 127 204 25 False blocks_COLOR_LIGHT_GREEN,
     BaseColor ''COLOR_PINK'' 242 127 165 False blocks_COLOR_PINK,
     BaseColor ''COLOR_GRAY'' 76 76 76 False blocks_COLOR_GRAY,
     BaseColor ''COLOR_LIGHT_GRAY'' 153 153 153 False blocks_COLOR_LIGHT_GRAY,
     BaseColor ''COLOR_CYAN'' 76 127 153 False blocks_COLOR_CYAN,
     BaseColor ''COLOR_PURPLE'' 127 63 178 False blocks_COLOR_PURPLE,
     BaseColor ''COLOR_BLUE'' 51 76 178 False blocks_COLOR_BLUE,
     BaseColor ''COLOR_BROWN'' 102 76 51 False blocks_COLOR_BROWN,
     BaseColor ''COLOR_GREEN'' 102 127 51 False blocks_COLOR_GREEN,
     BaseColor ''COLOR_RED'' 153 51 51 False blocks_COLOR_RED,
     BaseColor ''COLOR_BLACK'' 25 25 25 False blocks_COLOR_BLACK,
     BaseColor ''GOLD'' 250 238 77 False blocks_GOLD,
     BaseColor ''DIAMOND'' 92 219 213 False blocks_DIAMOND,
     BaseColor ''LAPIS'' 74 128 255 False blocks_LAPIS,
     BaseColor ''EMERALD'' 0 217 58 False blocks_EMERALD,
     BaseColor ''PODZOL'' 129 86 49 False blocks_PODZOL,
     BaseColor ''NETHER'' 112 2 0 False blocks_NETHER,
     BaseColor ''TERRACOTTA_WHITE'' 209 177 161 False blocks_TERRACOTTA_WHITE,
     BaseColor ''TERRACOTTA_ORANGE'' 159 82 36 False blocks_TERRACOTTA_ORANGE,
     BaseColor ''TERRACOTTA_MAGENTA'' 149 87 108 False blocks_TERRACOTTA_MAGENTA,
     BaseColor ''TERRACOTTA_LIGHT_BLUE'' 112 108 138 False blocks_TERRACOTTA_LIGHT_BLUE,
     BaseColor ''TERRACOTTA_YELLOW'' 186 133 36 False blocks_TERRACOTTA_YELLOW,
     BaseColor ''TERRACOTTA_LIGHT_GREEN'' 103 117 53 False blocks_TERRACOTTA_LIGHT_GREEN,
     BaseColor ''TERRACOTTA_PINK'' 160 77 78 False blocks_TERRACOTTA_PINK,
     BaseColor ''TERRACOTTA_GRAY'' 57 41 35 False blocks_TERRACOTTA_GRAY,
     BaseColor ''TERRACOTTA_LIGHT_GRAY'' 135 107 98 False blocks_TERRACOTTA_LIGHT_GRAY,
     BaseColor ''TERRACOTTA_CYAN'' 87 92 92 False blocks_TERRACOTTA_CYAN,
     BaseColor ''TERRACOTTA_PURPLE'' 122 73 88 False blocks_TERRACOTTA_PURPLE,
     BaseColor ''TERRACOTTA_BLUE'' 76 62 92 False blocks_TERRACOTTA_BLUE,
     BaseColor ''TERRACOTTA_BROWN'' 76 50 35 False blocks_TERRACOTTA_BROWN,
     BaseColor ''TERRACOTTA_GREEN'' 76 82 42 False blocks_TERRACOTTA_GREEN,
     BaseColor ''TERRACOTTA_RED'' 142 60 46 False blocks_TERRACOTTA_RED,
     BaseColor ''TERRACOTTA_BLACK'' 37 22 16 False blocks_TERRACOTTA_BLACK,
     BaseColor ''CRIMSON_NYLIUM'' 189 48 49 False blocks_CRIMSON_NYLIUM,
     BaseColor ''CRIMSON_STEM'' 148 63 97 False blocks_CRIMSON_STEM,
     BaseColor ''CRIMSON_HYPHAE'' 92 25 29 False blocks_CRIMSON_HYPHAE,
     BaseColor ''WARPED_NYLIUM'' 22 126 134 False blocks_WARPED_NYLIUM,
     BaseColor ''WARPED_STEM'' 58 142 140 False blocks_WARPED_STEM,
     BaseColor ''WARPED_HYPHAE'' 86 44 62 False blocks_WARPED_HYPHAE,
     BaseColor ''WARPED_WART_BLOCK'' 20 180 133 False blocks_WARPED_WART_BLOCK,
     BaseColor ''DEEPSLATE'' 100 100 100 False blocks_DEEPSLATE,
     BaseColor ''RAW_IRON'' 216 175 147 False blocks_RAW_IRON,
     BaseColor ''GLOW_LICHEN'' 127 167 150 False blocks_GLOW_LICHEN]"

subsection \<open>Decimal rendering of numbers in template literals\<close>

definition digitChar :: "nat \<Rightarrow> char" where
  "digitChar d = ''0123456789'' ! d"

fun showNat :: "nat \<Rightarrow> string" where
  "showNat n = (if n < 10 then [digitChar n] else showNat (n div 10) @ [digitChar (n mod 10)])"

declare showNat.simps [simp del]

definition showInt :: "int \<Rightarrow> string" where
  "showInt i = (if i < 0 then CHR ''-'' # showNat (nat (- i)) else showNat (nat i))"

text \<open>Reading a decimal rendering back (used to show that keys are unambiguous).\<close>

definition digitVal :: "char \<Rightarrow> nat" where
  "digitVal c = of_char c - 48"

definition readNat :: "string \<Rightarrow> nat" where
  "readNat cs = foldl (\<lambda>a c. 10 * a + digitVal c) 0 cs"

text \<open>The key \<open>`${r},${g},${b}`\<close> under which a colour is stored and looked up.\<close>

type_synonym rgb = "nat \<times> nat \<times> nat"

definition rgbKey :: "rgb \<Rightarrow> string" where
  "rgbKey t = (case t of (r, g, b) \<Rightarrow> showNat r @ '','' @ showNat g @ '','' @ showNat b)"

subsection \<open>The reverse lookup from shaded RGB to base colour and shade\<close>

datatype ColorMatch = ColorMatch (baseIndex: nat) (shade: nat)

text \<open>
  The shaded triple of a base colour under a multiplier: each channel is
  \<open>Math.floor(channel * multiplier / 255)\<close>.
\<close>

definition shadedTriple :: "BaseColor \<Rightarrow> nat \<Rightarrow> rgb" where
  "shadedTriple c m = (color_r c * m div 255, color_g c * m div 255, color_b c * m div 255)"

text \<open>The four shaded triples of every base colour after index 0, row by row.\<close>

definition shadedRows :: "rgb list list" where
  "shadedRows = map (\<lambda>c. map (shadedTriple c) SHADE_MULTIPLIERS) (tl BASE_COLORS)"

definition rgbCode :: "rgb \<Rightarrow> nat" where
  "rgbCode t = (case t of (r, g, b) \<Rightarrow> r * 65536 + g * 256 + b)"

text \<open>
  \<open>getColorLookup\<close> fills a \<open>Map\<close> in two nested loops: base colours from index 1 on,
  shades 0 to 3; \<open>set\<close> on a key that is already present replaces its value. The map is
  built on first use and cached, so every call returns the same table.
\<close>

definition shadeEntry :: "nat \<Rightarrow> nat \<Rightarrow> string \<times> ColorMatch" where
  "shadeEntry i s =
     (rgbKey (shadedTriple (BASE_COLORS ! i) (SHADE_MULTIPLIERS ! s)), ColorMatch i s)"

definition lookupEntries :: "(string \<times> ColorMatch) list" where
  "lookupEntries =
     concat (map (\<lambda>i. map (\<lambda>s. shadeEntry i s) [0..<4]) [1..<length BASE_COLORS])"

definition mapSet :: "('k \<rightharpoonup> 'v) \<Rightarrow> 'k \<times> 'v \<Rightarrow> ('k \<rightharpoonup> 'v)" where
  "mapSet m kv = m(fst kv \<mapsto> snd kv)"

definition getColorLookup :: "string \<rightharpoonup> ColorMatch" where
  "getColorLookup = foldl mapSet Map.empty lookupEntries"

text \<open>
  \<open>getShadedRgb\<close>: reading \<open>BASE_COLORS[baseIndex]\<close> out of range throws (the
  destructuring of \<open>undefined\<close>), and a shade outside 0..3 has no multiplier and gives
  \<open>NaN\<close> channels; neither is a colour, both are \<open>None\<close> here.
\<close>

definition getShadedRgb :: "nat \<Rightarrow> nat \<Rightarrow> rgb option" where
  "getShadedRgb bi s =
     (if bi < length BASE_COLORS \<and> s < length SHADE_MULTIPLIERS
      then Some (shadedTriple (BASE_COLORS ! bi) (SHADE_MULTIPLIERS ! s))
      else None)"

text \<open>Feeding a shaded triple back into the reverse lookup.\<close>

definition lookupRgb :: "rgb \<Rightarrow> ColorMatch option" where
  "lookupRgb t = getColorLookup (rgbKey t)"

section \<open>Water depth\<close>

text \<open>
  \<open>getWaterDepth\<close>: light water is one block deep; the other shades alternate in a
  checkerboard of \<open>x + z\<close>.
\<close>

definition getWaterDepth :: "nat \<Rightarrow> nat \<Rightarrow> nat \<Rightarrow> nat" where
  "getWaterDepth sh x z =
     (if sh = 2 then 1
      else let even = ((x + z) mod 2 = 0)
           in if sh = 1 then (if even then 5 else 3)
              else (if even then 10 else 7))"

section \<open>JavaScript string and object operations used by the converter\<close>

text \<open>
  \<open>s.includes(p)\<close>, \<open>s.indexOf(c)\<close> for a one-character \<open>c\<close> (\<open>None\<close> is the result -1),
  \<open>s.slice(a, -1)\<close>, \<open>s.split(c)\<close>, \<open>s.trim()\<close>, \<open>s.toLowerCase()\<close> and
  \<open>parts.join(sep)\<close>.
\<close>

fun startsWith :: "string \<Rightarrow> string \<Rightarrow> bool" where
  "startsWith s [] = True"
| "startsWith [] (p # ps) = False"
| "startsWith (c # cs) (p # ps) = (c = p \<and> startsWith cs ps)"

fun strIncludes :: "string \<Rightarrow> string \<Rightarrow> bool" where
  "strIncludes [] p = (p = [])"
| "strIncludes (c # cs) p = (startsWith (c # cs) p \<or> strIncludes cs p)"

fun indexOf :: "string \<Rightarrow> char \<Rightarrow> nat option" where
  "indexOf [] c = None"
| "indexOf (x # xs) c = (if x = c then Some 0 else map_option Suc (indexOf xs c))"

definition sliceToLast :: "string \<Rightarrow> nat \<Rightarrow> string" where
  "sliceToLast s a = take (length s - 1 - a) (drop a s)"

fun strSplit :: "char \<Rightarrow> string \<Rightarrow> string list" where
  "strSplit c [] = [[]]"
| "strSplit c (x # xs) =
     (if x = c then [] # strSplit c xs
      else (case strSplit c xs of [] \<Rightarrow> [[x]] | h # t \<Rightarrow> (x # h) # t))"

definition isSpace :: "char \<Rightarrow> bool" where
  "isSpace c = (of_char c \<in> {9, 10, 11, 12, 13, 32, 160 :: nat})"

definition trim :: "string \<Rightarrow> string" where
  "trim s = rev (dropWhile isSpace (rev (dropWhile isSpace s)))"

text \<open>
  Lower-casing a code unit below 256: the letters A to Z and the accented capitals
  (192 to 222 without 215) gain 32, which sets bit 5 of the code unit.
\<close>

definition lowerChar :: "char \<Rightarrow> char" where
  "lowerChar c =
     (let n = (of_char c :: nat)
      in if (65 \<le> n \<and> n \<le> 90) \<or> (192 \<le> n \<and> n \<le> 222 \<and> n \<noteq> 215)
         then (case c of Char b0 b1 b2 b3 b4 b5 b6 b7 \<Rightarrow> Char b0 b1 b2 b3 b4 True b6 b7)
         else c)"

definition toLowerCase :: "string \<Rightarrow> string" where
  "toLowerCase s = map lowerChar s"

fun strJoin :: "string \<Rightarrow> string list \<Rightarrow> string" where
  "strJoin sep [] = []"
| "strJoin sep [p] = p"
| "strJoin sep (p # q # ps) = p @ sep @ strJoin sep (q # ps)"

text \<open>
  A plain object used as a string-keyed table (\<open>props\<close>): an association list in
  insertion order. Assigning to a key that is present replaces its value in place;
  assigning a string to \<open>__proto__\<close> of an object literal creates no property.
  \<open>Object.keys\<close> lists the keys that are array indices (canonical decimal numbers
  below \<open>2^32 - 1\<close>) first, in ascending order, and then the other keys in insertion order.
\<close>

type_synonym props = "(string \<times> string) list"

fun objUpdate :: "('k \<times> 'v) list \<Rightarrow> 'k \<Rightarrow> 'v \<Rightarrow> ('k \<times> 'v) list" where
  "objUpdate [] k v = [(k, v)]"
| "objUpdate ((k', v') # ps) k v =
     (if k' = k then (k, v) # ps else (k', v') # objUpdate ps k v)"

definition objSet :: "props \<Rightarrow> string \<Rightarrow> string \<Rightarrow> props" where
  "objSet ps k v = (if k = ''__proto__'' then ps else objUpdate ps k v)"

definition isArrayIndex :: "string \<Rightarrow> bool" where
  "isArrayIndex k =
     (k \<noteq> [] \<and> list_all (\<lambda>c. c \<in> set ''0123456789'') k \<and> (k = ''0'' \<or> hd k \<noteq> CHR ''0'')
      \<and> readNat k < 4294967295)"

definition objectKeys :: "props \<Rightarrow> string list" where
  "objectKeys ps =
     (let ks = map fst ps
      in sort_key readNat (filter isArrayIndex ks) @ filter (\<lambda>k. \<not> isArrayIndex k) ks)"

definition objGet :: "props \<Rightarrow> string \<Rightarrow> string" where
  "objGet ps k = (case map_of ps k of Some v \<Rightarrow> v | None \<Rightarrow> ''undefined'')"

text \<open>
  The loop shared by \<open>resolveBlockName\<close> and \<open>parseBlockId\<close>: every part of the
  bracketed list that contains \<open>=\<close> sets one property, key and value trimmed.
\<close>

definition parseProps :: "props \<Rightarrow> string \<Rightarrow> props" where
  "parseProps ps0 propsStr =
     foldl (\<lambda>ps part.
        (case indexOf part CHR ''='' of
           None \<Rightarrow> ps
         | Some eq \<Rightarrow> objSet ps (trim (take eq part)) (trim (drop (eq + 1) part))))
       ps0 (strSplit CHR '','' propsStr)"

definition isFillerDisabled :: "string \<Rightarrow> bool" where
  "isFillerDisabled fillerBlock =
     (let lower = toLowerCase (trim fillerBlock) in lower = ''air'' \<or> lower = ''none'')"

definition resolveBlockName :: "string \<Rightarrow> string" where
  "resolveBlockName block =
     (let (name, props) =
            (case indexOf block CHR ''['' of
               Some bracketIdx \<Rightarrow>
                 (take bracketIdx block, parseProps [] (sliceToLast block (bracketIdx + 1)))
             | None \<Rightarrow> (block, []));
          props = (if strIncludes name ''leaves'' then objSet props ''persistent'' ''true'' else props);
          fullName = ''minecraft:'' @ name;
          propKeys = objectKeys props
      in if propKeys \<noteq> []
         then fullName @ ''['' @ strJoin '','' (map (\<lambda>k. k @ ''='' @ objGet props k) propKeys) @ '']''
         else fullName)"

definition isWaterBlock :: "string \<Rightarrow> bool" where
  "isWaterBlock blockName = (blockName = ''minecraft:water'' \<or> strIncludes blockName ''waterlogged=true'')"

text \<open>
  \<open>parseInt\<close> on the decimal renderings that the converter's keys are made of: an
  optional minus sign and digits.
\<close>

definition parseInt :: "string \<Rightarrow> int" where
  "parseInt s = (case s of [] \<Rightarrow> 0
                 | c # cs \<Rightarrow> if c = CHR ''-'' then - int (readNat cs) else int (readNat s))"

text \<open>\<open>s.replace(/^minecraft:/, "")\<close>.\<close>

definition stripMinecraft :: "string \<Rightarrow> string" where
  "stripMinecraft s = (if startsWith s ''minecraft:'' then drop 10 s else s)"

definition FRAGILE_BLOCKS :: "string list" where
  "FRAGILE_BLOCKS =
    [''white_carpet'', ''orange_carpet'', ''magenta_carpet'', ''light_blue_carpet'',
     ''yellow_carpet'', ''lime_carpet'', ''pink_carpet'', ''gray_carpet'',
     ''light_gray_carpet'', ''cyan_carpet'', ''purple_carpet'', ''blue_carpet'',
     ''brown_carpet'', ''green_carpet'', ''red_carpet'', ''black_carpet'', ''moss_carpet'',
     ''pale_moss_carpet'', ''stone_pressure_plate'', ''oak_pressure_plate'',
     ''birch_pressure_plate'', ''spruce_pressure_plate'', ''jungle_pressure_plate'',
     ''acacia_pressure_plate'', ''dark_oak_pressure_plate'', ''crimson_pressure_plate'',
     ''warped_pressure_plate'', ''cherry_pressure_plate'', ''pale_oak_pressure_plate'',
     ''light_weighted_pressure_plate'', ''heavy_weighted_pressure_plate'',
     ''mangrove_pressure_plate'', ''oak_sign'', ''birch_sign'', ''spruce_sign'',
     ''jungle_sign'', ''acacia_sign'', ''dark_oak_sign'', ''crimson_sign'', ''warped_sign'',
     ''cherry_sign'', ''pale_oak_sign'', ''mangrove_sign'', ''oak_door'', ''birch_door'',
     ''spruce_door'', ''jungle_door'', ''acacia_door'', ''dark_oak_door'', ''crimson_door'',
     ''warped_door'', ''cherry_door'', ''pale_oak_door'', ''mangrove_door'', ''iron_door'',
     ''oak_trapdoor'', ''birch_trapdoor'', ''spruce_trapdoor'', ''jungle_trapdoor'',
     ''acacia_trapdoor'', ''dark_oak_trapdoor'', ''crimson_trapdoor'', ''warped_trapdoor'',
     ''cherry_trapdoor'', ''pale_oak_trapdoor'', ''mangrove_trapdoor'', ''iron_trapdoor'',
     ''candle'', ''white_candle'', ''orange_candle'', ''magenta_candle'',
     ''light_blue_candle'', ''yellow_candle'', ''lime_candle'', ''pink_candle'',
     ''gray_candle'', ''light_gray_candle'', ''cyan_candle'', ''purple_candle'',
     ''blue_candle'', ''brown_candle'', ''green_candle'', ''red_candle'', ''black_candle'',
     ''pink_petals'', ''fern'', ''short_grass'', ''tall_grass'', ''dead_bush'', ''sugar_cane'',
     ''cactus'', ''vines'', ''lily_pad'', ''crimson_roots'', ''warped_roots'',
     ''nether_sprouts'', ''twisting_vines'', ''weeping_vines'', ''crimson_fungus'',
     ''warped_fungus'', ''hanging_roots'', ''sea_pickle'', ''nether_wart'', ''bamboo_sapling'',
     ''brown_mushroom'', ''red_mushroom'', ''chorus_plant'', ''chorus_flower'', ''fire'',
     ''snow'', ''pointed_dripstone'', ''lantern'', ''bell'', ''turtle_egg'', ''leaf_litter'',
     ''open_eyeblossom'', ''closed_eyeblossom'', ''sculk_sensor'', ''calibrated_sculk_sensor'',
     ''sculk_vein'', ''scaffolding'', ''glow_lichen'', ''resin_clump'']"

definition isFragileBlock :: "string \<Rightarrow> bool" where
  "isFragileBlock blockId =
     (let name = (case indexOf blockId CHR ''['' of Some i \<Rightarrow> take i blockId | None \<Rightarrow> blockId)
      in name \<in> set FRAGILE_BLOCKS)"

section \<open>Voxel placements, support insertion and bounds\<close>

text \<open>
  A \<open>BlockEntry\<close> is a placement \<open>{x, y, z, blockName}\<close>; the fields \<open>blk_x\<close>, \<open>blk_y\<close>,
  \<open>blk_z\<close> stand for \<open>x\<close>, \<open>y\<close>, \<open>z\<close>. A function of the source that changes the list
  it is given returns the new list here.
\<close>

datatype BlockEntry = BlockEntry (blk_x: int) (blk_y: int) (blk_z: int) (blockName: string)

datatype CustomColor = CustomColor (cc_r: nat) (cc_g: nat) (cc_b: nat) (cc_block: string)

datatype BuildMode =
    Flat | StaircaseValley | StaircaseClassic | StaircaseNorthline | StaircaseSouthline
  | StaircaseCancer | SuppressChecker | SuppressPairs | SuppressPairsEW | SuppressDualLayer

datatype SupportMode = SupportNone | SupportSteps | SupportAll | SupportFragile | SupportWater

text \<open>
  The conversion options; each field \<open>opt_f\<close> stands for the source field \<open>f\<close>. The
  \<open>blockMapping\<close> record of the source is a partial map from palette index to block.
\<close>

record ConversionOptions =
  opt_blockMapping :: "nat \<Rightarrow> string option"
  opt_fillerBlock :: string
  opt_customColors :: "CustomColor list"
  opt_buildMode :: BuildMode
  opt_supportMode :: SupportMode
  opt_baseName :: string
  opt_layerGap :: "int option"

text \<open>The keys \<open>`${x},${y},${z}`\<close> and \<open>`${x},${z}`\<close> of the position sets and maps.\<close>

definition posKey :: "int \<Rightarrow> int \<Rightarrow> int \<Rightarrow> string" where
  "posKey x y z = showInt x @ '','' @ showInt y @ '','' @ showInt z"

definition colKey :: "int \<Rightarrow> int \<Rightarrow> string" where
  "colKey x z = showInt x @ '','' @ showInt z"

definition blockKey :: "BlockEntry \<Rightarrow> string" where
  "blockKey b = posKey (blk_x b) (blk_y b) (blk_z b)"

definition occupiedKeys :: "BlockEntry list \<Rightarrow> string set" where
  "occupiedKeys blocks = foldl (\<lambda>occ b. insert (blockKey b) occ) {} blocks"

subsection \<open>Support under steps\<close>

definition topYStep :: "(string \<times> int) list \<Rightarrow> BlockEntry \<Rightarrow> (string \<times> int) list" where
  "topYStep topY b =
     (let key = colKey (blk_x b) (blk_z b)
      in case map_of topY key of
           None \<Rightarrow> objUpdate topY key (blk_y b)
         | Some cur \<Rightarrow> if blk_y b > cur then objUpdate topY key (blk_y b) else topY)"

definition stepExtra ::
  "(string \<times> int) list \<Rightarrow> string set \<Rightarrow> string \<Rightarrow> string \<times> int \<Rightarrow> BlockEntry list" where
  "stepExtra topY occupied fillerBlock kv =
     (case strSplit CHR '','' (fst kv) of
        xs # zs # rest \<Rightarrow>
          (let y = snd kv; x = parseInt xs; z = parseInt zs;
               northY = map_of topY (colKey x (z - 1));
               southY = map_of topY (colKey x (z + 1));
               higherThanNorth = (case northY of None \<Rightarrow> False | Some n \<Rightarrow> y > n);
               higherThanSouth = (case southY of None \<Rightarrow> False | Some s \<Rightarrow> y > s)
           in if (higherThanNorth \<or> higherThanSouth) \<and> posKey x (y - 1) z \<notin> occupied
              then [BlockEntry x (y - 1) z (resolveBlockName fillerBlock)] else [])
      | _ \<Rightarrow> [])"

definition addStepSupport :: "BlockEntry list \<Rightarrow> string \<Rightarrow> BlockEntry list" where
  "addStepSupport blocks fillerBlock =
     (let topY = foldl topYStep [] blocks;
          occupied = occupiedKeys blocks;
          extra = concat (map (stepExtra topY occupied fillerBlock) topY)
      in blocks @ extra)"

subsection \<open>Support under every block, and under fragile blocks\<close>

definition belowStep ::
  "string \<Rightarrow> BlockEntry list \<times> string set \<Rightarrow> BlockEntry \<Rightarrow> BlockEntry list \<times> string set" where
  "belowStep fillerBlock st b =
     (let extra = fst st; occupied = snd st;
          belowKey = posKey (blk_x b) (blk_y b - 1) (blk_z b)
      in if belowKey \<notin> occupied
         then (extra @ [BlockEntry (blk_x b) (blk_y b - 1) (blk_z b) (resolveBlockName fillerBlock)],
               insert belowKey occupied)
         else (extra, occupied))"

definition addAllSupport :: "BlockEntry list \<Rightarrow> string \<Rightarrow> BlockEntry list" where
  "addAllSupport blocks fillerBlock =
     (let occupied = occupiedKeys blocks;
          extra = fst (foldl (belowStep fillerBlock) ([], occupied) blocks)
      in blocks @ extra)"

definition fragileStep ::
  "string \<Rightarrow> BlockEntry list \<times> string set \<Rightarrow> BlockEntry \<Rightarrow> BlockEntry list \<times> string set" where
  "fragileStep fillerBlock st b =
     (let rawName = stripMinecraft (blockName b)
      in if isFragileBlock rawName then belowStep fillerBlock st b else st)"

definition addFragileSupport :: "BlockEntry list \<Rightarrow> string \<Rightarrow> BlockEntry list" where
  "addFragileSupport blocks fillerBlock =
     (let occupied = occupiedKeys blocks;
          extra = fst (foldl (fragileStep fillerBlock) ([], occupied) blocks)
      in blocks @ extra)"

subsection \<open>Support around water\<close>

definition waterNeighbors :: "BlockEntry \<Rightarrow> (int \<times> int \<times> int) list" where
  "waterNeighbors w =
     [(blk_x w, blk_y w, blk_z w - 1), (blk_x w, blk_y w, blk_z w + 1),
      (blk_x w - 1, blk_y w, blk_z w), (blk_x w + 1, blk_y w, blk_z w),
      (blk_x w, blk_y w - 1, blk_z w)]"

text \<open>The state of the loop: the block list, the set \<open>extra\<close> and the set \<open>occupied\<close>.\<close>

definition waterStep ::
  "string \<Rightarrow> BlockEntry list \<times> string set \<times> string set \<Rightarrow> int \<times> int \<times> int
     \<Rightarrow> BlockEntry list \<times> string set \<times> string set" where
  "waterStep fillerName st n =
     (case st of (blocks, extra, occupied) \<Rightarrow>
        case n of (x, y, z) \<Rightarrow>
          let key = posKey x y z
          in if key \<notin> occupied \<and> key \<notin> extra
             then (blocks @ [BlockEntry x y z fillerName], insert key extra, insert key occupied)
             else st)"

definition addWaterSupport :: "BlockEntry list \<Rightarrow> string \<Rightarrow> BlockEntry list" where
  "addWaterSupport blocks fillerBlock =
     (let occupied = occupiedKeys blocks;
          waterPositions = filter (\<lambda>b. isWaterBlock (blockName b)) blocks;
          fillerName = resolveBlockName fillerBlock
      in fst (foldl (waterStep fillerName) (blocks, {}, occupied)
                (concat (map waterNeighbors waterPositions))))"

definition applySupportMode :: "BlockEntry list \<Rightarrow> string \<Rightarrow> SupportMode \<Rightarrow> BlockEntry list" where
  "applySupportMode blocks filler mode =
     (if isFillerDisabled filler then blocks
      else case mode of
             SupportSteps \<Rightarrow> addStepSupport blocks filler
           | SupportAll \<Rightarrow> addAllSupport blocks filler
           | SupportFragile \<Rightarrow> addFragileSupport blocks filler
           | SupportWater \<Rightarrow> addWaterSupport blocks filler
           | SupportNone \<Rightarrow> blocks)"

definition applySupport :: "BlockEntry list \<Rightarrow> ConversionOptions \<Rightarrow> BlockEntry list" where
  "applySupport blocks options =
     applySupportMode blocks (opt_fillerBlock options) (opt_supportMode options)"

subsection \<open>Bounds\<close>

text \<open>
  The running minimum and maximum of \<open>normalizeAndMeasure\<close> start at \<open>Infinity\<close> and
  \<open>-Infinity\<close>, which is \<open>None\<close> here.
\<close>

definition lowest :: "int list \<Rightarrow> int option" where
  "lowest vs = foldl (\<lambda>m v. case m of None \<Rightarrow> Some v | Some l \<Rightarrow> if v < l then Some v else Some l) None vs"

definition highest :: "int list \<Rightarrow> int option" where
  "highest vs = foldl (\<lambda>m v. case m of None \<Rightarrow> Some v | Some h \<Rightarrow> if v > h then Some v else Some h) None vs"

datatype Dimensions = Dimensions (sizeX: int) (sizeY: int) (sizeZ: int)

definition normalizeAndMeasure :: "BlockEntry list \<Rightarrow> BlockEntry list \<times> Dimensions" where
  "normalizeAndMeasure blocks =
     (if blocks = [] then (blocks, Dimensions 128 1 128)
      else case (lowest (map blk_y blocks), highest (map blk_y blocks),
                 lowest (map blk_z blocks), highest (map blk_z blocks)) of
        (Some minY, Some maxY, Some minZ, Some maxZ) \<Rightarrow>
          (let shifted = map (\<lambda>b. BlockEntry (blk_x b) (blk_y b - minY)
                                   (if minZ < 0 then blk_z b - minZ else blk_z b) (blockName b)) blocks;
               rawSizeZ = (if minZ < 0 then maxZ - minZ else maxZ) + 1;
               minSizeZ = (if minZ < 0 then 129 else 128)
           in (shifted, Dimensions 128 (maxY - minY + 1) (max rawSizeZ minSizeZ)))
      | _ \<Rightarrow> (blocks, Dimensions 128 1 128))"

text \<open>
  Words of the specification used in the statements below: the position of a placement,
  the cell directly beneath it, and a placement moved by an offset in Y and Z.
\<close>

definition blockPos :: "BlockEntry \<Rightarrow> int \<times> int \<times> int" where
  "blockPos b = (blk_x b, blk_y b, blk_z b)"

definition cellBelow :: "BlockEntry \<Rightarrow> int \<times> int \<times> int" where
  "cellBelow b = (blk_x b, blk_y b - 1, blk_z b)"

definition shiftBlock :: "int \<Rightarrow> int \<Rightarrow> BlockEntry \<Rightarrow> BlockEntry" where
  "shiftBlock dy dz b = BlockEntry (blk_x b) (blk_y b - dy) (blk_z b - dz) (blockName b)"

text \<open>The filler placement that the support modes put beneath a block.\<close>

definition fillerBelow :: "string \<Rightarrow> BlockEntry \<Rightarrow> BlockEntry" where
  "fillerBelow f b = BlockEntry (blk_x b) (blk_y b - 1) (blk_z b) (resolveBlockName f)"

section \<open>The binary tag writer\<close>

text \<open>
  \<open>NbtWriter\<close> appends bytes to an array; here every write returns the bytes it appends.
  Bytes are numbers below 256. \<open>v & 0xFF\<close> and \<open>(v >> 8) & 0xFF\<close> on a JavaScript
  integer are \<open>v mod 256\<close> and \<open>v div 256 mod 256\<close>; \<open>setInt32\<close> stores the number
  modulo \<open>2^32\<close>, most significant byte first. \<open>TextEncoder\<close> writes a code unit
  below 128 as one byte and one from 128 to 255 as two.
\<close>

type_synonym bytes = "nat list"

definition writeByte :: "int \<Rightarrow> bytes" where
  "writeByte v = [nat (v mod 256)]"

definition writeShort :: "int \<Rightarrow> bytes" where
  "writeShort v = [nat (v div 256 mod 256), nat (v mod 256)]"

definition writeInt :: "int \<Rightarrow> bytes" where
  "writeInt v =
     (let u = v mod 4294967296
      in [nat (u div 16777216 mod 256), nat (u div 65536 mod 256), nat (u div 256 mod 256),
          nat (u mod 256)])"

definition utf8 :: "string \<Rightarrow> bytes" where
  "utf8 s = concat (map (\<lambda>c. let n = (of_char c :: nat)
                              in if n < 128 then [n] else [192 + n div 64, 128 + n mod 64]) s)"

definition writeString :: "string \<Rightarrow> bytes" where
  "writeString v = (let encoded = utf8 v in writeShort (int (length encoded)) @ encoded)"

definition tagHeader :: "int \<Rightarrow> string \<Rightarrow> bytes" where
  "tagHeader ty nm = writeByte ty @ writeString nm"

definition beginCompound :: "string \<Rightarrow> bytes" where
  "beginCompound nm = tagHeader 10 nm"

definition endCompound :: bytes where
  "endCompound = writeByte 0"

definition intTag :: "string \<Rightarrow> int \<Rightarrow> bytes" where
  "intTag nm v = tagHeader 3 nm @ writeInt v"

definition stringTag :: "string \<Rightarrow> string \<Rightarrow> bytes" where
  "stringTag nm v = tagHeader 8 nm @ writeString v"

definition beginList :: "string \<Rightarrow> int \<Rightarrow> int \<Rightarrow> bytes" where
  "beginList nm elemType count = tagHeader 9 nm @ writeByte elemType @ writeInt count"

definition endCompoundElement :: bytes where
  "endCompoundElement = writeByte 0"

text \<open>\<open>parseBlockId\<close>: the block name and its properties.\<close>

datatype PaletteEntry = PaletteEntry (entry_name: string) (entry_props: props)

definition parseBlockId :: "string \<Rightarrow> PaletteEntry" where
  "parseBlockId ident =
     (case indexOf ident CHR ''['' of
        None \<Rightarrow> PaletteEntry ident []
      | Some bracketIdx \<Rightarrow>
          PaletteEntry (take bracketIdx ident) (parseProps [] (sliceToLast ident (bracketIdx + 1))))"

text \<open>
  The first loop of \<open>writeStructureNbt\<close>: \<open>paletteMap\<close> (a \<open>Map\<close> from block name to
  index, in insertion order) and the \<open>palette\<close> array grow together, by one entry for
  every block name that is not yet a key.
\<close>

definition paletteStep ::
  "(string \<times> nat) list \<times> PaletteEntry list \<Rightarrow> BlockEntry \<Rightarrow> (string \<times> nat) list \<times> PaletteEntry list"
  where
  "paletteStep st b =
     (let paletteMap = fst st; palette = snd st
      in if map_of paletteMap (blockName b) = None
         then (paletteMap @ [(blockName b, length palette)], palette @ [parseBlockId (blockName b)])
         else (paletteMap, palette))"

definition buildPalette :: "BlockEntry list \<Rightarrow> (string \<times> nat) list \<times> PaletteEntry list" where
  "buildPalette blocks = foldl paletteStep ([], []) blocks"

text \<open>
  The state index written for a block is \<open>paletteMap.get(b.blockName)\<close>; a missing key
  would be written as 0 by \<open>setInt32\<close>.
\<close>

definition stateIndex :: "(string \<times> nat) list \<Rightarrow> BlockEntry \<Rightarrow> nat" where
  "stateIndex paletteMap b = (case map_of paletteMap (blockName b) of Some i \<Rightarrow> i | None \<Rightarrow> 0)"

definition paletteEntryBytes :: "PaletteEntry \<Rightarrow> bytes" where
  "paletteEntryBytes e =
     stringTag ''Name'' (entry_name e)
     @ (let propKeys = objectKeys (entry_props e)
        in if propKeys \<noteq> []
           then beginCompound ''Properties''
                @ concat (map (\<lambda>k. stringTag k (objGet (entry_props e) k)) propKeys)
                @ endCompound
           else [])
     @ endCompoundElement"

definition blockBytes :: "BlockEntry \<Rightarrow> nat \<Rightarrow> bytes" where
  "blockBytes b st =
     beginList ''pos'' 3 3 @ writeInt (blk_x b) @ writeInt (blk_y b) @ writeInt (blk_z b)
     @ intTag ''state'' (int st) @ endCompoundElement"

text \<open>The serialisation of a structure, given its palette and the state index of every block.\<close>

definition structureBytes ::
  "int \<Rightarrow> int \<Rightarrow> int \<Rightarrow> PaletteEntry list \<Rightarrow> (BlockEntry \<times> nat) list \<Rightarrow> bytes" where
  "structureBytes sx sy sz palette placed =
     beginCompound ''''
     @ intTag ''DataVersion'' 3837
     @ beginList ''size'' 3 3 @ writeInt sx @ writeInt sy @ writeInt sz
     @ beginList ''palette'' 10 (int (length palette))
     @ concat (map paletteEntryBytes palette)
     @ beginList ''blocks'' 10 (int (length placed))
     @ concat (map (\<lambda>p. blockBytes (fst p) (snd p)) placed)
     @ beginList ''entities'' 0 0
     @ endCompound"

definition writeStructureNbt :: "BlockEntry list \<Rightarrow> int \<Rightarrow> int \<Rightarrow> int \<Rightarrow> bytes" where
  "writeStructureNbt blocks sx sy sz =
     (let paletteMap = fst (buildPalette blocks); palette = snd (buildPalette blocks)
      in structureBytes sx sy sz palette (map (\<lambda>b. (b, stateIndex paletteMap b)) blocks))"

text \<open>
  Words of the specification: the distinct elements of a list in the order of their first
  appearance, and the position of the first appearance of an element.
\<close>

definition firstOccurrences :: "'a list \<Rightarrow> 'a list" where
  "firstOccurrences xs = rev (remdups (rev xs))"


section \<open>Reading a structure file back\<close>

















section \<open>Validation of the image\<close>

text \<open>
  An \<open>ImageData\<close>: width, height and the RGBA bytes, four per pixel, row by row (an
  \<open>ImageData\<close> always holds \<open>4 * width * height\<close> bytes). The fields \<open>img_width\<close>,
  \<open>img_height\<close>, \<open>img_data\<close> stand for \<open>width\<close>, \<open>height\<close>, \<open>data\<close>.
\<close>

datatype ImageData = ImageData (img_width: nat) (img_height: nat) (img_data: "nat list")

text \<open>The pixel of row \<open>z\<close> and column \<open>x\<close> of a 128 pixels wide image.\<close>

definition pixelAlpha :: "ImageData \<Rightarrow> nat \<Rightarrow> nat \<Rightarrow> nat" where
  "pixelAlpha img z x = img_data img ! ((z * 128 + x) * 4 + 3)"

definition pixelKey :: "ImageData \<Rightarrow> nat \<Rightarrow> nat \<Rightarrow> string" where
  "pixelKey img z x =
     (let idx = (z * 128 + x) * 4
      in rgbKey (img_data img ! idx, img_data img ! (idx + 1), img_data img ! (idx + 2)))"

text \<open>\<open>customLookup\<close>: the custom colours by key; a later colour replaces an earlier one.\<close>

definition customKey :: "CustomColor \<Rightarrow> string" where
  "customKey cc = rgbKey (cc_r cc, cc_g cc, cc_b cc)"

definition customLookup :: "CustomColor list \<Rightarrow> (string \<rightharpoonup> CustomColor)" where
  "customLookup ccs = foldl mapSet Map.empty (map (\<lambda>cc. (customKey cc, cc)) ccs)"









section \<open>The staircase builder\<close>

text \<open>
  \<open>ColState\<close> is the state carried from row to row for one column. The fields \<open>cs_y\<close>,
  \<open>cs_transparent\<close>, \<open>cs_waterBottom\<close>, \<open>cs_waterTop\<close>, \<open>cs_waterDepth\<close>,
  \<open>cs_waterBlockStart\<close>, \<open>cs_waterChain\<close> stand for the source fields without the
  prefix; an optional field that is absent is \<open>None\<close>.
\<close>

datatype ColState = ColState
  (cs_y: int)
  (cs_transparent: bool)
  (cs_waterBottom: "int option")
  (cs_waterTop: "int option")
  (cs_waterDepth: "nat option")
  (cs_waterBlockStart: "nat option")
  (cs_waterChain: "(nat \<times> nat) list option")

definition plainState :: "int \<Rightarrow> bool \<Rightarrow> ColState" where
  "plainState y t = ColState y t None None None None None"

definition BASE_Y :: int where
  "BASE_Y = 64"

text \<open>\<open>addBlock\<close> of the builders: the placement with the resolved block name.\<close>

definition addBlock :: "int \<Rightarrow> int \<Rightarrow> int \<Rightarrow> string \<Rightarrow> BlockEntry" where
  "addBlock x y z block = BlockEntry x y z (resolveBlockName block)"

text \<open>
  \<open>options.blockMapping[baseIndex] || baseColor.blocks[0]\<close>: an absent or empty mapping
  falls back to the first block of the colour; an absent first block is \<open>undefined\<close>,
  which like the empty string makes the builders skip the pixel (\<open>None\<close> here).
\<close>

definition mappedBlock :: "ConversionOptions \<Rightarrow> nat \<Rightarrow> string option" where
  "mappedBlock options bi =
     (case opt_blockMapping options bi of
        Some s \<Rightarrow> if s \<noteq> [] then Some s
                  else (case color_blocks (BASE_COLORS ! bi) of [] \<Rightarrow> None
                        | b0 # rest \<Rightarrow> if b0 \<noteq> [] then Some b0 else None)
      | None \<Rightarrow> (case color_blocks (BASE_COLORS ! bi) of [] \<Rightarrow> None
                  | b0 # rest \<Rightarrow> if b0 \<noteq> [] then Some b0 else None))"

text \<open>
  The filler placed one row north when the north neighbour is transparent and the filler
  is not disabled.
\<close>

definition northFiller :: "ConversionOptions \<Rightarrow> bool \<Rightarrow> int \<Rightarrow> int \<Rightarrow> int \<Rightarrow> BlockEntry list" where
  "northFiller options northTransparent x y z =
     (if northTransparent \<and> \<not> isFillerDisabled (opt_fillerBlock options)
      then [addBlock x y (z - 1) (opt_fillerBlock options)] else [])"

text \<open>
  The body of the two nested loops of \<open>buildStaircaseBlocks\<close> for the pixel of row \<open>z\<close>
  and column \<open>x\<close>: from the state of the column in the previous row and the block list
  so far to the new block list and the state of the column in this row.
\<close>

definition staircasePixel ::
  "ImageData \<Rightarrow> ConversionOptions \<Rightarrow> nat \<Rightarrow> nat \<Rightarrow> ColState \<Rightarrow> BlockEntry list
     \<Rightarrow> BlockEntry list \<times> ColState" where
  "staircasePixel img options z x northState blocks =
     (let skip = (blocks, plainState (cs_y northState) True)
      in if pixelAlpha img z x = 0 then skip
         else
           let key = pixelKey img z x;
               match = getColorLookup key;
               customMatch = customLookup (opt_customColors options) key;
               northTransparent = cs_transparent northState;
               northY = cs_y northState;
               xi = int x; zi = int z
           in case customMatch of
                Some cm \<Rightarrow>
                  (blocks @ northFiller options northTransparent xi northY zi
                     @ [addBlock xi northY zi (cc_block cm)],
                   plainState northY False)
              | None \<Rightarrow>
                  (case match of
                     None \<Rightarrow> skip
                   | Some m \<Rightarrow>
                       (case mappedBlock options (baseIndex m) of
                          None \<Rightarrow> skip
                        | Some block \<Rightarrow>
                            if isWater (BASE_COLORS ! baseIndex m) then
                              (let depth = getWaterDepth (shade m) x z;
                                   bottom = (case cs_waterBottom northState of
                                               Some wb \<Rightarrow> wb | None \<Rightarrow> northY);
                                   top = bottom + int depth - 1;
                                   startIdx = length blocks;
                                   chain = (case cs_waterChain northState of
                                              Some c \<Rightarrow> c @ [(startIdx, depth)]
                                            | None \<Rightarrow> [(startIdx, depth)])
                               in (blocks @ map (\<lambda>d. addBlock xi (bottom + int d) zi block) [0..<depth],
                                   ColState top False (Some bottom) (Some top) (Some depth)
                                     (Some startIdx) (Some chain)))
                            else if shade m = 1 then
                              (blocks @ northFiller options northTransparent xi northY zi
                                 @ [addBlock xi northY zi block],
                               plainState northY False)
                            else if shade m = 2 then
                              (blocks @ [addBlock xi (northY + 1) zi block],
                               plainState (northY + 1) False)
                            else
                              (let isDeepWater =
                                     (case (cs_waterBottom northState, cs_waterDepth northState) of
                                        (Some wb, Some wd) \<Rightarrow> wd > 1 | _ \<Rightarrow> False)
                               in if isDeepWater then
                                    (let darkY = (case cs_waterBottom northState of
                                                    Some wb \<Rightarrow> wb | None \<Rightarrow> northY)
                                     in (blocks @ northFiller options northTransparent xi (darkY + 1) zi
                                           @ [addBlock xi darkY zi block],
                                         plainState darkY False))
                                  else
                                    (let darkRef = (case cs_waterBottom northState of
                                                      Some wb \<Rightarrow> wb | None \<Rightarrow> northY)
                                     in (blocks @ northFiller options northTransparent xi darkRef zi
                                           @ [addBlock xi (darkRef - 1) zi block],
                                         plainState (darkRef - 1) False))))))"

text \<open>One row: the columns from 0 to 127, each from the state of the same column one row north.\<close>

definition staircaseColumn ::
  "ImageData \<Rightarrow> ConversionOptions \<Rightarrow> nat \<Rightarrow> ColState list
     \<Rightarrow> BlockEntry list \<times> ColState list \<Rightarrow> nat \<Rightarrow> BlockEntry list \<times> ColState list" where
  "staircaseColumn img options z prevRow st x =
     (let r = staircasePixel img options z x (prevRow ! x) (fst st)
      in (fst r, snd st @ [snd r]))"

definition staircaseRow ::
  "ImageData \<Rightarrow> ConversionOptions \<Rightarrow> BlockEntry list \<times> ColState list \<Rightarrow> nat
     \<Rightarrow> BlockEntry list \<times> ColState list" where
  "staircaseRow img options st z =
     foldl (staircaseColumn img options z (snd st)) (fst st, []) [0..<128]"

definition buildStaircaseBlocks :: "ImageData \<Rightarrow> ConversionOptions \<Rightarrow> BlockEntry list" where
  "buildStaircaseBlocks img options =
     fst (foldl (staircaseRow img options) ([], replicate 128 (plainState BASE_Y True)) [0..<128])"

text \<open>
  Words of the specification: the placement of a flat-shade pixel. The block goes to the
  height carried from the north, with a filler one row north at the same height when the
  north neighbour is transparent and the filler is enabled; the column is then opaque at
  that height.
\<close>

definition flatPlacement ::
  "ConversionOptions \<Rightarrow> ColState \<Rightarrow> nat \<Rightarrow> nat \<Rightarrow> string \<Rightarrow> BlockEntry list
     \<Rightarrow> BlockEntry list \<times> ColState" where
  "flatPlacement options northState z x block blocks =
     (blocks
      @ (if cs_transparent northState \<and> \<not> isFillerDisabled (opt_fillerBlock options)
         then [BlockEntry (int x) (cs_y northState) (int z - 1) (resolveBlockName (opt_fillerBlock options))]
         else [])
      @ [BlockEntry (int x) (cs_y northState) (int z) (resolveBlockName block)],
      ColState (cs_y northState) False None None None None None)"

text \<open>
  A row of transparent pixels carries the heights of the row before and marks every
  column transparent.
\<close>

definition carryRow :: "ColState list \<Rightarrow> ColState list" where
  "carryRow row = map (\<lambda>s. plainState (cs_y s) True) row"

text \<open>
  The block of the colour GRASS (palette index 1) under the options: the mapped block, or
  the first block of the colour when the mapping has none.
\<close>

definition grassBlock :: "ConversionOptions \<Rightarrow> string" where
  "grassBlock options =
     (case opt_blockMapping options 1 of
        Some s \<Rightarrow> if s \<noteq> [] then s else ''grass_block''
      | None \<Rightarrow> ''grass_block'')"

section \<open>The staircase variants\<close>

text \<open>
  \<open>applyStaircaseVariant\<close> changes the Y coordinates of the placements in place, column by
  column, in the order in which the columns first appear in the list. The objects of the
  list are shared with the per-column and per-row groups built from it; here a group is
  a list of positions (indices) in the block list, and a change of \<open>b.y\<close> is a change of the
  list at that index.
\<close>

definition addY :: "BlockEntry \<Rightarrow> int \<Rightarrow> BlockEntry" where
  "addY b d = BlockEntry (blk_x b) (blk_y b + d) (blk_z b) (blockName b)"

definition shiftAt :: "BlockEntry list \<Rightarrow> nat list \<Rightarrow> int \<Rightarrow> BlockEntry list" where
  "shiftAt blocks idxs d = foldl (\<lambda>bs i. bs[i := addY (bs ! i) d]) blocks idxs"

definition columnIndices :: "BlockEntry list \<Rightarrow> int \<Rightarrow> nat list" where
  "columnIndices blocks x = filter (\<lambda>i. blk_x (blocks ! i) = x) [0..<length blocks]"

definition columnKeys :: "BlockEntry list \<Rightarrow> int list" where
  "columnKeys blocks = firstOccurrences (map blk_x blocks)"

subsection \<open>Classic and southline\<close>

definition classicColumn :: "BlockEntry list \<Rightarrow> nat list \<Rightarrow> BlockEntry list" where
  "classicColumn blocks col =
     (case lowest (map (\<lambda>i. blk_y (blocks ! i)) col) of
        Some minY \<Rightarrow> shiftAt blocks col (- minY)
      | None \<Rightarrow> blocks)"

text \<open>The southernmost block of a column: the first one with the largest \<open>z\<close>.\<close>

definition southStep :: "BlockEntry list \<Rightarrow> int option \<times> int \<Rightarrow> nat \<Rightarrow> int option \<times> int" where
  "southStep blocks st i =
     (let b = blocks ! i
      in case fst st of
           None \<Rightarrow> (Some (blk_z b), blk_y b)
         | Some maxZ \<Rightarrow> if blk_z b > maxZ then (Some (blk_z b), blk_y b) else st)"

definition southlineColumn :: "BlockEntry list \<Rightarrow> nat list \<Rightarrow> BlockEntry list" where
  "southlineColumn blocks col =
     (let southY = snd (foldl (southStep blocks) (None, 0) col)
      in shiftAt blocks col (- southY))"

subsection \<open>Valley\<close>

text \<open>
  The shade and water flag of the source pixel of row \<open>z\<close> in column \<open>x\<close> (\<open>pixelShade\<close>):
  absent outside the image, for a transparent pixel and for an unmatched one; the palette
  lookup is asked first, a custom colour counts as flat.
\<close>

definition pixelShadeAt :: "ImageData \<Rightarrow> ConversionOptions \<Rightarrow> int \<Rightarrow> int \<Rightarrow> (nat \<times> bool) option" where
  "pixelShadeAt img options x z =
     (if z < 0 \<or> z \<ge> 128 then None
      else if pixelAlpha img (nat z) (nat x) = 0 then None
      else let key = pixelKey img (nat z) (nat x)
           in case getColorLookup key of
                Some m \<Rightarrow> Some (shade m, isWater (BASE_COLORS ! baseIndex m))
              | None \<Rightarrow>
                  (case customLookup (opt_customColors options) key of
                     Some cm \<Rightarrow> Some (1, False)
                   | None \<Rightarrow> None))"

text \<open>\<open>zToBlocks\<close>: the blocks of the column by row, in the order in which the rows appear.\<close>

definition groupStep :: "BlockEntry list \<Rightarrow> (int \<times> nat list) list \<Rightarrow> nat \<Rightarrow> (int \<times> nat list) list" where
  "groupStep blocks m i =
     (let z = blk_z (blocks ! i)
      in case map_of m z of
           None \<Rightarrow> m @ [(z, [i])]
         | Some l \<Rightarrow> objUpdate m z (l @ [i]))"

definition groupByZ :: "BlockEntry list \<Rightarrow> nat list \<Rightarrow> (int \<times> nat list) list" where
  "groupByZ blocks col = foldl (groupStep blocks) [] col"

definition rowIndices :: "(int \<times> nat list) list \<Rightarrow> int \<Rightarrow> nat list" where
  "rowIndices zToBlocks z = (case map_of zToBlocks z of Some l \<Rightarrow> l | None \<Rightarrow> [])"

text \<open>\<open>Math.max(...)\<close> and \<open>Math.min(...)\<close> of the heights of a row; the rows asked have blocks.\<close>

definition maxYOf :: "BlockEntry list \<Rightarrow> nat list \<Rightarrow> int" where
  "maxYOf blocks idxs = (case highest (map (\<lambda>i. blk_y (blocks ! i)) idxs) of Some v \<Rightarrow> v | None \<Rightarrow> 0)"

definition minYOf :: "BlockEntry list \<Rightarrow> nat list \<Rightarrow> int" where
  "minYOf blocks idxs = (case lowest (map (\<lambda>i. blk_y (blocks ! i)) idxs) of Some v \<Rightarrow> v | None \<Rightarrow> 0)"

text \<open>A number map read with the non-null assertion \<open>m.get(z)!\<close>; the keys read are present.\<close>

definition getY :: "(int \<times> int) list \<Rightarrow> int \<Rightarrow> int" where
  "getY m z = (case map_of m z of Some v \<Rightarrow> v | None \<Rightarrow> 0)"

datatype ValleySegment = ValleySegment (seg_zList: "int list") (seg_topY: int) (seg_waterDepth: "int option")

text \<open>The inner \<open>while\<close> loop: the following rows that continue the run at height \<open>y\<close>.\<close>

fun spanRun :: "(int \<times> int) list \<Rightarrow> int \<Rightarrow> int \<Rightarrow> int list \<Rightarrow> int list \<times> int list" where
  "spanRun om y prev [] = ([], [])"
| "spanRun om y prev (z # zs) =
     (if z = prev + 1 \<and> map_of om z = Some y
      then (case spanRun om y z zs of (run, rest) \<Rightarrow> (z # run, rest))
      else ([], z # zs))"

lemma spanRun_length: "length (snd (spanRun om y prev zs)) \<le> length zs"
proof (induction zs arbitrary: prev)
  case Nil
  show ?case by simp
next
  case (Cons z zs)
  from Cons [of z] show ?case
    by (auto split: prod.splits)
qed

text \<open>
  The outer \<open>while\<close> loop over the rows that are primary and not water: one segment for each
  run, with the water row immediately north joined when its top is at the run's height.
\<close>

function valleyRuns ::
  "(int \<times> int) list \<Rightarrow> (int \<times> int) list \<Rightarrow> int set \<Rightarrow> int list \<Rightarrow> ValleySegment list" where
  "valleyRuns origMaxY origMinY waterZ [] = []"
| "valleyRuns origMaxY origMinY waterZ (startZ # zs) =
     (let y = getY origMaxY startZ;
          run = fst (spanRun origMaxY y startZ zs);
          rest = snd (spanRun origMaxY y startZ zs);
          northZ = startZ - 1;
          seg = (if northZ \<in> waterZ \<and> map_of origMaxY northZ = Some y
                 then ValleySegment (northZ # startZ # run) y
                        (Some (getY origMaxY northZ - getY origMinY northZ + 1))
                 else ValleySegment (startZ # run) y None)
      in seg # valleyRuns origMaxY origMinY waterZ rest)"
  by pat_completeness auto
termination
  by (relation "measure (\<lambda>(a, b, c, zs). length zs)") (auto simp: spanRun_length less_Suc_eq_le)

definition valleySegments ::
  "(int \<times> int) list \<Rightarrow> (int \<times> int) list \<Rightarrow> int set \<Rightarrow> int list \<Rightarrow> ValleySegment list" where
  "valleySegments origMaxY origMinY waterZ primaryZ =
     (let runs = valleyRuns origMaxY origMinY waterZ (filter (\<lambda>z. z \<notin> waterZ) primaryZ);
          processed = set (concat (map seg_zList runs));
          loose = map (\<lambda>z. ValleySegment [z] (getY origMaxY z)
                              (Some (getY origMaxY z - getY origMinY z + 1)))
                    (filter (\<lambda>z. z \<in> waterZ \<and> z \<notin> processed) primaryZ)
      in sort_key seg_topY (runs @ loose))"

text \<open>
  The state of the loop over the segments: the block list, \<open>zToBlocks\<close>, \<open>currentMaxY\<close>
  and \<open>deltaApplied\<close>.
\<close>

datatype ValleyState = ValleyState
  (vs_blocks: "BlockEntry list")
  (vs_zToBlocks: "(int \<times> nat list) list")
  (vs_currentMaxY: "(int \<times> int) list")
  (vs_deltaApplied: "(int \<times> int) list")

definition moveRow :: "int \<Rightarrow> ValleyState \<Rightarrow> int \<Rightarrow> ValleyState" where
  "moveRow delta st z =
     ValleyState
       (shiftAt (vs_blocks st) (rowIndices (vs_zToBlocks st) z) delta)
       (vs_zToBlocks st)
       (objUpdate (vs_currentMaxY st) z (getY (vs_currentMaxY st) z + delta))
       (objUpdate (vs_deltaApplied st) z (getY (vs_deltaApplied st) z + delta))"

definition moveSegment :: "ValleyState \<Rightarrow> int list \<Rightarrow> int \<Rightarrow> ValleyState" where
  "moveSegment st zList delta = foldl (moveRow delta) st zList"

definition pushFiller :: "int \<Rightarrow> int \<Rightarrow> string \<Rightarrow> ValleyState \<Rightarrow> int \<Rightarrow> ValleyState" where
  "pushFiller x southY fillerBlock st z =
     (let idx = length (vs_blocks st);
          filler = BlockEntry x southY z (resolveBlockName fillerBlock);
          zToBlocks = (case map_of (vs_zToBlocks st) z of
                         Some l \<Rightarrow> objUpdate (vs_zToBlocks st) z (l @ [idx])
                       | None \<Rightarrow> vs_zToBlocks st @ [(z, [idx])])
      in ValleyState (vs_blocks st @ [filler]) zToBlocks (vs_currentMaxY st) (vs_deltaApplied st))"

definition valleySegmentStep ::
  "(int \<Rightarrow> (nat \<times> bool) option) \<Rightarrow> int set \<Rightarrow> int \<Rightarrow> string \<Rightarrow> ValleyState \<Rightarrow> ValleySegment
     \<Rightarrow> ValleyState" where
  "valleySegmentStep pixelShade waterZ x fillerBlock st seg =
     (let zList = seg_zList seg;
          southZ = last zList + 1;
          southInfo = pixelShade southZ;
          target0 =
            (case southInfo of
               None \<Rightarrow> 0
             | Some info \<Rightarrow>
                 if snd info \<or> fst info = 2 then 0
                 else (case map_of (vs_currentMaxY st) southZ of Some southY \<Rightarrow> southY + 1 | None \<Rightarrow> 0));
          target1 =
            (case find (\<lambda>z. z \<notin> waterZ) zList of
               None \<Rightarrow> target0
             | Some firstNonWaterZ \<Rightarrow>
                 (let northOfSegZ = firstNonWaterZ - 1
                  in case (pixelShade firstNonWaterZ, map_of (vs_currentMaxY st) northOfSegZ) of
                       (Some segInfo, Some northY) \<Rightarrow>
                         if northOfSegZ \<in> set zList then target0
                         else if fst segInfo = 2 then max target0 (northY + 1)
                         else if fst segInfo = 1 then max target0 northY
                         else target0
                     | _ \<Rightarrow> target0));
          deep = (case seg_waterDepth seg of Some d \<Rightarrow> d > 1 | None \<Rightarrow> False);
          depth = (case seg_waterDepth seg of Some d \<Rightarrow> d | None \<Rightarrow> 0);
          target2 = (if deep \<and> target1 - (depth - 1) < 0
                     then target1 + - (target1 - (depth - 1)) else target1);
          waterPillarZ = (case seg_waterDepth seg of Some d \<Rightarrow> Some (hd zList) | None \<Rightarrow> None);
          waterShade = (case waterPillarZ of Some wz \<Rightarrow> pixelShade wz | None \<Rightarrow> None);
          isDarkMediumWater =
            (case waterShade of
               Some info \<Rightarrow> fst info = 0 \<or> fst info = 1 \<or> fst info = 3
             | None \<Rightarrow> False);
          waterBottomAfter = target2 - (depth - 1);
          southDark = (case pixelShade southZ of
                         Some info \<Rightarrow> fst info = 0 \<or> fst info = 3 | None \<Rightarrow> False)
      in if isDarkMediumWater \<and> deep \<and> length zList \<noteq> 1 \<and> waterBottomAfter \<noteq> 0
            \<and> map_of (vs_currentMaxY st) southZ \<noteq> None
         then
           (let southY = getY (vs_currentMaxY st) southZ;
                newTargetTopY = southY + (depth - 1);
                delta = newTargetTopY - seg_topY seg;
                moved = moveSegment st zList delta
            in if isFillerDisabled fillerBlock then moved
               else foldl (pushFiller x southY fillerBlock) moved
                      (filter (\<lambda>z. Some z \<noteq> waterPillarZ) zList))
         else
           (let target3 =
                  (if isDarkMediumWater \<and> deep \<and> length zList = 1 \<and> southDark
                      \<and> waterBottomAfter \<noteq> 0
                   then (case map_of (vs_currentMaxY st) southZ of
                           Some southY \<Rightarrow> southY + (depth - 1)
                         | None \<Rightarrow> target2)
                   else target2);
                delta = target3 - seg_topY seg
            in if delta \<noteq> 0 then moveSegment st zList delta else st))"

text \<open>The last loop: rows that hold only filler follow the row they support, or go to height 0.\<close>

definition fillerRowStep ::
  "(int \<Rightarrow> (nat \<times> bool) option) \<Rightarrow> ValleyState \<Rightarrow> int \<Rightarrow> ValleyState" where
  "fillerRowStep pixelShade st z =
     (if pixelShade z \<noteq> None then st
      else case map_of (vs_deltaApplied st) (z + 1) of
             Some d \<Rightarrow>
               if d \<noteq> 0
               then ValleyState (shiftAt (vs_blocks st) (rowIndices (vs_zToBlocks st) z) d)
                      (vs_zToBlocks st) (vs_currentMaxY st) (vs_deltaApplied st)
               else st
           | None \<Rightarrow>
               (let bs = rowIndices (vs_zToBlocks st) z;
                    minY = minYOf (vs_blocks st) bs
                in ValleyState (shiftAt (vs_blocks st) bs (- minY))
                     (vs_zToBlocks st) (vs_currentMaxY st) (vs_deltaApplied st)))"

definition valleyColumn ::
  "ImageData \<Rightarrow> ConversionOptions \<Rightarrow> BlockEntry list \<Rightarrow> int \<Rightarrow> nat list \<Rightarrow> BlockEntry list" where
  "valleyColumn img options blocks x col =
     (let pixelShade = pixelShadeAt img options x;
          zToBlocks = groupByZ blocks col;
          zValues = sort (map fst zToBlocks);
          primaryZ = filter (\<lambda>z. pixelShade z \<noteq> None) zValues;
          waterZ = {z \<in> set primaryZ. case pixelShade z of Some info \<Rightarrow> snd info | None \<Rightarrow> False};
          origMaxY = map (\<lambda>z. (z, maxYOf blocks (rowIndices zToBlocks z))) primaryZ;
          origMinY = map (\<lambda>z. (z, minYOf blocks (rowIndices zToBlocks z))) primaryZ;
          deltaApplied = map (\<lambda>z. (z, 0)) primaryZ;
          segments = valleySegments origMaxY origMinY waterZ primaryZ;
          st0 = ValleyState blocks zToBlocks origMaxY deltaApplied;
          st1 = foldl (valleySegmentStep pixelShade waterZ x (opt_fillerBlock options)) st0 segments;
          st2 = foldl (fillerRowStep pixelShade) st1 zValues
      in vs_blocks st2)"

subsection \<open>Cancer\<close>

text \<open>
  \<open>mulberry32\<close>: the generator keeps a seed and returns a 32-bit number \<open>u\<close>; the source
  divides it by \<open>2^32\<close>. The bit operations and \<open>Math.imul\<close> work modulo \<open>2^32\<close>.
  \<open>Math.floor(rand() * k)\<close> for \<open>k\<close> = 64, 4 and 5 is \<open>u * k div 2^32\<close>: both the
  quotient \<open>u / 2^32\<close> and its product with \<open>k\<close> are exact in double precision.
\<close>

definition mulberry32 :: "32 word \<Rightarrow> 32 word \<times> 32 word" where
  "mulberry32 seed =
     (let s = seed + 0x6d2b79f5;
          t1 = (s XOR drop_bit 15 s) * (s OR 1);
          t2 = t1 XOR (t1 + (t1 XOR drop_bit 7 t1) * (t1 OR 61))
      in (s, t2 XOR drop_bit 14 t2))"

definition randBelow :: "nat \<Rightarrow> 32 word \<Rightarrow> int" where
  "randBelow k u = int (unat u * k div 4294967296)"

text \<open>
  The state of the loop over the primary rows: the seed, \<open>lastNonTransparentY\<close> and
  \<open>newTopY\<close>.
\<close>

definition cancerStep ::
  "(int \<Rightarrow> (nat \<times> bool) option) \<Rightarrow> (int \<times> int) list \<Rightarrow> (int \<times> int) list
     \<Rightarrow> 32 word \<times> int \<times> (int \<times> int) list \<Rightarrow> int \<Rightarrow> 32 word \<times> int \<times> (int \<times> int) list" where
  "cancerStep pixelInfo origMaxY origMinY st z =
     (case st of (seed, lastY, newTopY) \<Rightarrow>
        case pixelInfo z of
          None \<Rightarrow> st
        | Some info \<Rightarrow>
            if snd info then
              (let depth = getY origMaxY z - getY origMinY z + 1;
                   r = mulberry32 seed;
                   waterTop = lastY + randBelow 4 (snd r);
                   waterBottom = waterTop - depth + 1;
                   finalTop = (if waterBottom < 0 then waterTop + - waterBottom else waterTop)
               in (fst r, finalTop, objUpdate newTopY z finalTop))
            else if fst info = 2 then
              (let r = mulberry32 seed;
                   targetY = lastY + 1 + randBelow 5 (snd r)
               in (fst r, targetY, objUpdate newTopY z targetY))
            else if fst info = 1 then
              (seed, lastY, objUpdate newTopY z lastY)
            else
              (let r = mulberry32 seed;
                   drop = 1 + randBelow 5 (snd r);
                   targetY = lastY - drop
               in (fst r, targetY, objUpdate newTopY z targetY)))"

definition cancerApplyStep ::
  "(int \<times> nat list) list \<Rightarrow> (int \<times> int) list \<Rightarrow> (int \<times> int) list
     \<Rightarrow> BlockEntry list \<times> (int \<times> int) list \<Rightarrow> int \<Rightarrow> BlockEntry list \<times> (int \<times> int) list" where
  "cancerApplyStep zToBlocks origMaxY normalizedTopY st z =
     (case (map_of origMaxY z, map_of normalizedTopY z) of
        (Some origTop, Some newTop) \<Rightarrow>
          (let delta = newTop - origTop
           in (shiftAt (fst st) (rowIndices zToBlocks z) delta, objUpdate (snd st) z delta))
      | _ \<Rightarrow> st)"

definition cancerFillerStep ::
  "(int \<Rightarrow> (nat \<times> bool) option) \<Rightarrow> (int \<times> nat list) list \<Rightarrow> (int \<times> int) list
     \<Rightarrow> BlockEntry list \<Rightarrow> int \<Rightarrow> BlockEntry list" where
  "cancerFillerStep pixelInfo zToBlocks deltaApplied blocks z =
     (if pixelInfo z \<noteq> None then blocks
      else case map_of deltaApplied (z + 1) of
             Some d \<Rightarrow> if d \<noteq> 0 then shiftAt blocks (rowIndices zToBlocks z) d else blocks
           | None \<Rightarrow> blocks)"

text \<open>
  The scaling \<open>Math.round((y + shift) * (128 / span))\<close> is a computation in floating
  point; it is the parameter \<open>roundScaled\<close> of the model, applied to \<open>y + shift\<close> and
  \<open>span\<close>. It is used only when the span exceeds 128.
\<close>

definition cancerColumn ::
  "(int \<Rightarrow> int \<Rightarrow> int) \<Rightarrow> ImageData \<Rightarrow> ConversionOptions \<Rightarrow> BlockEntry list \<Rightarrow> int \<Rightarrow> nat list
     \<Rightarrow> BlockEntry list" where
  "cancerColumn roundScaled img options blocks x col =
     (let pixelInfo = pixelShadeAt img options x;
          zToBlocks = groupByZ blocks col;
          primaryZs = filter (\<lambda>z. pixelInfo z \<noteq> None) (map int [0..<128])
      in if primaryZs = [] then blocks
         else
           let withBlocks = filter (\<lambda>z. map_of zToBlocks z \<noteq> None) primaryZs;
               origMaxY = map (\<lambda>z. (z, maxYOf blocks (rowIndices zToBlocks z))) withBlocks;
               origMinY = map (\<lambda>z. (z, minYOf blocks (rowIndices zToBlocks z))) withBlocks;
               r0 = mulberry32 (word_of_int (x * 7919 + 42));
               start = randBelow 64 (snd r0) + 32;
               newTopY = snd (snd (foldl (cancerStep pixelInfo origMaxY origMinY)
                                     (fst r0, start, []) primaryZs));
               yVals = map snd newTopY;
               minY = (case lowest yVals of Some v \<Rightarrow> v | None \<Rightarrow> 0);
               maxY = (case highest yVals of Some v \<Rightarrow> v | None \<Rightarrow> 0);
               span = maxY - minY;
               shift = - minY;
               normalizedTopY =
                 map (\<lambda>(z, y). (z, if span > 128 then roundScaled (y + shift) span else y + shift))
                   newTopY;
               applied = foldl (cancerApplyStep zToBlocks origMaxY normalizedTopY) (blocks, []) primaryZs;
               allZs = sort (map fst zToBlocks)
           in foldl (cancerFillerStep pixelInfo zToBlocks (snd applied)) (fst applied) allZs)"

subsection \<open>The dispatch\<close>

text \<open>
  The columns are taken in the order of their first block; the groups are the positions of
  the blocks in the list as it is given (the variants add blocks only at the end).
\<close>

definition applyStaircaseVariant ::
  "(int \<Rightarrow> int \<Rightarrow> int) \<Rightarrow> BlockEntry list \<Rightarrow> BuildMode \<Rightarrow> ImageData \<Rightarrow> ConversionOptions
     \<Rightarrow> BlockEntry list" where
  "applyStaircaseVariant roundScaled blocks mode img options =
     (case mode of
        StaircaseNorthline \<Rightarrow> blocks
      | Flat \<Rightarrow> blocks
      | SuppressChecker \<Rightarrow> blocks
      | SuppressPairs \<Rightarrow> blocks
      | SuppressPairsEW \<Rightarrow> blocks
      | SuppressDualLayer \<Rightarrow> blocks
      | StaircaseCancer \<Rightarrow>
          foldl (\<lambda>bs x. cancerColumn roundScaled img options bs x (columnIndices blocks x))
            blocks (columnKeys blocks)
      | StaircaseClassic \<Rightarrow>
          foldl (\<lambda>bs x. classicColumn bs (columnIndices blocks x)) blocks (columnKeys blocks)
      | StaircaseSouthline \<Rightarrow>
          foldl (\<lambda>bs x. southlineColumn bs (columnIndices blocks x)) blocks (columnKeys blocks)
      | StaircaseValley \<Rightarrow>
          foldl (\<lambda>bs x. valleyColumn img options bs x (columnIndices blocks x))
            blocks (columnKeys blocks))"

section \<open>The suppress builders\<close>

text \<open>
  The pixel as the suppress builders read it: nothing for a transparent pixel, for a pixel
  that matches neither lookup and for one whose block is absent or empty (they
  \<open>continue\<close>); otherwise the block, whether it is water (never for a custom colour) and
  the shade (1 for a custom colour). A custom colour is asked before the palette.
\<close>

datatype PixelInfo = PixelInfo (pi_block: string) (pi_isWater: bool) (pi_shade: nat)

definition suppressPixel :: "ImageData \<Rightarrow> ConversionOptions \<Rightarrow> nat \<Rightarrow> nat \<Rightarrow> PixelInfo option" where
  "suppressPixel img options z x =
     (if pixelAlpha img z x = 0 then None
      else let key = pixelKey img z x
           in case customLookup (opt_customColors options) key of
                Some cm \<Rightarrow> if cc_block cm = [] then None else Some (PixelInfo (cc_block cm) False 1)
              | None \<Rightarrow>
                  (case getColorLookup key of
                     None \<Rightarrow> None
                   | Some m \<Rightarrow>
                       (case mappedBlock options (baseIndex m) of
                          None \<Rightarrow> None
                        | Some block \<Rightarrow>
                            Some (PixelInfo block (isWater (BASE_COLORS ! baseIndex m)) (shade m)))))"

subsection \<open>Pairs\<close>

definition pairsPixel :: "ImageData \<Rightarrow> ConversionOptions \<Rightarrow> nat \<Rightarrow> nat \<Rightarrow> BlockEntry list" where
  "pairsPixel img options z x =
     (case suppressPixel img options z x of
        None \<Rightarrow> []
      | Some info \<Rightarrow>
          (let xi = int x; zi = int z; filler = opt_fillerBlock options
           in if pi_isWater info then
                map (\<lambda>d. addBlock xi (int d) zi (pi_block info)) [0..<getWaterDepth (pi_shade info) x z]
              else
                addBlock xi 0 zi (pi_block info)
                # (if pi_shade info = 2 then []
                   else if \<not> isFillerDisabled filler then
                     (if pi_shade info = 1 then [addBlock xi 0 (zi - 1) filler]
                      else addBlock xi 1 (zi - 1) filler
                           # (if opt_supportMode options = SupportSteps \<or> opt_supportMode options = SupportAll
                              then [addBlock xi 0 (zi - 1) filler] else []))
                   else [])))"

definition buildHalf :: "ImageData \<Rightarrow> ConversionOptions \<Rightarrow> nat \<Rightarrow> BlockEntry list" where
  "buildHalf img options startRow =
     (let blocks = concat (map (\<lambda>z. concat (map (\<lambda>x. pairsPixel img options z x) [0..<128]))
                             (filter (\<lambda>z. z mod 2 = startRow) [0..<128]))
      in if opt_supportMode options \<noteq> SupportNone then applySupport blocks options else blocks)"

definition buildSuppressPairsBlocks ::
  "ImageData \<Rightarrow> ConversionOptions \<Rightarrow> BlockEntry list \<times> BlockEntry list" where
  "buildSuppressPairsBlocks img options = (buildHalf img options 0, buildHalf img options 1)"

subsection \<open>Pairs, east to west\<close>

text \<open>
  The blocks of one pixel of a step at base height \<open>baseY\<close>, and the highest Y the pixel
  asks the step to count (\<open>maxYUsed\<close> never falls).
\<close>

definition pairsEWPixel ::
  "ImageData \<Rightarrow> ConversionOptions \<Rightarrow> int \<Rightarrow> nat \<Rightarrow> nat \<Rightarrow> BlockEntry list \<times> int" where
  "pairsEWPixel img options baseY z x =
     (case suppressPixel img options z x of
        None \<Rightarrow> ([], baseY)
      | Some info \<Rightarrow>
          (let xi = int x; zi = int z; filler = opt_fillerBlock options
           in if pi_isWater info then
                (let depth = getWaterDepth (pi_shade info) x z
                 in (map (\<lambda>d. addBlock xi (baseY + int d) zi (pi_block info)) [0..<depth],
                     baseY + int depth - 1))
              else
                (let needsSupport =
                       (\<not> isFillerDisabled filler
                        \<and> (opt_supportMode options = SupportAll
                            \<or> (opt_supportMode options = SupportFragile \<and> isFragileBlock (pi_block info))
                            \<or> opt_supportMode options = SupportSteps));
                     under = (if needsSupport \<and> baseY > 0 then [addBlock xi (baseY - 1) zi filler] else []);
                     dark = (pi_shade info \<noteq> 1 \<and> pi_shade info \<noteq> 2);
                     north =
                       (if isFillerDisabled filler then []
                        else if pi_shade info = 1 then [addBlock xi baseY (zi - 1) filler]
                        else if dark then
                          addBlock xi (baseY + 1) (zi - 1) filler
                          # (if opt_supportMode options = SupportSteps \<or> opt_supportMode options = SupportAll
                             then [addBlock xi baseY (zi - 1) filler] else [])
                        else [])
                 in (addBlock xi baseY zi (pi_block info) # under @ north,
                     if \<not> isFillerDisabled filler \<and> dark then baseY + 1 else baseY))))"

definition pairsEWCell ::
  "ImageData \<Rightarrow> ConversionOptions \<Rightarrow> int \<Rightarrow> BlockEntry list \<times> int \<Rightarrow> nat \<times> nat \<Rightarrow> BlockEntry list \<times> int"
  where
  "pairsEWCell img options baseY st p =
     (let r = pairsEWPixel img options baseY (snd p) (fst p)
      in (fst st @ fst r, max (snd st) (snd r)))"

text \<open>
  One step of the zig-zag: step 0 renders column 127, step \<open>k > 0\<close> the columns
  \<open>128 - k\<close> and \<open>127 - k\<close>; even steps render the odd rows, odd steps the even rows.
  The result is the blocks of the step and the base height of the next step.
\<close>

definition pairsEWStep ::
  "ImageData \<Rightarrow> ConversionOptions \<Rightarrow> BlockEntry list list \<times> int \<Rightarrow> nat \<Rightarrow> BlockEntry list list \<times> int"
  where
  "pairsEWStep img options st step =
     (let baseY = snd st;
          anchor = 127 - step;
          cols = (if step = 0 then [127] else [anchor + 1, anchor]);
          useEvenRows = (step mod 2 = 0);
          rows = filter (\<lambda>z. if useEvenRows then z mod 2 = 1 else z mod 2 = 0) [0..<128];
          cells = concat (map (\<lambda>x. map (\<lambda>z. (x, z)) rows) cols);
          r = foldl (pairsEWCell img options baseY) ([], baseY) cells
      in (fst st @ [fst r], snd r + 1))"

definition buildSuppressPairsEWBlocksByStep ::
  "ImageData \<Rightarrow> ConversionOptions \<Rightarrow> BlockEntry list list" where
  "buildSuppressPairsEWBlocksByStep img options =
     fst (foldl (pairsEWStep img options) ([], 0) [0..<128])"

definition buildSuppressPairsEWBlocks :: "ImageData \<Rightarrow> ConversionOptions \<Rightarrow> BlockEntry list" where
  "buildSuppressPairsEWBlocks img options = concat (buildSuppressPairsEWBlocksByStep img options)"

subsection \<open>Dual layer\<close>

text \<open>
  \<open>getPixelInfo\<close>: the pixel with its shade mapped to 1 (brightest), 2 (middle) or 3
  (darkest); 0 stands for no pixel (outside the image, transparent, unmatched or without a
  block).
\<close>

definition dualInfo :: "ImageData \<Rightarrow> ConversionOptions \<Rightarrow> int \<Rightarrow> int \<Rightarrow> PixelInfo option" where
  "dualInfo img options x z =
     (if z < 0 \<or> z \<ge> 128 \<or> x < 0 \<or> x \<ge> 128 then None
      else suppressPixel img options (nat z) (nat x))"

definition mappedShade :: "PixelInfo option \<Rightarrow> nat" where
  "mappedShade info =
     (case info of
        None \<Rightarrow> 0
      | Some i \<Rightarrow> if pi_shade i = 2 then 1 else if pi_shade i = 1 then 2 else 3)"

definition dualPixel :: "ImageData \<Rightarrow> ConversionOptions \<Rightarrow> nat \<Rightarrow> nat \<Rightarrow> BlockEntry list" where
  "dualPixel img options x z =
     (let xi = int x; zi = int z;
          L1 = (0::int);
          L2 = (case opt_layerGap options of Some g \<Rightarrow> g | None \<Rightarrow> 5);
          filler = opt_fillerBlock options;
          fillerOff = isFillerDisabled filler
      in case dualInfo img options xi zi of
           None \<Rightarrow> []
         | Some info \<Rightarrow>
             if pi_isWater info then
               map (\<lambda>d. addBlock xi (L1 + int d) zi (pi_block info)) [0..<getWaterDepth (pi_shade info) x z]
             else
               (let isDom = (z mod 2 = 0);
                    ns = mappedShade (dualInfo img options xi (zi - 1));
                    ss = mappedShade (dualInfo img options xi (zi + 1));
                    sh = mappedShade (Some info);
                    block = pi_block info
                in if sh = 3 then
                     (if isDom then
                        addBlock xi L1 zi block
                        # (if fillerOff then []
                           else if ns = 1 then [addBlock xi (L1 + 1) (zi - 1) filler]
                           else [addBlock xi L2 (zi - 1) filler])
                      else if ss = 1 \<and> (ns = 2 \<or> ns = 3) then
                        addBlock xi L2 zi block
                        # (if fillerOff then [] else [addBlock xi (L2 + 1) (zi - 1) filler])
                      else
                        addBlock xi L1 zi block
                        # (if fillerOff then []
                           else if ns = 1 then [addBlock xi (L1 + 1) (zi - 1) filler]
                           else [addBlock xi L2 (zi - 1) filler]))
                   else if sh = 2 then
                     (if isDom then
                        (if ns = 1 then
                           addBlock xi L1 zi block
                           # (if fillerOff then [] else [addBlock xi L1 (zi - 1) filler])
                         else if ns = 2 \<or> ns = 3 then [addBlock xi L1 zi block]
                         else
                           addBlock xi L2 zi block
                           # (if fillerOff then []
                              else [addBlock xi (if ss = 2 then L1 else L2) (zi - 1) filler]))
                      else
                        (if ns \<ge> 1 then [addBlock xi L1 zi block]
                         else
                           addBlock xi L2 zi block
                           # (if fillerOff then []
                              else [addBlock xi (if ss = 2 then L1 else L2) (zi - 1) filler])))
                   else
                     (if isDom then [addBlock xi L1 zi block] else [addBlock xi L2 zi block])))"

definition buildSuppressDualLayerBlocks :: "ImageData \<Rightarrow> ConversionOptions \<Rightarrow> BlockEntry list" where
  "buildSuppressDualLayerBlocks img options =
     concat (map (\<lambda>x. concat (map (\<lambda>z. dualPixel img options x z) [0..<128])) [0..<128])"

section \<open>The ZIP container\<close>

text \<open>
  \<open>crc32\<close>: the bitwise CRC-32 with the reflected polynomial \<open>0xEDB88320\<close>, on 32-bit
  numbers.
\<close>

definition crcBit :: "32 word \<Rightarrow> 32 word" where
  "crcBit crc = drop_bit 1 crc XOR (if crc AND 1 \<noteq> 0 then 0xEDB88320 else 0)"

definition crcByte :: "32 word \<Rightarrow> nat \<Rightarrow> 32 word" where
  "crcByte crc byte = (crcBit ^^ 8) (crc XOR of_nat byte)"

definition crc32 :: "bytes \<Rightarrow> 32 word" where
  "crc32 bs = foldl crcByte 0xFFFFFFFF bs XOR 0xFFFFFFFF"

text \<open>
  \<open>writeU16LE\<close> and \<open>writeU32LE\<close>: the low bytes of the number, least significant
  first.
\<close>

definition writeU16LE :: "nat \<Rightarrow> bytes" where
  "writeU16LE v = [v mod 256, v div 256 mod 256]"

definition writeU32LE :: "nat \<Rightarrow> bytes" where
  "writeU32LE v = [v mod 256, v div 256 mod 256, v div 65536 mod 256, v div 16777216 mod 256]"

datatype ZipEntry = ZipEntry (zip_name: string) (zip_data: bytes)

datatype CentralEntry = CentralEntry (cd_offset: nat) (cd_name: bytes) (cd_crc: "32 word") (cd_size: nat)

definition localRecord :: "ZipEntry \<Rightarrow> bytes" where
  "localRecord entry =
     (let nameBytes = utf8 (zip_name entry); crc = crc32 (zip_data entry)
      in writeU32LE 0x04034B50 @ writeU16LE 20 @ writeU16LE 0 @ writeU16LE 0
         @ writeU16LE 0 @ writeU16LE 0
         @ writeU32LE (unat crc)
         @ writeU32LE (length (zip_data entry)) @ writeU32LE (length (zip_data entry))
         @ writeU16LE (length nameBytes) @ writeU16LE 0
         @ nameBytes @ zip_data entry)"

definition zipLocalStep :: "bytes \<times> CentralEntry list \<Rightarrow> ZipEntry \<Rightarrow> bytes \<times> CentralEntry list" where
  "zipLocalStep st entry =
     (let out = fst st; offset = length out
      in (out @ localRecord entry,
          snd st @ [CentralEntry offset (utf8 (zip_name entry)) (crc32 (zip_data entry))
                      (length (zip_data entry))]))"

definition centralRecord :: "CentralEntry \<Rightarrow> bytes" where
  "centralRecord cd =
     writeU32LE 0x02014B50 @ writeU16LE 20 @ writeU16LE 20 @ writeU16LE 0 @ writeU16LE 0
     @ writeU16LE 0 @ writeU16LE 0
     @ writeU32LE (unat (cd_crc cd)) @ writeU32LE (cd_size cd) @ writeU32LE (cd_size cd)
     @ writeU16LE (length (cd_name cd)) @ writeU16LE 0 @ writeU16LE 0 @ writeU16LE 0
     @ writeU16LE 0 @ writeU32LE 0 @ writeU32LE (cd_offset cd)
     @ cd_name cd"

definition endRecord :: "nat \<Rightarrow> nat \<Rightarrow> nat \<Rightarrow> bytes" where
  "endRecord count cdSize cdOffset =
     writeU32LE 0x06054B50 @ writeU16LE 0 @ writeU16LE 0 @ writeU16LE count @ writeU16LE count
     @ writeU32LE cdSize @ writeU32LE cdOffset @ writeU16LE 0"

definition createZip :: "ZipEntry list \<Rightarrow> bytes" where
  "createZip entries =
     (let st = foldl zipLocalStep ([], []) entries;
          out = fst st; centralDir = snd st;
          cdOffset = length out;
          out2 = foldl (\<lambda>acc cd. acc @ centralRecord cd) out centralDir;
          cdSize = length out2 - cdOffset
      in out2 @ endRecord (length centralDir) cdSize cdOffset)"

section \<open>The conversion\<close>

text \<open>
  \<open>gzipCompress\<close> hands the bytes to the platform's \<open>CompressionStream\<close>; it is the
  parameter \<open>gzip\<close> of the model. \<open>toNbt\<close> is the tail that every mode shares: bounds,
  tag tree, compression.
\<close>

definition toNbt :: "(bytes \<Rightarrow> bytes) \<Rightarrow> BlockEntry list \<Rightarrow> bytes" where
  "toNbt gzip blocks =
     (let r = normalizeAndMeasure blocks
      in gzip (writeStructureNbt (fst r) (sizeX (snd r)) (sizeY (snd r)) (sizeZ (snd r))))"

definition buildSuppressPairs ::
  "(bytes \<Rightarrow> bytes) \<Rightarrow> ImageData \<Rightarrow> ConversionOptions \<Rightarrow> bytes \<times> bool" where
  "buildSuppressPairs gzip img options =
     (let halves = buildSuppressPairsBlocks img options;
          oddData = toNbt gzip (fst halves);
          evenData = toNbt gzip (snd halves);
          zipEntries = [ZipEntry (opt_baseName options @ ''-odd_rows.nbt'') oddData,
                        ZipEntry (opt_baseName options @ ''-even_rows.nbt'') evenData]
      in (createZip zipEntries, True))"

text \<open>The block list that the single-structure modes serialise, before the bounds are taken.\<close>

definition convertBlocks ::
  "(int \<Rightarrow> int \<Rightarrow> int) \<Rightarrow> ImageData \<Rightarrow> ConversionOptions \<Rightarrow> BlockEntry list" where
  "convertBlocks roundScaled img options =
     (if opt_buildMode options = SuppressPairsEW
      then applySupport (buildSuppressPairsEWBlocks img options) options
      else if opt_buildMode options = SuppressDualLayer
      then applySupport (buildSuppressDualLayerBlocks img options) options
      else applySupport
             (applyStaircaseVariant roundScaled (buildStaircaseBlocks img options)
                (opt_buildMode options) img options)
             options)"

definition convertToNbt ::
  "(bytes \<Rightarrow> bytes) \<Rightarrow> (int \<Rightarrow> int \<Rightarrow> int) \<Rightarrow> ImageData \<Rightarrow> ConversionOptions \<Rightarrow> bytes \<times> bool" where
  "convertToNbt gzip roundScaled img options =
     (if opt_buildMode options = SuppressPairs then buildSuppressPairs gzip img options
      else (toNbt gzip (convertBlocks roundScaled img options), False))"

section \<open>Block names and pixels\<close>

text \<open>
  Words of the specification. The name part of a block identifier is what stands before
  the first bracket. An identifier is well named when it is not empty, begins with
  \<open>minecraft:\<close>, is its name part alone or the name part followed by a bracketed list,
  and carries \<open>persistent=true\<close> whenever its name part contains \<open>leaves\<close>.
\<close>

definition blockBaseName :: "string \<Rightarrow> string" where
  "blockBaseName block = (case indexOf block CHR ''['' of Some i \<Rightarrow> take i block | None \<Rightarrow> block)"

definition wellNamed :: "string \<Rightarrow> bool" where
  "wellNamed nm =
     (nm \<noteq> [] \<and> startsWith nm ''minecraft:''
      \<and> (blockBaseName nm = nm \<or> last nm = CHR '']'')
      \<and> (strIncludes (blockBaseName nm) ''leaves'' \<longrightarrow> strIncludes nm ''persistent=true''))"

text \<open>
  The block lists that a conversion builds: the two halves for \<open>suppress_pairs\<close>, one list
  for every other mode. The lists that it serialises are these after
  \<open>normalizeAndMeasure\<close>.
\<close>

definition builtStructures ::
  "(int \<Rightarrow> int \<Rightarrow> int) \<Rightarrow> ImageData \<Rightarrow> ConversionOptions \<Rightarrow> BlockEntry list list" where
  "builtStructures roundScaled img options =
     (if opt_buildMode options = SuppressPairs
      then [buildHalf img options 0, buildHalf img options 1]
      else [convertBlocks roundScaled img options])"

definition emittedStructures ::
  "(int \<Rightarrow> int \<Rightarrow> int) \<Rightarrow> ImageData \<Rightarrow> ConversionOptions \<Rightarrow> BlockEntry list list" where
  "emittedStructures roundScaled img options =
     map (\<lambda>blocks. fst (normalizeAndMeasure blocks)) (builtStructures roundScaled img options)"

text \<open>
  A pixel that the builders pass over: transparent, or matching neither the palette lookup
  nor a custom colour. A placement belongs to a pixel when it stands in the column of
  cells of a pixel of the image that is not passed over.
\<close>

definition skippedPixel :: "ImageData \<Rightarrow> ConversionOptions \<Rightarrow> nat \<Rightarrow> nat \<Rightarrow> bool" where
  "skippedPixel img options z x =
     (pixelAlpha img z x = 0
      \<or> (getColorLookup (pixelKey img z x) = None
          \<and> customLookup (opt_customColors options) (pixelKey img z x) = None))"

definition pixelPlaced :: "ImageData \<Rightarrow> ConversionOptions \<Rightarrow> BlockEntry \<Rightarrow> bool" where
  "pixelPlaced img options b =
     (0 \<le> blk_x b \<and> blk_x b < 128 \<and> 0 \<le> blk_z b \<and> blk_z b < 128
      \<and> \<not> skippedPixel img options (nat (blk_z b)) (nat (blk_x b)))"

text \<open>
  The invariant of the builders: the name of a placement is a resolved name, and the
  placement is the filler or belongs to a pixel.
\<close>

definition soundBlock :: "ImageData \<Rightarrow> ConversionOptions \<Rightarrow> BlockEntry \<Rightarrow> bool" where
  "soundBlock img options b =
     (blockName b \<in> range resolveBlockName
      \<and> (blockName b = resolveBlockName (opt_fillerBlock options) \<or> pixelPlaced img options b))"

definition soundBlocks :: "ImageData \<Rightarrow> ConversionOptions \<Rightarrow> BlockEntry list \<Rightarrow> bool" where
  "soundBlocks img options blocks = (\<forall>b \<in> set blocks. soundBlock img options b)"






section \<open>Properties of the decimal keys\<close>

lemma digitChar_range: "d < 10 \<Longrightarrow> digitChar d \<in> set ''0123456789''"
  unfolding digitChar_def by (rule nth_mem) simp

lemma showNat_digits: "set (showNat n) \<subseteq> set ''0123456789''"
proof (induction n rule: showNat.induct)
  case (1 n)
  show ?case
  proof (cases "n < 10")
    case True
    then show ?thesis
      using digitChar_range [of n] by (subst showNat.simps) simp
  next
    case False
    have "n mod 10 < 10" by simp
    then have "digitChar (n mod 10) \<in> set ''0123456789''" by (rule digitChar_range)
    with False "1.IH" show ?thesis
      by (subst showNat.simps) simp
  qed
qed

lemma showNat_no_comma: "CHR '','' \<notin> set (showNat n)"
  using showNat_digits [of n] by auto

lemma showNat_no_minus: "CHR ''-'' \<notin> set (showNat n)"
  using showNat_digits [of n] by auto

lemma showNat_nonempty: "showNat n \<noteq> []"
  by (subst showNat.simps) simp

lemma digitVal_digitChar: "d < 10 \<Longrightarrow> digitVal (digitChar d) = d"
proof -
  assume "d < 10"
  then have "d \<in> {0, 1, 2, 3, 4, 5, 6, 7, 8, 9}" by auto
  then show ?thesis
    by (auto simp: digitVal_def digitChar_def)
qed

lemma readNat_append: "readNat (xs @ [c]) = 10 * readNat xs + digitVal c"
  by (simp add: readNat_def)

lemma readNat_showNat: "readNat (showNat n) = n"
proof (induction n rule: showNat.induct)
  case (1 n)
  show ?case
  proof (cases "n < 10")
    case True
    then show ?thesis
      by (subst showNat.simps) (simp add: readNat_def digitVal_digitChar)
  next
    case False
    have "readNat (showNat n) = 10 * readNat (showNat (n div 10)) + digitVal (digitChar (n mod 10))"
      using False by (subst showNat.simps) (simp add: readNat_append)
    also have "\<dots> = 10 * (n div 10) + n mod 10"
      using False "1.IH" by (simp add: digitVal_digitChar)
    finally show ?thesis by simp
  qed
qed

lemma showNat_inj: "showNat m = showNat n \<Longrightarrow> m = n"
  by (metis readNat_showNat)

lemma sep_split:
  "c \<notin> set a \<Longrightarrow> c \<notin> set a' \<Longrightarrow> a @ c # b = a' @ c # b' \<Longrightarrow> a = a' \<and> b = b'"
proof (induction a arbitrary: a')
  case Nil
  then show ?case by (cases a') auto
next
  case (Cons x xs)
  then show ?case by (cases a') auto
qed

lemma rgbKey_inj: "rgbKey s = rgbKey t \<Longrightarrow> s = t"
proof -
  assume eq: "rgbKey s = rgbKey t"
  obtain r g b where s: "s = (r, g, b)" by (cases s)
  obtain r' g' b' where t: "t = (r', g', b')" by (cases t)
  from eq s t have e1: "showNat r @ CHR '','' # (showNat g @ CHR '','' # showNat b)
      = showNat r' @ CHR '','' # (showNat g' @ CHR '','' # showNat b')"
    by (simp add: rgbKey_def)
  from sep_split [OF showNat_no_comma showNat_no_comma e1]
  have r: "showNat r = showNat r'"
    and e2: "showNat g @ CHR '','' # showNat b = showNat g' @ CHR '','' # showNat b'"
    by simp_all
  from sep_split [OF showNat_no_comma showNat_no_comma e2]
  have "showNat g = showNat g'" and "showNat b = showNat b'" by simp_all
  with r s t show ?thesis by (simp add: showNat_inj)
qed

section \<open>The reverse lookup inverts the shading\<close>

lemma foldl_mapSet: "foldl mapSet m es = m ++ map_of (rev es)"
  by (induction es arbitrary: m) (auto simp: mapSet_def map_add_def fun_eq_iff split: option.splits)

lemma getColorLookup_map_of: "getColorLookup = map_of (rev lookupEntries)"
  by (simp add: getColorLookup_def foldl_mapSet)

lemma length_BASE_COLORS: "length BASE_COLORS = 62"
  by (simp add: BASE_COLORS_def)

lemma map_nth_from_one: "map (\<lambda>i. f (xs ! i)) [1..<length xs] = map f (tl xs)"
  by (auto simp: list_eq_iff_nth_eq nth_tl)

lemma map_shades: "map (\<lambda>s. f (SHADE_MULTIPLIERS ! s)) [0..<4] = map f SHADE_MULTIPLIERS"
  by (simp add: SHADE_MULTIPLIERS_def upt_rec)

lemma lookup_keys: "map fst lookupEntries = map rgbKey (concat shadedRows)"
proof -
  let ?row = "\<lambda>c. map (\<lambda>m. rgbKey (shadedTriple c m)) SHADE_MULTIPLIERS"
  have row: "map (\<lambda>s. rgbKey (shadedTriple c (SHADE_MULTIPLIERS ! s))) [0..<4] = ?row c" for c
    by (rule map_shades)
  have "map fst lookupEntries
      = concat (map (\<lambda>i. map (\<lambda>s. rgbKey (shadedTriple (BASE_COLORS ! i) (SHADE_MULTIPLIERS ! s))) [0..<4])
          [1..<length BASE_COLORS])"
    by (simp add: lookupEntries_def shadeEntry_def map_concat comp_def)
  also have "\<dots> = concat (map (\<lambda>i. ?row (BASE_COLORS ! i)) [1..<length BASE_COLORS])"
    by (simp only: row)
  also have "\<dots> = concat (map ?row (tl BASE_COLORS))"
    by (simp only: map_nth_from_one [of ?row BASE_COLORS])
  also have "\<dots> = map rgbKey (concat shadedRows)"
    by (simp add: shadedRows_def map_concat comp_def)
  finally show ?thesis .
qed

lemma shadedRows_eq:
  "shadedRows =
    [[(89, 125, 39), (109, 153, 48), (127, 178, 56), (67, 94, 29)],
     [(174, 164, 115), (213, 201, 140), (247, 233, 163), (130, 123, 86)],
     [(140, 140, 140), (171, 171, 171), (199, 199, 199), (105, 105, 105)],
     [(180, 0, 0), (220, 0, 0), (255, 0, 0), (135, 0, 0)],
     [(112, 112, 180), (138, 138, 220), (160, 160, 255), (84, 84, 135)],
     [(117, 117, 117), (144, 144, 144), (167, 167, 167), (88, 88, 88)],
     [(0, 87, 0), (0, 106, 0), (0, 124, 0), (0, 65, 0)],
     [(180, 180, 180), (220, 220, 220), (255, 255, 255), (135, 135, 135)],
     [(115, 118, 129), (141, 144, 158), (164, 168, 184), (86, 88, 97)],
     [(106, 76, 54), (130, 94, 66), (151, 109, 77), (79, 57, 40)],
     [(79, 79, 79), (96, 96, 96), (112, 112, 112), (59, 59, 59)],
     [(45, 45, 180), (55, 55, 220), (64, 64, 255), (33, 33, 135)],
     [(100, 84, 50), (123, 102, 62), (143, 119, 72), (75, 63, 38)],
     [(180, 177, 172), (220, 217, 211), (255, 252, 245), (135, 133, 129)],
     [(152, 89, 36), (186, 109, 44), (216, 127, 51), (114, 67, 27)],
     [(125, 53, 152), (153, 65, 186), (178, 76, 216), (94, 40, 114)],
     [(72, 108, 152), (88, 132, 186), (102, 153, 216), (54, 81, 114)],
     [(161, 161, 36), (197, 197, 44), (229, 229, 51), (121, 121, 27)],
     [(89, 144, 17), (109, 176, 21), (127, 204, 25), (67, 108, 13)],
     [(170, 89, 116), (208, 109, 142), (242, 127, 165), (128, 67, 87)],
     [(53, 53, 53), (65, 65, 65), (76, 76, 76), (40, 40, 40)],
     [(108, 108, 108), (132, 132, 132), (153, 153, 153), (81, 81, 81)],
     [(53, 89, 108), (65, 109, 132), (76, 127, 153), (40, 67, 81)],
     [(89, 44, 125), (109, 54, 153), (127, 63, 178), (67, 33, 94)],
     [(36, 53, 125), (44, 65, 153), (51, 76, 178), (27, 40, 94)],
     [(72, 53, 36), (88, 65, 44), (102, 76, 51), (54, 40, 27)],
     [(72, 89, 36), (88, 109, 44), (102, 127, 51), (54, 67, 27)],
     [(108, 36, 36), (132, 44, 44), (153, 51, 51), (81, 27, 27)],
     [(17, 17, 17), (21, 21, 21), (25, 25, 25), (13, 13, 13)],
     [(176, 168, 54), (215, 205, 66), (250, 238, 77), (132, 126, 40)],
     [(64, 154, 150), (79, 188, 183), (92, 219, 213), (48, 115, 112)],
     [(52, 90, 180), (63, 110, 220), (74, 128, 255), (39, 67, 135)],
     [(0, 153, 40), (0, 187, 50), (0, 217, 58), (0, 114, 30)],
     [(91, 60, 34), (111, 74, 42), (129, 86, 49), (68, 45, 25)],
     [(79, 1, 0), (96, 1, 0), (112, 2, 0), (59, 1, 0)],
     [(147, 124, 113), (180, 152, 138), (209, 177, 161), (110, 93, 85)],
     [(112, 57, 25), (137, 70, 31), (159, 82, 36), (84, 43, 19)],
     [(105, 61, 76), (128, 75, 93), (149, 87, 108), (78, 46, 57)],
     [(79, 76, 97), (96, 93, 119), (112, 108, 138), (59, 57, 73)],
     [(131, 93, 25), (160, 114, 31), (186, 133, 36), (98, 70, 19)],
     [(72, 82, 37), (88, 100, 45), (103, 117, 53), (54, 61, 28)],
     [(112, 54, 55), (138, 66, 67), (160, 77, 78), (84, 40, 41)],
     [(40, 28, 24), (49, 35, 30), (57, 41, 35), (30, 21, 18)],
     [(95, 75, 69), (116, 92, 84), (135, 107, 98), (71, 56, 51)],
     [(61, 64, 64), (75, 79, 79), (87, 92, 92), (46, 48, 48)],
     [(86, 51, 62), (105, 62, 75), (122, 73, 88), (64, 38, 46)],
     [(53, 43, 64), (65, 53, 79), (76, 62, 92), (40, 32, 48)],
     [(53, 35, 24), (65, 43, 30), (76, 50, 35), (40, 26, 18)],
     [(53, 57, 29), (65, 70, 36), (76, 82, 42), (40, 43, 22)],
     [(100, 42, 32), (122, 51, 39), (142, 60, 46), (75, 31, 24)],
     [(26, 15, 11), (31, 18, 13), (37, 22, 16), (19, 11, 8)],
     [(133, 33, 34), (163, 41, 42), (189, 48, 49), (100, 25, 25)],
     [(104, 44, 68), (127, 54, 83), (148, 63, 97), (78, 33, 51)],
     [(64, 17, 20), (79, 21, 25), (92, 25, 29), (48, 13, 15)],
     [(15, 88, 94), (18, 108, 115), (22, 126, 134), (11, 66, 70)],
     [(40, 100, 98), (50, 122, 120), (58, 142, 140), (30, 75, 74)],
     [(60, 31, 43), (74, 37, 53), (86, 44, 62), (45, 23, 32)],
     [(14, 127, 93), (17, 155, 114), (20, 180, 133), (10, 95, 70)],
     [(70, 70, 70), (86, 86, 86), (100, 100, 100), (52, 52, 52)],
     [(152, 123, 103), (186, 150, 126), (216, 175, 147), (114, 92, 77)],
     [(89, 117, 105), (109, 144, 129), (127, 167, 150), (67, 88, 79)]]"
  by (simp add: shadedRows_def shadedTriple_def BASE_COLORS_def SHADE_MULTIPLIERS_def)

lemma shadedCodes_eq:
  "map rgbCode (concat shadedRows) =
    [5864743, 7182640, 8368696, 4415005, 11445363, 14010764, 16247203, 8551254, 9211020,
     11250603, 13092807, 6908265, 11796480, 14417920, 16711680, 8847360, 7368884, 9079516,
     10526975, 5526663, 7697781, 9474192, 10987431, 5789784, 22272, 27136, 31744, 16640,
     11842740, 14474460, 16777215, 8882055, 7566977, 9277598, 10791096, 5658721, 6966326,
     8543810, 9923917, 5191976, 5197647, 6316128, 7368816, 3881787, 2960820, 3618780, 4210943,
     2171271, 6575154, 8087102, 9402184, 4931366, 11841964, 14473683, 16776437, 8881537,
     9984292, 12217644, 14188339, 7488283, 8205720, 10043834, 11685080, 6170738, 4746392,
     5801146, 6724056, 3559794, 10592548, 12961068, 15066419, 7960859, 5869585, 7188501,
     8375321, 4418573, 11164020, 13659534, 15892389, 8405847, 3487029, 4276545, 5000268,
     2631720, 7105644, 8684676, 10066329, 5329233, 3496300, 4287876, 5013401, 2638673, 5844093,
     7157401, 8339378, 4399454, 2372989, 2900377, 3361970, 1779806, 4732196, 5783852, 6704179,
     3549211, 4741412, 5795116, 6717235, 3556123, 7087140, 8662060, 10040115, 5315355, 1118481,
     1381653, 1644825, 855309, 11577398, 14142786, 16445005, 8683048, 4233878, 5225655,
     6085589, 3175280, 3431092, 4157148, 4882687, 2573191, 39208, 47922, 55610, 29214, 5979170,
     7293482, 8476209, 4467993, 5177600, 6291712, 7340544, 3866880, 9665649, 11835530,
     13742497, 7232853, 7354649, 8996383, 10441252, 5516051, 6896972, 8407901, 9787244,
     5123641, 5196897, 6315383, 7367818, 3881289, 8609049, 10514975, 12223780, 6440467,
     4739621, 5792813, 6780213, 3554588, 7353911, 9060931, 10505550, 5515305, 2628632, 3220254,
     3746083, 1971474, 6245189, 7625812, 8874850, 4667443, 4014144, 4935503, 5725276, 3026992,
     5649214, 6897227, 8014168, 4204078, 3484480, 4273487, 4996700, 2629680, 3482392, 4270878,
     4993571, 2628114, 3488029, 4277796, 5001770, 2632470, 6564384, 8008487, 9321518, 4923160,
     1707787, 2036237, 2430480, 1248008, 8724770, 10692906, 12398641, 6560025, 6827076,
     8336979, 9715553, 5120307, 4198676, 5182745, 6035741, 3149071, 1005662, 1207411, 1474182,
     737862, 2647138, 3308152, 3837580, 1985354, 3940139, 4859189, 5647422, 2955040, 950109,
     1153906, 1356933, 679750, 4605510, 5658198, 6579300, 3421236, 9993063, 12228222, 14200723,
     7494733, 5862761, 7180417, 8365974, 4413519]"
  unfolding shadedRows_eq by (simp add: rgbCode_def)

lemma shadedCodes_distinct:
  "distinct [5864743, 7182640, 8368696, 4415005, 11445363, 14010764, 16247203, 8551254, 9211020,
     11250603, 13092807, 6908265, 11796480, 14417920, 16711680, 8847360, 7368884, 9079516,
     10526975, 5526663, 7697781, 9474192, 10987431, 5789784, 22272, 27136, 31744, 16640,
     11842740, 14474460, 16777215, 8882055, 7566977, 9277598, 10791096, 5658721, 6966326,
     8543810, 9923917, 5191976, 5197647, 6316128, 7368816, 3881787, 2960820, 3618780, 4210943,
     2171271, 6575154, 8087102, 9402184, 4931366, 11841964, 14473683, 16776437, 8881537,
     9984292, 12217644, 14188339, 7488283, 8205720, 10043834, 11685080, 6170738, 4746392,
     5801146, 6724056, 3559794, 10592548, 12961068, 15066419, 7960859, 5869585, 7188501,
     8375321, 4418573, 11164020, 13659534, 15892389, 8405847, 3487029, 4276545, 5000268,
     2631720, 7105644, 8684676, 10066329, 5329233, 3496300, 4287876, 5013401, 2638673, 5844093,
     7157401, 8339378, 4399454, 2372989, 2900377, 3361970, 1779806, 4732196, 5783852, 6704179,
     3549211, 4741412, 5795116, 6717235, 3556123, 7087140, 8662060, 10040115, 5315355, 1118481,
     1381653, 1644825, 855309, 11577398, 14142786, 16445005, 8683048, 4233878, 5225655,
     6085589, 3175280, 3431092, 4157148, 4882687, 2573191, 39208, 47922, 55610, 29214, 5979170,
     7293482, 8476209, 4467993, 5177600, 6291712, 7340544, 3866880, 9665649, 11835530,
     13742497, 7232853, 7354649, 8996383, 10441252, 5516051, 6896972, 8407901, 9787244,
     5123641, 5196897, 6315383, 7367818, 3881289, 8609049, 10514975, 12223780, 6440467,
     4739621, 5792813, 6780213, 3554588, 7353911, 9060931, 10505550, 5515305, 2628632, 3220254,
     3746083, 1971474, 6245189, 7625812, 8874850, 4667443, 4014144, 4935503, 5725276, 3026992,
     5649214, 6897227, 8014168, 4204078, 3484480, 4273487, 4996700, 2629680, 3482392, 4270878,
     4993571, 2628114, 3488029, 4277796, 5001770, 2632470, 6564384, 8008487, 9321518, 4923160,
     1707787, 2036237, 2430480, 1248008, 8724770, 10692906, 12398641, 6560025, 6827076,
     8336979, 9715553, 5120307, 4198676, 5182745, 6035741, 3149071, 1005662, 1207411, 1474182,
     737862, 2647138, 3308152, 3837580, 1985354, 3940139, 4859189, 5647422, 2955040, 950109,
     1153906, 1356933, 679750, 4605510, 5658198, 6579300, 3421236, 9993063, 12228222, 14200723,
     7494733, 5862761, 7180417, 8365974, 4413519 :: nat]"
  by simp

lemma shaded_distinct: "distinct (concat shadedRows)"
proof -
  have "distinct (map rgbCode (concat shadedRows))"
    unfolding shadedCodes_eq by (rule shadedCodes_distinct)
  then show ?thesis by (simp add: distinct_map)
qed

lemma lookup_keys_distinct: "distinct (map fst lookupEntries)"
  unfolding lookup_keys
  by (simp add: distinct_map shaded_distinct inj_on_def) (blast dest: rgbKey_inj)

lemma black_not_shaded: "(0, 0, 0) \<notin> set (concat shadedRows)"
  unfolding shadedRows_eq by simp

lemma getColorLookup_entry:
  "(k, v) \<in> set lookupEntries \<Longrightarrow> getColorLookup k = Some v"
proof -
  assume kv: "(k, v) \<in> set lookupEntries"
  have "distinct (rev (map fst lookupEntries))"
    using lookup_keys_distinct by simp
  then have "distinct (map fst (rev lookupEntries))"
    by (simp only: rev_map)
  with kv show ?thesis
    by (simp add: getColorLookup_map_of)
qed

lemma getColorLookup_None:
  "k \<notin> set (map fst lookupEntries) \<Longrightarrow> getColorLookup k = None"
  by (simp add: getColorLookup_map_of map_of_eq_None_iff)

lemma concat_map_mem: "i \<in> set js \<Longrightarrow> x \<in> set (f i) \<Longrightarrow> x \<in> set (concat (map f js))"
  by auto

lemma shadeEntry_mem:
  "1 \<le> i \<Longrightarrow> i < 62 \<Longrightarrow> s < 4 \<Longrightarrow> shadeEntry i s \<in> set lookupEntries"
proof -
  assume "1 \<le> i" "i < 62" "s < 4"
  then have i: "i \<in> set [1..<length BASE_COLORS]" and s: "s \<in> set [0..<4]"
    by (simp_all add: length_BASE_COLORS)
  show ?thesis
    unfolding lookupEntries_def
  proof (rule concat_map_mem)
    show "i \<in> set [1..<length BASE_COLORS]" by (rule i)
    show "shadeEntry i s \<in> set (map (\<lambda>s. shadeEntry i s) [0..<4])"
      unfolding set_map using s by (rule imageI)
  qed
qed


text \<open>
  Claim C1, as the code has it: for every palette index from 1 to 61 and every shade
  0..3 (dark, flat, light, darkest), \<open>getShadedRgb\<close> returns a triple and the reverse
  lookup maps that triple back to exactly this index and shade. Index 0 (the transparent
  bucket) is left out of the lookup by \<open>getColorLookup\<close>, whose loop starts at 1.
\<close>

theorem lookup_inverts_shading:
  "1 \<le> i \<Longrightarrow> i < 62 \<Longrightarrow> s < 4 \<Longrightarrow>
     \<exists>t. getShadedRgb i s = Some t \<and> lookupRgb t = Some (ColorMatch i s)"
proof -
  assume i: "1 \<le> i" "i < 62" and s: "s < 4"
  let ?t = "shadedTriple (BASE_COLORS ! i) (SHADE_MULTIPLIERS ! s)"
  have g: "getShadedRgb i s = Some ?t"
    using i s by (simp add: getShadedRgb_def length_BASE_COLORS SHADE_MULTIPLIERS_def)
  have "(rgbKey ?t, ColorMatch i s) \<in> set lookupEntries"
    using shadeEntry_mem [OF i s] by (simp add: shadeEntry_def)
  then have "lookupRgb ?t = Some (ColorMatch i s)"
    unfolding lookupRgb_def by (rule getColorLookup_entry)
  with g show ?thesis by blast
qed

theorem lookup_inverts_shading_witness:
  "(1::nat) \<le> 1 \<and> (1::nat) < 62 \<and> (1::nat) < 4 \<and>
     (\<exists>t. getShadedRgb 1 1 = Some t \<and> lookupRgb t = Some (ColorMatch 1 1))"
  using lookup_inverts_shading [of 1 1] by simp

text \<open>
  The claim as stated also covers palette index 0. There the shaded triple is black, and
  black is not a key of the reverse lookup: the lookup gives no match for it.
\<close>

theorem lookup_index_zero_counterexample:
  "getShadedRgb 0 0 = Some (0, 0, 0) \<and> lookupRgb (0, 0, 0) = None"
proof
  show "getShadedRgb 0 0 = Some (0, 0, 0)"
    by (simp add: getShadedRgb_def BASE_COLORS_def SHADE_MULTIPLIERS_def shadedTriple_def)
  have "rgbKey (0, 0, 0) \<notin> set (map fst lookupEntries)"
    unfolding lookup_keys using black_not_shaded by (auto dest: rgbKey_inj)
  then show "lookupRgb (0, 0, 0) = None"
    unfolding lookupRgb_def by (rule getColorLookup_None)
qed

text \<open>
  Claim C4: the water depth is 1 for the light shade at every position; 5 or 3 for the
  flat shade and 10 or 7 for the dark and darkest shades, on even and odd \<open>x + z\<close>.
  It holds at every position, in particular for \<open>x\<close> and \<open>z\<close> in 0..127.
\<close>

theorem getWaterDepth_table:
  "getWaterDepth 2 x z = 1 \<and>
   getWaterDepth 1 x z = (if even (x + z) then 5 else 3) \<and>
   getWaterDepth 0 x z = (if even (x + z) then 10 else 7) \<and>
   getWaterDepth 3 x z = (if even (x + z) then 10 else 7)"
  by (simp add: getWaterDepth_def even_iff_mod_2_eq_zero)

section \<open>Position keys, support and bounds\<close>




lemmas string_eval = trim_def isSpace_def toLowerCase_def lowerChar_def sliceToLast_def
  parseProps_def objSet_def objectKeys_def objGet_def isArrayIndex_def readNat_def digitVal_def

lemma showInt_no_comma: "CHR '','' \<notin> set (showInt i)"
  by (simp add: showInt_def showNat_no_comma)

lemma showNat_hd_not_minus: "showNat n \<noteq> CHR ''-'' # cs"
  using showNat_no_minus [of n] by auto

lemma showInt_inj: "showInt i = showInt j \<Longrightarrow> i = j"
  using showNat_hd_not_minus showNat_hd_not_minus [symmetric]
  by (auto simp: showInt_def split: if_splits dest!: showNat_inj)

lemma posKey_inj: "posKey x y z = posKey x' y' z' \<Longrightarrow> x = x' \<and> y = y' \<and> z = z'"
proof -
  assume "posKey x y z = posKey x' y' z'"
  then have e1: "showInt x @ CHR '','' # (showInt y @ CHR '','' # showInt z)
      = showInt x' @ CHR '','' # (showInt y' @ CHR '','' # showInt z')"
    by (simp add: posKey_def)
  from sep_split [OF showInt_no_comma showInt_no_comma e1]
  have x: "showInt x = showInt x'"
    and e2: "showInt y @ CHR '','' # showInt z = showInt y' @ CHR '','' # showInt z'"
    by simp_all
  from sep_split [OF showInt_no_comma showInt_no_comma e2]
  have "showInt y = showInt y'" and "showInt z = showInt z'" by simp_all
  with x show ?thesis by (simp add: showInt_inj)
qed

lemma posKey_eq_iff [simp]: "posKey x y z = posKey x' y' z' \<longleftrightarrow> x = x' \<and> y = y' \<and> z = z'"
  using posKey_inj by blast

lemma blockKey_eq_iff: "blockKey a = blockKey b \<longleftrightarrow> blockPos a = blockPos b"
  by (simp add: blockKey_def blockPos_def)

lemma occupiedKeys_fold: "foldl (\<lambda>occ b. insert (blockKey b) occ) A bs = A \<union> blockKey ` set bs"
  by (induction bs arbitrary: A) auto

lemma occupiedKeys_eq: "occupiedKeys bs = blockKey ` set bs"
  by (simp add: occupiedKeys_def occupiedKeys_fold)

lemma blockKey_fillerBelow: "blockKey (fillerBelow f b) = posKey (blk_x b) (blk_y b - 1) (blk_z b)"
  by (simp add: fillerBelow_def blockKey_def)

lemma belowStep_cases:
  "belowStep f (ex, occ) b =
     (if blockKey (fillerBelow f b) \<notin> occ
      then (ex @ [fillerBelow f b], insert (blockKey (fillerBelow f b)) occ) else (ex, occ))"
  by (simp add: belowStep_def blockKey_def fillerBelow_def Let_def)

lemma belowStep_fold:
  "\<exists>new. foldl (belowStep f) (ex, occ) bs = (ex @ new, occ \<union> blockKey ` set new)
      \<and> distinct (map blockKey new)
      \<and> blockKey ` set new \<inter> occ = {}
      \<and> set new \<subseteq> fillerBelow f ` set bs
      \<and> (\<forall>b\<in>set bs. blockKey (fillerBelow f b) \<in> occ \<union> blockKey ` set new)"
proof (induction bs arbitrary: ex occ)
  case Nil
  show ?case by simp
next
  case (Cons b bs)
  let ?e = "fillerBelow f b"
  show ?case
  proof (cases "blockKey ?e \<in> occ")
    case True
    from Cons.IH [of ex occ] obtain new where
      n: "foldl (belowStep f) (ex, occ) bs = (ex @ new, occ \<union> blockKey ` set new)"
        "distinct (map blockKey new)" "blockKey ` set new \<inter> occ = {}"
        "set new \<subseteq> fillerBelow f ` set bs"
        "\<forall>b\<in>set bs. blockKey (fillerBelow f b) \<in> occ \<union> blockKey ` set new"
      by blast
    show ?thesis
      apply (rule exI [of _ new])
      using True n by (auto simp: belowStep_cases)
  next
    case False
    from Cons.IH [of "ex @ [?e]" "insert (blockKey ?e) occ"] obtain new where
      n: "foldl (belowStep f) (ex @ [?e], insert (blockKey ?e) occ) bs
            = ((ex @ [?e]) @ new, insert (blockKey ?e) occ \<union> blockKey ` set new)"
        "distinct (map blockKey new)" "blockKey ` set new \<inter> insert (blockKey ?e) occ = {}"
        "set new \<subseteq> fillerBelow f ` set bs"
        "\<forall>b\<in>set bs. blockKey (fillerBelow f b) \<in> insert (blockKey ?e) occ \<union> blockKey ` set new"
      by blast
    show ?thesis
      apply (rule exI [of _ "?e # new"])
      using False n by (auto simp: belowStep_cases)
  qed
qed


lemma addAllSupport_shape:
  "\<exists>extra. addAllSupport blocks f = blocks @ extra
      \<and> distinct (map blockPos extra)
      \<and> blockPos ` set extra \<inter> blockPos ` set blocks = {}
      \<and> set extra \<subseteq> fillerBelow f ` set blocks
      \<and> (\<forall>b\<in>set blocks. cellBelow b \<in> blockPos ` set (blocks @ extra))"
proof -
  from belowStep_fold [of f "[]" "occupiedKeys blocks" blocks] obtain new where
    n: "foldl (belowStep f) ([], occupiedKeys blocks) blocks = (new, occupiedKeys blocks \<union> blockKey ` set new)"
      "distinct (map blockKey new)" "blockKey ` set new \<inter> occupiedKeys blocks = {}"
      "set new \<subseteq> fillerBelow f ` set blocks"
      "\<forall>b\<in>set blocks. blockKey (fillerBelow f b) \<in> occupiedKeys blocks \<union> blockKey ` set new"
    by auto
  have inj: "inj_on blockKey A \<longleftrightarrow> inj_on blockPos A" for A
    by (simp add: inj_on_def blockKey_eq_iff)
  have d: "distinct (map blockPos new)"
    using n(2) by (simp add: distinct_map inj)
  have "False" if "e \<in> set new" "b \<in> set blocks" "blockPos e = blockPos b" for e b
  proof -
    from that have "blockKey e = blockKey b"
      by (simp add: blockKey_eq_iff)
    with that have "blockKey e \<in> blockKey ` set new \<inter> occupiedKeys blocks"
      unfolding occupiedKeys_eq by blast
    with n(3) show False by simp
  qed
  then have disj: "blockPos ` set new \<inter> blockPos ` set blocks = {}"
    by fastforce
  have below: "cellBelow b \<in> blockPos ` set (blocks @ new)" if "b \<in> set blocks" for b
  proof -
    from n(5) that have "blockKey (fillerBelow f b) \<in> blockKey ` set (blocks @ new)"
      by (auto simp: occupiedKeys_eq)
    then obtain s where "s \<in> set (blocks @ new)" "blockKey (fillerBelow f b) = blockKey s" by blast
    then have "blockPos s = cellBelow b"
      by (simp add: blockKey_eq_iff) (simp add: blockPos_def cellBelow_def fillerBelow_def)
    with \<open>s \<in> set (blocks @ new)\<close> show ?thesis by force
  qed
  show ?thesis
    apply (rule exI [of _ new])
    using n(1,4) d disj below by (simp add: addAllSupport_def)
qed


lemma lowest_fold:
  "foldl (\<lambda>m v. case m of None \<Rightarrow> Some v | Some l \<Rightarrow> if v < l then Some v else Some l) (Some a) vs
     = Some (fold min vs (a::int))"
  by (induction vs arbitrary: a) (auto simp: min_def)

lemma highest_fold:
  "foldl (\<lambda>m v. case m of None \<Rightarrow> Some v | Some h \<Rightarrow> if v > h then Some v else Some h) (Some a) vs
     = Some (fold max vs (a::int))"
  by (induction vs arbitrary: a) (auto simp: max_def)

lemma lowest_Min: "vs \<noteq> [] \<Longrightarrow> lowest vs = Some (Min (set vs))"
  by (cases vs) (simp_all add: lowest_def lowest_fold Min.set_eq_fold del: set_simps)

lemma highest_Max: "vs \<noteq> [] \<Longrightarrow> highest vs = Some (Max (set vs))"
  by (cases vs) (simp_all add: highest_def highest_fold Max.set_eq_fold del: set_simps)

lemma normalize_nonempty:
  assumes ne: "blocks \<noteq> []"
  shows "normalizeAndMeasure blocks =
     (let minY = Min (set (map blk_y blocks)); maxY = Max (set (map blk_y blocks));
          minZ = Min (set (map blk_z blocks)); maxZ = Max (set (map blk_z blocks))
      in (map (shiftBlock minY (if minZ < 0 then minZ else 0)) blocks,
          Dimensions 128 (maxY - minY + 1)
            (max ((if minZ < 0 then maxZ - minZ else maxZ) + 1) (if minZ < 0 then 129 else 128))))"
  using ne by (simp add: normalizeAndMeasure_def lowest_Min highest_Max shiftBlock_def Let_def)

lemma Min_shift:
  "vs \<noteq> [] \<Longrightarrow> Min (set (map (\<lambda>v. v - d) vs)) = Min (set vs) - (d::int)"
proof -
  assume "vs \<noteq> []"
  then have "finite (set vs)" "set vs \<noteq> {}" by simp_all
  then have "Min ((\<lambda>v. v - d) ` set vs) = Min (set vs) - d"
    by (intro mono_Min_commute [symmetric] monoI) simp_all
  then show ?thesis by simp
qed

text \<open>
  Claim C7: the support mode \<open>all\<close> with a filler that is not disabled appends filler
  placements to the list and leaves the list itself as it was. Afterwards the cell beneath
  every placement of the original list is occupied. The appended fillers are at pairwise
  different cells, none of them at a cell of the original list; each is named by the filler
  block and lies directly beneath a placement of the original list. So a cell that was
  empty beneath a block gets exactly one filler, and a stack receives filler only under its
  lowest voxel.
\<close>

theorem addAllSupport_fills_below:
  "\<not> isFillerDisabled filler \<Longrightarrow>
     \<exists>extra. applySupportMode blocks filler SupportAll = blocks @ extra
        \<and> (\<forall>b\<in>set blocks. cellBelow b \<in> blockPos ` set (blocks @ extra))
        \<and> distinct (map blockPos extra)
        \<and> blockPos ` set extra \<inter> blockPos ` set blocks = {}
        \<and> (\<forall>e\<in>set extra. blockName e = resolveBlockName filler
               \<and> (\<exists>b\<in>set blocks. blockPos e = cellBelow b))"
proof -
  assume on: "\<not> isFillerDisabled filler"
  from addAllSupport_shape [of blocks filler] obtain extra where
    e: "addAllSupport blocks filler = blocks @ extra" "distinct (map blockPos extra)"
      "blockPos ` set extra \<inter> blockPos ` set blocks = {}"
      "set extra \<subseteq> fillerBelow filler ` set blocks"
      "\<forall>b\<in>set blocks. cellBelow b \<in> blockPos ` set (blocks @ extra)"
    by blast
  have "blockName x = resolveBlockName filler \<and> (\<exists>b\<in>set blocks. blockPos x = cellBelow b)"
    if "x \<in> set extra" for x
  proof -
    from that e(4) obtain b where "b \<in> set blocks" "x = fillerBelow filler b" by blast
    then show ?thesis
      by (auto simp: fillerBelow_def blockPos_def cellBelow_def)
  qed
  with e on show ?thesis
    by (auto simp: applySupportMode_def)
qed

theorem addAllSupport_fills_below_witness:
  "\<not> isFillerDisabled ''stone''
   \<and> applySupportMode
        [BlockEntry 7 1 2 ''minecraft:water'', BlockEntry 7 2 2 ''minecraft:water'',
         BlockEntry 7 1 3 ''minecraft:sand'']
        ''stone'' SupportAll
      = [BlockEntry 7 1 2 ''minecraft:water'', BlockEntry 7 2 2 ''minecraft:water'',
         BlockEntry 7 1 3 ''minecraft:sand'',
         BlockEntry 7 0 2 ''minecraft:stone'', BlockEntry 7 0 3 ''minecraft:stone'']"
proof -
  have on: "\<not> isFillerDisabled ''stone''"
    by (simp add: isFillerDisabled_def string_eval)
  have name: "resolveBlockName ''stone'' = ''minecraft:stone''"
    by (simp add: resolveBlockName_def string_eval)
  have run: "addAllSupport
        [BlockEntry 7 1 2 ''minecraft:water'', BlockEntry 7 2 2 ''minecraft:water'',
         BlockEntry 7 1 3 ''minecraft:sand'']
        ''stone''
      = [BlockEntry 7 1 2 ''minecraft:water'', BlockEntry 7 2 2 ''minecraft:water'',
         BlockEntry 7 1 3 ''minecraft:sand'',
         BlockEntry 7 0 2 ''minecraft:stone'', BlockEntry 7 0 3 ''minecraft:stone'']"
    by (simp add: addAllSupport_def occupiedKeys_def belowStep_def blockKey_def name Let_def)
  from addAllSupport_fills_below [OF on] obtain extra where
    "applySupportMode
        [BlockEntry 7 1 2 ''minecraft:water'', BlockEntry 7 2 2 ''minecraft:water'',
         BlockEntry 7 1 3 ''minecraft:sand''] ''stone'' SupportAll
      = [BlockEntry 7 1 2 ''minecraft:water'', BlockEntry 7 2 2 ''minecraft:water'',
         BlockEntry 7 1 3 ''minecraft:sand''] @ extra"
    by blast
  moreover from this have "extra = [BlockEntry 7 0 2 ''minecraft:stone'', BlockEntry 7 0 3 ''minecraft:stone'']"
    using on run by (simp add: applySupportMode_def)
  ultimately show ?thesis
    using on by simp
qed

section \<open>The palette of the tag writer\<close>









lemma distinct_firstOccurrences [simp]: "distinct (firstOccurrences xs)"
  by (simp add: firstOccurrences_def)


section \<open>Validation\<close>










text \<open>
  Claim C10: in the staircase builder an opaque pixel whose key is one of the custom
  colours is placed like a flat-shade pixel, whatever the palette lookup says for that
  key: its block goes to the height carried from the north, with a filler one row north at
  that height when the north neighbour is transparent and the filler is enabled. A
  flat-shade palette pixel of a colour that is not water gets the same placement with its
  mapped block.
\<close>

theorem staircasePixel_custom_is_flat:
  "(pixelAlpha img z x \<noteq> 0 \<and> customLookup (opt_customColors options) (pixelKey img z x) = Some cm
      \<longrightarrow> staircasePixel img options z x northState blocks
            = flatPlacement options northState z x (cc_block cm) blocks)
   \<and> (pixelAlpha img z x \<noteq> 0 \<and> customLookup (opt_customColors options) (pixelKey img z x) = None
        \<and> getColorLookup (pixelKey img z x) = Some m \<and> shade m = 1
        \<and> \<not> isWater (BASE_COLORS ! baseIndex m) \<and> mappedBlock options (baseIndex m) = Some block
      \<longrightarrow> staircasePixel img options z x northState blocks
            = flatPlacement options northState z x block blocks)"
  by (simp add: staircasePixel_def flatPlacement_def northFiller_def addBlock_def plainState_def Let_def)

theorem staircasePixel_custom_is_flat_witness:
  "pixelAlpha (ImageData 128 128 ([127, 178, 56, 255] @ replicate 65532 0)) 0 0 \<noteq> 0
   \<and> customLookup [CustomColor 127 178 56 ''gold_block'']
        (pixelKey (ImageData 128 128 ([127, 178, 56, 255] @ replicate 65532 0)) 0 0)
       = Some (CustomColor 127 178 56 ''gold_block'')
   \<and> getColorLookup (pixelKey (ImageData 128 128 ([127, 178, 56, 255] @ replicate 65532 0)) 0 0)
       = Some (ColorMatch 1 2)
   \<and> staircasePixel (ImageData 128 128 ([127, 178, 56, 255] @ replicate 65532 0))
        \<lparr>opt_blockMapping = Map.empty, opt_fillerBlock = ''stone'',
         opt_customColors = [CustomColor 127 178 56 ''gold_block''],
         opt_buildMode = StaircaseClassic, opt_supportMode = SupportNone,
         opt_baseName = ''map'', opt_layerGap = None\<rparr>
        0 0 (ColState 64 True None None None None None) []
       = ([BlockEntry 0 64 (- 1) ''minecraft:stone'', BlockEntry 0 64 0 ''minecraft:gold_block''],
          ColState 64 False None None None None None)"
proof -
  let ?img = "ImageData 128 128 ([127, 178, 56, 255] @ replicate 65532 0)"
  let ?cc = "CustomColor 127 178 56 ''gold_block''"
  let ?options = "\<lparr>opt_blockMapping = Map.empty, opt_fillerBlock = ''stone'',
         opt_customColors = [?cc],
         opt_buildMode = StaircaseClassic, opt_supportMode = SupportNone,
         opt_baseName = ''map'', opt_layerGap = None\<rparr>"
  have key: "pixelKey ?img 0 0 = rgbKey (127, 178, 56)"
    by (simp add: pixelKey_def Let_def)
  have a: "pixelAlpha ?img 0 0 \<noteq> 0"
    by (simp add: pixelAlpha_def)
  have c: "customLookup [?cc] (pixelKey ?img 0 0) = Some ?cc"
    unfolding key by (simp add: customLookup_def customKey_def mapSet_def)
  have "shadeEntry 1 2 = (rgbKey (127, 178, 56), ColorMatch 1 2)"
    by (simp add: shadeEntry_def shadedTriple_def BASE_COLORS_def SHADE_MULTIPLIERS_def)
  with shadeEntry_mem [of 1 2] have "(rgbKey (127, 178, 56), ColorMatch 1 2) \<in> set lookupEntries"
    by simp
  then have p: "getColorLookup (pixelKey ?img 0 0) = Some (ColorMatch 1 2)"
    unfolding key by (rule getColorLookup_entry)
  have on: "\<not> isFillerDisabled ''stone''"
    by (simp add: isFillerDisabled_def string_eval)
  have names: "resolveBlockName ''stone'' = ''minecraft:stone''"
    "resolveBlockName ''gold_block'' = ''minecraft:gold_block''"
    by (simp_all add: resolveBlockName_def string_eval)
  from staircasePixel_custom_is_flat [of ?img 0 0 ?options ?cc "ColState 64 True None None None None None" "[]"]
  have "staircasePixel ?img ?options 0 0 (ColState 64 True None None None None None) []
       = ([BlockEntry 0 64 (- 1) ''minecraft:stone'', BlockEntry 0 64 0 ''minecraft:gold_block''],
          ColState 64 False None None None None None)"
    using a c on names by (simp add: flatPlacement_def)
  with a c p show ?thesis by simp
qed

section \<open>The staircase builder on an image with a single opaque pixel\<close>

lemma staircasePixel_transparent:
  "pixelAlpha img z x = 0 \<Longrightarrow>
     staircasePixel img options z x northState blocks = (blocks, plainState (cs_y northState) True)"
  by (simp add: staircasePixel_def Let_def)

lemma columns_transparent:
  assumes "\<forall>x. a \<le> x \<and> x < b \<longrightarrow> pixelAlpha img z x = 0"
  shows "foldl (staircaseColumn img options z prev) (blocks, acc) [a..<b]
           = (blocks, acc @ map (\<lambda>x. plainState (cs_y (prev ! x)) True) [a..<b])"
  using assms
proof (induction b)
  case 0
  show ?case by simp
next
  case (Suc b)
  show ?case
  proof (cases "a \<le> b")
    case True
    from Suc.prems have "\<forall>x. a \<le> x \<and> x < b \<longrightarrow> pixelAlpha img z x = 0" by simp
    from Suc.IH [OF this] Suc.prems True show ?thesis
      by (simp add: staircaseColumn_def staircasePixel_transparent)
  next
    case False
    then show ?thesis by simp
  qed
qed

lemma map_nth_all: "map (\<lambda>i. f (xs ! i)) [0..<length xs] = map f xs"
proof -
  have "map (\<lambda>i. f (xs ! i)) [0..<length xs] = map f (map ((!) xs) [0..<length xs])"
    by (simp only: map_map comp_def)
  then show ?thesis by (simp only: map_nth)
qed

lemma row_transparent:
  assumes "\<forall>x < 128. pixelAlpha img z x = 0" and "length row = 128"
  shows "staircaseRow img options (blocks, row) z = (blocks, carryRow row)"
proof -
  from assms(1) have "\<forall>x. 0 \<le> x \<and> x < 128 \<longrightarrow> pixelAlpha img z x = 0" by simp
  from columns_transparent [OF this, of options row blocks "[]"]
  have "staircaseRow img options (blocks, row) z
          = (blocks, map (\<lambda>x. plainState (cs_y (row ! x)) True) [0..<128])"
    unfolding staircaseRow_def fst_conv snd_conv by (simp only: append_Nil)
  also have "map (\<lambda>x. plainState (cs_y (row ! x)) True) [0..<128] = carryRow row"
    unfolding carryRow_def assms(2) [symmetric] by (rule map_nth_all)
  finally show ?thesis .
qed

lemma rows_transparent:
  assumes "\<forall>z x. a \<le> z \<and> z < b \<and> x < 128 \<longrightarrow> pixelAlpha img z x = 0" and "length row = 128"
  shows "foldl (staircaseRow img options) (blocks, row) [a..<b] = (blocks, (carryRow ^^ (b - a)) row)"
  using assms
proof (induction b)
  case 0
  show ?case by simp
next
  case (Suc b)
  show ?case
  proof (cases "a \<le> b")
    case True
    from Suc.prems have p: "\<forall>z x. a \<le> z \<and> z < b \<and> x < 128 \<longrightarrow> pixelAlpha img z x = 0" by simp
    have len: "length ((carryRow ^^ n) row) = 128" for n
      using Suc.prems(2) by (induction n) (simp_all add: carryRow_def)
    from Suc.prems True have t: "\<forall>x < 128. pixelAlpha img b x = 0" by simp
    from Suc.IH [OF p Suc.prems(2)] True show ?thesis
      by (simp add: row_transparent [OF t len] Suc_diff_le)
  next
    case False
    then show ?thesis by simp
  qed
qed

lemma carryRow_start: "carryRow (replicate n (plainState y True)) = replicate n (plainState y True)"
  by (simp add: carryRow_def plainState_def)

lemma carryRow_start_pow:
  "(carryRow ^^ k) (replicate n (plainState y True)) = replicate n (plainState y True)"
  by (induction k) (simp_all add: carryRow_start)

lemma length_carryRow_pow: "length ((carryRow ^^ k) row) = length row"
  by (induction k) (simp_all add: carryRow_def)

text \<open>
  The image has one opaque pixel, at row \<open>z0\<close> and column \<open>x0\<close>; \<open>step\<close> is what the
  pixel body does there from the initial column state.
\<close>

lemma single_pixel_row:
  assumes x0: "x0 < 128"
    and others: "\<forall>x < 128. x \<noteq> x0 \<longrightarrow> pixelAlpha img z x = 0"
    and len: "length row = 128"
    and step: "staircasePixel img options z x0 (row ! x0) blocks = (blocks', s')"
  shows "\<exists>row'. staircaseRow img options (blocks, row) z = (blocks', row') \<and> length row' = 128"
proof -
  have split: "[0..<128] = [0..<x0] @ [x0] @ [Suc x0..<128]"
    using x0 by (metis append_Cons append_Nil le0 less_imp_le_nat upt_add_eq_append upt_conv_Cons
        le_add_diff_inverse)
  from others x0 have before: "\<forall>x. 0 \<le> x \<and> x < x0 \<longrightarrow> pixelAlpha img z x = 0" by auto
  from others x0 have after: "\<forall>x. Suc x0 \<le> x \<and> x < 128 \<longrightarrow> pixelAlpha img z x = 0" by auto
  let ?pre = "map (\<lambda>x. plainState (cs_y (row ! x)) True) [0..<x0]"
  let ?post = "map (\<lambda>x. plainState (cs_y (row ! x)) True) [Suc x0..<128]"
  have "staircaseRow img options (blocks, row) z = (blocks', (?pre @ [s']) @ ?post)"
    unfolding staircaseRow_def split foldl_append fst_conv snd_conv
    by (simp add: columns_transparent [OF before] columns_transparent [OF after]
        staircaseColumn_def step)
  moreover have "length ((?pre @ [s']) @ ?post) = 128"
    using x0 by simp
  ultimately show ?thesis by blast
qed

lemma single_pixel_build:
  assumes z0: "z0 < 128" and x0: "x0 < 128"
    and others: "\<forall>z < 128. \<forall>x < 128. (z, x) \<noteq> (z0, x0) \<longrightarrow> pixelAlpha img z x = 0"
    and step: "staircasePixel img options z0 x0 (plainState BASE_Y True) [] = (blocks', s')"
  shows "buildStaircaseBlocks img options = blocks'"
proof -
  let ?start = "replicate 128 (plainState BASE_Y True)"
  have split: "[0..<128] = [0..<z0] @ [z0] @ [Suc z0..<128]"
    using z0 by (metis append_Cons append_Nil le0 less_imp_le_nat upt_add_eq_append upt_conv_Cons
        le_add_diff_inverse)
  from others z0 have before: "\<forall>z x. 0 \<le> z \<and> z < z0 \<and> x < 128 \<longrightarrow> pixelAlpha img z x = 0"
    by auto
  from others z0 have after: "\<forall>z x. Suc z0 \<le> z \<and> z < 128 \<and> x < 128 \<longrightarrow> pixelAlpha img z x = 0"
    by auto
  from others have row: "\<forall>x < 128. x \<noteq> x0 \<longrightarrow> pixelAlpha img z0 x = 0"
    using z0 by auto
  have first: "foldl (staircaseRow img options) ([], ?start) [0..<z0] = ([], ?start)"
    using rows_transparent [OF before, of ?start options "[]"] by (simp add: carryRow_start_pow)
  have "staircasePixel img options z0 x0 (?start ! x0) [] = (blocks', s')"
    using step x0 by simp
  from single_pixel_row [OF x0 row _ this] obtain row' where
    mid: "staircaseRow img options ([], ?start) z0 = (blocks', row')" and len: "length row' = 128"
    by auto
  have last: "foldl (staircaseRow img options) (blocks', row') [Suc z0..<128]
      = (blocks', (carryRow ^^ (128 - Suc z0)) row')"
    by (rule rows_transparent [OF after len])
  show ?thesis
    unfolding buildStaircaseBlocks_def split foldl_append
    by (simp add: first mid last)
qed

lemma staircasePixel_light:
  assumes "pixelAlpha img z x \<noteq> 0"
    and "customLookup (opt_customColors options) (pixelKey img z x) = None"
    and "getColorLookup (pixelKey img z x) = Some m" and "shade m = 2"
    and "\<not> isWater (BASE_COLORS ! baseIndex m)" and "mappedBlock options (baseIndex m) = Some block"
  shows "staircasePixel img options z x northState blocks
      = (blocks @ [BlockEntry (int x) (cs_y northState + 1) (int z) (resolveBlockName block)],
         plainState (cs_y northState + 1) False)"
  using assms by (simp add: staircasePixel_def addBlock_def Let_def)

lemma classic_single:
  "applyStaircaseVariant roundScaled [BlockEntry x y z nm] StaircaseClassic img options
     = [BlockEntry x 0 z nm]"
  by (simp add: applyStaircaseVariant_def columnKeys_def firstOccurrences_def columnIndices_def
      classicColumn_def lowest_def shiftAt_def addY_def)

lemma grass_light: "getColorLookup (rgbKey (127, 178, 56)) = Some (ColorMatch 1 2)"
proof -
  have "shadeEntry 1 2 = (rgbKey (127, 178, 56), ColorMatch 1 2)"
    by (simp add: shadeEntry_def shadedTriple_def BASE_COLORS_def SHADE_MULTIPLIERS_def)
  with shadeEntry_mem [of 1 2] have "(rgbKey (127, 178, 56), ColorMatch 1 2) \<in> set lookupEntries"
    by simp
  then show ?thesis by (rule getColorLookup_entry)
qed

lemma grass_base: "color_name (BASE_COLORS ! 1) = ''GRASS'' \<and> \<not> isWater (BASE_COLORS ! 1)
    \<and> color_blocks (BASE_COLORS ! 1) = [''grass_block'', ''slime_block'']"
  by (simp add: BASE_COLORS_def blocks_GRASS_def)

lemma mappedBlock_grass: "mappedBlock options 1 = Some (grassBlock options)"
  using grass_base by (simp add: mappedBlock_def grassBlock_def split: option.splits)

lemma single_grass_built:
  assumes z0: "z0 < 128"
    and alpha: "pixelAlpha img z0 5 \<noteq> 0"
    and key: "pixelKey img z0 5 = rgbKey (127, 178, 56)"
    and others: "\<forall>z < 128. \<forall>x < 128. (z, x) \<noteq> (z0, 5) \<longrightarrow> pixelAlpha img z x = 0"
    and custom: "customLookup (opt_customColors options) (rgbKey (127, 178, 56)) = None"
    and mode: "opt_buildMode options = StaircaseClassic"
    and support: "opt_supportMode options = SupportNone"
  shows "convertBlocks roundScaled img options
           = [BlockEntry 5 0 (int z0) (resolveBlockName (grassBlock options))]"
proof -
  have "staircasePixel img options z0 5 (plainState BASE_Y True) []
      = ([] @ [BlockEntry (int 5) (cs_y (plainState BASE_Y True) + 1) (int z0)
                 (resolveBlockName (grassBlock options))],
         plainState (cs_y (plainState BASE_Y True) + 1) False)"
    using alpha custom grass_light grass_base mappedBlock_grass
    by (intro staircasePixel_light [where m = "ColorMatch 1 2"]) (simp_all add: key)
  then have "staircasePixel img options z0 5 (plainState BASE_Y True) []
      = ([BlockEntry 5 65 (int z0) (resolveBlockName (grassBlock options))], plainState 65 False)"
    by (simp add: plainState_def BASE_Y_def)
  from single_pixel_build [OF z0 _ others this]
  have b: "buildStaircaseBlocks img options
      = [BlockEntry 5 65 (int z0) (resolveBlockName (grassBlock options))]"
    by simp
  show ?thesis
    using mode support
    by (simp add: convertBlocks_def b classic_single applySupport_def applySupportMode_def)
qed

lemma single_grass_pixel:
  assumes z0: "z0 < 128"
    and alpha: "pixelAlpha img z0 5 \<noteq> 0"
    and key: "pixelKey img z0 5 = rgbKey (127, 178, 56)"
    and others: "\<forall>z < 128. \<forall>x < 128. (z, x) \<noteq> (z0, 5) \<longrightarrow> pixelAlpha img z x = 0"
    and custom: "customLookup (opt_customColors options) (rgbKey (127, 178, 56)) = None"
    and mode: "opt_buildMode options = StaircaseClassic"
    and support: "opt_supportMode options = SupportNone"
  shows "fst (normalizeAndMeasure (convertBlocks roundScaled img options))
           = [BlockEntry 5 0 (int z0) (resolveBlockName (grassBlock options))]"
  by (simp add: single_grass_built [OF assms] normalizeAndMeasure_def lowest_def highest_def)

text \<open>
  An example image: 128 by 128 pixels, all transparent but the pixel of row 3 and column 5,
  which is opaque with the colour (127, 178, 56); and options with no block mapping, no
  custom colour, the filler \<open>stone\<close>, the build mode \<open>staircase_classic\<close> and the support
  mode \<open>none\<close>.
\<close>

lemma example_image_pixel:
  "pixelAlpha (ImageData 128 128 (replicate 1556 0 @ [127, 178, 56, 255] @ replicate 63976 0)) 3 5 \<noteq> 0
   \<and> pixelKey (ImageData 128 128 (replicate 1556 0 @ [127, 178, 56, 255] @ replicate 63976 0)) 3 5
       = rgbKey (127, 178, 56)"
  by (simp add: pixelAlpha_def pixelKey_def Let_def nth_append)

lemma example_index:
  "z < 128 \<Longrightarrow> x < 128 \<Longrightarrow> z \<noteq> 3 \<or> x \<noteq> 5 \<Longrightarrow>
     (z * 128 + x) * 4 + 3 < 1556 \<or> (1560 \<le> (z * 128 + x) * 4 + 3 \<and> (z * 128 + x) * 4 + 3 < 65536)"
  for z x :: nat
proof -
  assume z: "z < 128" and x: "x < 128" and ne: "z \<noteq> 3 \<or> x \<noteq> 5"
  have e: "(z * 128 + x) * 4 + 3 = 512 * z + 4 * x + 3" by simp
  consider "z \<le> 2" | "4 \<le> z" | "z = 3" "x \<le> 4" | "z = 3" "6 \<le> x"
    using ne by linarith
  then show ?thesis
    unfolding e
  proof cases
    case 1
    with x show "512 * z + 4 * x + 3 < 1556 \<or> (1560 \<le> 512 * z + 4 * x + 3 \<and> 512 * z + 4 * x + 3 < 65536)"
      by linarith
  next
    case 2
    with z x show "512 * z + 4 * x + 3 < 1556 \<or> (1560 \<le> 512 * z + 4 * x + 3 \<and> 512 * z + 4 * x + 3 < 65536)"
      by linarith
  next
    case 3
    then show "512 * z + 4 * x + 3 < 1556 \<or> (1560 \<le> 512 * z + 4 * x + 3 \<and> 512 * z + 4 * x + 3 < 65536)"
      by linarith
  next
    case 4
    with x show "512 * z + 4 * x + 3 < 1556 \<or> (1560 \<le> 512 * z + 4 * x + 3 \<and> 512 * z + 4 * x + 3 < 65536)"
      by linarith
  qed
qed

lemma example_image_others:
  "\<forall>z < 128. \<forall>x < 128. (z, x) \<noteq> (3, 5) \<longrightarrow>
     pixelAlpha (ImageData 128 128 (replicate 1556 0 @ [127, 178, 56, 255] @ replicate 63976 0)) z x = 0"
proof (intro allI impI)
  fix z x :: nat
  assume z: "z < 128" and x: "x < 128" and ne: "(z, x) \<noteq> (3, 5)"
  let ?i = "(z * 128 + x) * 4 + 3"
  from ne have "z \<noteq> 3 \<or> x \<noteq> 5" by simp
  with z x have "?i < 1556 \<or> (1560 \<le> ?i \<and> ?i < 65536)"
    by (rule example_index)
  then show "pixelAlpha (ImageData 128 128 (replicate 1556 0 @ [127, 178, 56, 255] @ replicate 63976 0)) z x = 0"
  proof
    assume "?i < 1556"
    then show ?thesis by (simp add: pixelAlpha_def nth_append)
  next
    assume h: "1560 \<le> ?i \<and> ?i < 65536"
    then have "\<not> ?i < 1556" and "\<not> ?i - 1556 < 4" and "?i - 1556 - 4 < 63976" by auto
    then show ?thesis by (simp add: pixelAlpha_def nth_append)
  qed
qed

lemma example_grass_block:
  "resolveBlockName (grassBlock \<lparr>opt_blockMapping = Map.empty, opt_fillerBlock = ''stone'',
       opt_customColors = [], opt_buildMode = StaircaseClassic, opt_supportMode = SupportNone,
       opt_baseName = ''map'', opt_layerGap = None\<rparr>) = ''minecraft:grass_block''"
  by (simp add: grassBlock_def resolveBlockName_def string_eval)

text \<open>
  Claim C2, as the code has it: the colour (127, 178, 56) is the base colour of GRASS, which
  the reverse lookup classifies as GRASS with the shade light (2). For a 128 by 128 image
  whose only opaque pixel has this colour and stands in column 5 at any row \<open>z\<close>, with the
  filler \<open>stone\<close>, the build mode \<open>staircase_classic\<close>, the support mode \<open>none\<close> and no
  custom colour of that key, the conversion serialises exactly one voxel, at (5, 0, z),
  carrying the block mapped to GRASS (\<open>grass_block\<close> when none is mapped), and no filler
  voxel, in the first row as in every other row.
\<close>

theorem staircase_classic_grass_pixel:
  "z0 < 128 \<Longrightarrow> pixelAlpha img z0 5 \<noteq> 0 \<Longrightarrow> pixelKey img z0 5 = rgbKey (127, 178, 56) \<Longrightarrow>
   (\<forall>z < 128. \<forall>x < 128. (z, x) \<noteq> (z0, 5) \<longrightarrow> pixelAlpha img z x = 0) \<Longrightarrow>
   customLookup (opt_customColors options) (rgbKey (127, 178, 56)) = None \<Longrightarrow>
   opt_fillerBlock options = ''stone'' \<Longrightarrow>
   opt_buildMode options = StaircaseClassic \<Longrightarrow> opt_supportMode options = SupportNone \<Longrightarrow>
     getColorLookup (pixelKey img z0 5) = Some (ColorMatch 1 2)
     \<and> color_name (BASE_COLORS ! 1) = ''GRASS''
     \<and> fst (normalizeAndMeasure (convertBlocks roundScaled img options))
         = [BlockEntry 5 0 (int z0) (resolveBlockName (grassBlock options))]"
  using single_grass_pixel [of z0 img options roundScaled] grass_light grass_base
  by simp

theorem staircase_classic_grass_pixel_witness:
  "(3::nat) < 128
   \<and> pixelAlpha (ImageData 128 128 (replicate 1556 0 @ [127, 178, 56, 255] @ replicate 63976 0)) 3 5 \<noteq> 0
   \<and> getColorLookup
        (pixelKey (ImageData 128 128 (replicate 1556 0 @ [127, 178, 56, 255] @ replicate 63976 0)) 3 5)
       = Some (ColorMatch 1 2)
   \<and> color_name (BASE_COLORS ! 1) = ''GRASS''
   \<and> fst (normalizeAndMeasure (convertBlocks (\<lambda>k s. k)
         (ImageData 128 128 (replicate 1556 0 @ [127, 178, 56, 255] @ replicate 63976 0))
         \<lparr>opt_blockMapping = Map.empty, opt_fillerBlock = ''stone'', opt_customColors = [],
          opt_buildMode = StaircaseClassic, opt_supportMode = SupportNone, opt_baseName = ''map'',
          opt_layerGap = None\<rparr>))
       = [BlockEntry 5 0 3 ''minecraft:grass_block'']"
proof -
  let ?img = "ImageData 128 128 (replicate 1556 0 @ [127, 178, 56, 255] @ replicate 63976 0)"
  let ?options = "\<lparr>opt_blockMapping = Map.empty, opt_fillerBlock = ''stone'', opt_customColors = [],
          opt_buildMode = StaircaseClassic, opt_supportMode = SupportNone, opt_baseName = ''map'',
          opt_layerGap = None\<rparr>"
  have z: "(3::nat) < 128" by simp
  have c: "customLookup (opt_customColors ?options) (rgbKey (127, 178, 56)) = None"
    by (simp add: customLookup_def)
  have f: "opt_fillerBlock ?options = ''stone''" and m: "opt_buildMode ?options = StaircaseClassic"
    and s: "opt_supportMode ?options = SupportNone"
    by simp_all
  note t = staircase_classic_grass_pixel [OF z example_image_pixel [THEN conjunct1]
      example_image_pixel [THEN conjunct2] example_image_others c f m s, of "\<lambda>k s. k"]
  from t have "fst (normalizeAndMeasure (convertBlocks (\<lambda>k s. k) ?img ?options))
       = [BlockEntry 5 0 3 ''minecraft:grass_block'']"
    by (simp only: example_grass_block of_nat_numeral)
  with t example_image_pixel show ?thesis
    by (simp only: z simp_thms)
qed

text \<open>
  The claim as stated fails on the example image: the pixel is classified with the shade
  light (2), not flat (1), and although the pixel is in row 3, not in the first row, the
  voxel list holds the one voxel (5, 0, 3) and no filler voxel at (5, 0, 2).
\<close>

theorem staircase_classic_grass_pixel_counterexample:
  "map_option shade (getColorLookup
        (pixelKey (ImageData 128 128 (replicate 1556 0 @ [127, 178, 56, 255] @ replicate 63976 0)) 3 5))
       = Some 2
   \<and> fst (normalizeAndMeasure (convertBlocks (\<lambda>k s. k)
         (ImageData 128 128 (replicate 1556 0 @ [127, 178, 56, 255] @ replicate 63976 0))
         \<lparr>opt_blockMapping = Map.empty, opt_fillerBlock = ''stone'', opt_customColors = [],
          opt_buildMode = StaircaseClassic, opt_supportMode = SupportNone, opt_baseName = ''map'',
          opt_layerGap = None\<rparr>))
       = [BlockEntry 5 0 3 ''minecraft:grass_block'']"
proof -
  let ?img = "ImageData 128 128 (replicate 1556 0 @ [127, 178, 56, 255] @ replicate 63976 0)"
  let ?options = "\<lparr>opt_blockMapping = Map.empty, opt_fillerBlock = ''stone'', opt_customColors = [],
          opt_buildMode = StaircaseClassic, opt_supportMode = SupportNone, opt_baseName = ''map'',
          opt_layerGap = None\<rparr>"
  have z: "(3::nat) < 128" by simp
  have c: "customLookup (opt_customColors ?options) (rgbKey (127, 178, 56)) = None"
    by (simp add: customLookup_def)
  have m: "opt_buildMode ?options = StaircaseClassic" and s: "opt_supportMode ?options = SupportNone"
    by simp_all
  note b = single_grass_pixel [OF z example_image_pixel [THEN conjunct1]
      example_image_pixel [THEN conjunct2] example_image_others c m s, of "\<lambda>k s. k"]
  from b have blocks: "fst (normalizeAndMeasure (convertBlocks (\<lambda>k s. k) ?img ?options))
       = [BlockEntry 5 0 3 ''minecraft:grass_block'']"
    by (simp only: example_grass_block of_nat_numeral)
  have "getColorLookup (pixelKey ?img 3 5) = Some (ColorMatch 1 2)"
    by (simp only: example_image_pixel [THEN conjunct2] grass_light)
  then have "map_option shade (getColorLookup (pixelKey ?img 3 5)) = Some 2"
    by simp
  with blocks show ?thesis by (simp only: simp_thms)
qed

lemma startsWith_append: "startsWith (p @ r) p"
  by (induction p) simp_all

lemma startsWith_append_right: "startsWith s p \<Longrightarrow> startsWith (s @ t) p"
  by (induction s p rule: startsWith.induct) simp_all

lemma strIncludes_append_right: "strIncludes s p \<Longrightarrow> strIncludes (s @ t) p"
proof (induction s)
  case Nil
  then show ?case by (cases t) (simp_all)
next
  case (Cons c cs)
  then show ?case
    using startsWith_append_right [of "c # cs" p t] by auto
qed

lemma strIncludes_append_left: "strIncludes s p \<Longrightarrow> strIncludes (t @ s) p"
  by (induction t) simp_all

lemma strIncludes_self: "strIncludes p p"
  using startsWith_append [of p "[]"] by (cases p) simp_all

lemma strIncludes_middle: "strIncludes (a @ p @ b) p"
  by (intro strIncludes_append_left strIncludes_append_right strIncludes_self)

lemma strJoin_mem: "x \<in> set xs \<Longrightarrow> \<exists>a b. strJoin sep xs = a @ x @ b"
proof (induction sep xs rule: strJoin.induct)
  case (1 sep)
  then show ?case by simp
next
  case (2 sep p)
  then have "strJoin sep [p] = [] @ x @ []" by simp
  then show ?case by blast
next
  case (3 sep p q ps)
  show ?case
  proof (cases "x = p")
    case True
    then have "strJoin sep (p # q # ps) = [] @ x @ (sep @ strJoin sep (q # ps))" by simp
    then show ?thesis by blast
  next
    case False
    with 3 obtain a b where "strJoin sep (q # ps) = a @ x @ b" by auto
    then have "strJoin sep (p # q # ps) = (p @ sep @ a) @ x @ b" by simp
    then show ?thesis by blast
  qed
qed

lemma objUpdate_keys: "k \<in> fst ` set (objUpdate ps k v)"
  by (induction ps) force+

lemma objUpdate_get: "map_of (objUpdate ps k v) k = Some v"
  by (induction ps) auto

lemma persistent_not_index: "\<not> isArrayIndex ''persistent''"
  by (simp add: isArrayIndex_def)

lemma resolveBlockName_prefix: "startsWith (resolveBlockName block) ''minecraft:''"
  by (simp add: resolveBlockName_def Let_def split: option.splits prod.splits)

lemma resolveBlockName_nonempty: "resolveBlockName block \<noteq> []"
  by (simp add: resolveBlockName_def Let_def split: option.splits prod.splits)

lemma leaves_props:
  assumes "props' = objSet props ''persistent'' ''true''"
  shows "strIncludes (pre @ ''['' @ strJoin '','' (map (\<lambda>k. k @ ''='' @ objGet props' k) (objectKeys props')) @ '']'')
           ''persistent=true''"
    and "objectKeys props' \<noteq> []"
proof -
  have p: "props' = objUpdate props ''persistent'' ''true''"
    using assms by (simp add: objSet_def)
  have "''persistent'' \<in> set (map fst props')"
    unfolding p using objUpdate_keys [of "''persistent''" props "''true''"] by simp
  then have k: "''persistent'' \<in> set (objectKeys props')"
    using persistent_not_index by (simp add: objectKeys_def Let_def)
  then show "objectKeys props' \<noteq> []" by auto
  have g: "objGet props' ''persistent'' = ''true''"
    unfolding p by (simp add: objGet_def objUpdate_get)
  let ?f = "\<lambda>k. k @ ''='' @ objGet props' k"
  from k have "?f ''persistent'' \<in> set (map ?f (objectKeys props'))" by (rule imageI [THEN set_map [THEN equalityD2, THEN subsetD]])
  then obtain a b where "strJoin '','' (map ?f (objectKeys props')) = a @ ?f ''persistent'' @ b"
    using strJoin_mem by blast
  then have "pre @ ''['' @ strJoin '','' (map ?f (objectKeys props')) @ '']''
      = (pre @ ''['' @ a) @ ''persistent=true'' @ (b @ '']'')"
    by (simp add: g)
  then show "strIncludes (pre @ ''['' @ strJoin '','' (map ?f (objectKeys props')) @ '']'') ''persistent=true''"
    by (simp only: strIncludes_middle)
qed

lemma resolveBlockName_leaves:
  "strIncludes (blockBaseName block) ''leaves'' \<Longrightarrow> strIncludes (resolveBlockName block) ''persistent=true''"
proof -
  assume l: "strIncludes (blockBaseName block) ''leaves''"
  show ?thesis
  proof (cases "indexOf block CHR ''[''")
    case None
    define props' where "props' = objSet [] ''persistent'' ''true''"
    from None l have l': "strIncludes block ''leaves''" by (simp add: blockBaseName_def)
    have r: "resolveBlockName block =
      (if objectKeys props' \<noteq> []
       then (''minecraft:'' @ block) @ ''['' @ strJoin '','' (map (\<lambda>k. k @ ''='' @ objGet props' k) (objectKeys props')) @ '']''
       else ''minecraft:'' @ block)"
      unfolding props'_def by (simp add: resolveBlockName_def None l' Let_def)
    from leaves_props(1) [OF props'_def, of "''minecraft:'' @ block"] leaves_props(2) [OF props'_def] show ?thesis
      unfolding r by (simp del: append_assoc)
  next
    case (Some i)
    define props' where "props' = objSet (parseProps [] (sliceToLast block (i + 1))) ''persistent'' ''true''"
    from Some l have l': "strIncludes (take i block) ''leaves''" by (simp add: blockBaseName_def)
    have r: "resolveBlockName block =
      (if objectKeys props' \<noteq> []
       then (''minecraft:'' @ take i block) @ ''['' @ strJoin '','' (map (\<lambda>k. k @ ''='' @ objGet props' k) (objectKeys props')) @ '']''
       else ''minecraft:'' @ take i block)"
      unfolding props'_def by (simp add: resolveBlockName_def Some l' Let_def)
    from leaves_props(1) [OF props'_def, of "''minecraft:'' @ take i block"] leaves_props(2) [OF props'_def] show ?thesis
      unfolding r by (simp del: append_assoc)
  qed
qed

lemma indexOf_notin: "c \<notin> set s \<Longrightarrow> indexOf s c = None"
  by (induction s) auto

lemma indexOf_first: "c \<notin> set a \<Longrightarrow> indexOf (a @ c # r) c = Some (length a)"
  by (induction a) auto

lemma indexOf_None_notin: "indexOf s c = None \<Longrightarrow> c \<notin> set s"
  by (induction s) (auto split: if_splits)

lemma indexOf_Some_take: "indexOf s c = Some i \<Longrightarrow> c \<notin> set (take i s)"
proof (induction s arbitrary: i)
  case Nil
  then show ?case by simp
next
  case (Cons x xs)
  then show ?case by (cases i) (auto split: if_splits)
qed

lemma blockBaseName_no_bracket: "CHR ''['' \<notin> set (blockBaseName block)"
  by (auto simp: blockBaseName_def indexOf_None_notin dest: indexOf_Some_take split: option.splits)

lemma blockBaseName_plain: "CHR ''['' \<notin> set s \<Longrightarrow> blockBaseName s = s"
  by (simp add: blockBaseName_def indexOf_notin)

lemma blockBaseName_bracket: "CHR ''['' \<notin> set s \<Longrightarrow> blockBaseName (s @ CHR ''['' # r) = s"
  by (simp add: blockBaseName_def indexOf_first)

lemma resolveBlockName_shape:
  "resolveBlockName block = ''minecraft:'' @ blockBaseName block
   \<or> (\<exists>r. resolveBlockName block = (''minecraft:'' @ blockBaseName block) @ CHR ''['' # r @ '']'')"
  by (cases "indexOf block CHR ''[''") (simp_all add: resolveBlockName_def blockBaseName_def Let_def)

lemma resolveBlockName_brackets:
  "blockBaseName (resolveBlockName block) = resolveBlockName block
   \<or> last (resolveBlockName block) = CHR '']''"
proof -
  have n: "CHR ''['' \<notin> set (''minecraft:'' @ blockBaseName block)"
    using blockBaseName_no_bracket [of block] by simp
  from resolveBlockName_shape [of block] show ?thesis
  proof
    assume e: "resolveBlockName block = ''minecraft:'' @ blockBaseName block"
    show ?thesis by (simp only: e blockBaseName_plain [OF n] simp_thms)
  next
    assume "\<exists>r. resolveBlockName block = (''minecraft:'' @ blockBaseName block) @ CHR ''['' # r @ '']''"
    then obtain r where e: "resolveBlockName block = (''minecraft:'' @ blockBaseName block) @ CHR ''['' # r @ '']''" ..
    have "last (resolveBlockName block) = CHR '']''" unfolding e by simp
    then show ?thesis ..
  qed
qed

lemma blockBaseName_resolve:
  "blockBaseName (resolveBlockName block) = ''minecraft:'' @ blockBaseName block"
proof -
  have n: "CHR ''['' \<notin> set (''minecraft:'' @ blockBaseName block)"
    using blockBaseName_no_bracket [of block] by simp
  from resolveBlockName_shape [of block] show ?thesis
  proof
    assume e: "resolveBlockName block = ''minecraft:'' @ blockBaseName block"
    show ?thesis by (simp only: e blockBaseName_plain [OF n])
  next
    assume "\<exists>r. resolveBlockName block = (''minecraft:'' @ blockBaseName block) @ CHR ''['' # r @ '']''"
    then obtain r where e: "resolveBlockName block = (''minecraft:'' @ blockBaseName block) @ CHR ''['' # r @ '']''" ..
    show ?thesis by (simp only: e blockBaseName_bracket [OF n])
  qed
qed

lemma leaves_after_prefix: "strIncludes (''minecraft:'' @ n) ''leaves'' \<Longrightarrow> strIncludes n ''leaves''"
  by simp

lemma resolveBlockName_wellNamed: "wellNamed (resolveBlockName block)"
proof -
  have "strIncludes (blockBaseName (resolveBlockName block)) ''leaves''
      \<longrightarrow> strIncludes (resolveBlockName block) ''persistent=true''"
    unfolding blockBaseName_resolve
    using resolveBlockName_leaves [of block] leaves_after_prefix [of "blockBaseName block"] by blast
  with resolveBlockName_nonempty [of block] resolveBlockName_prefix [of block]
    resolveBlockName_brackets [of block]
  show ?thesis unfolding wellNamed_def by blast
qed

section \<open>The invariant of the builders\<close>

lemma soundBlocks_Nil: "soundBlocks img options []"
  by (simp add: soundBlocks_def)

lemma soundBlocks_append:
  "soundBlocks img options (as @ bs) = (soundBlocks img options as \<and> soundBlocks img options bs)"
  by (auto simp: soundBlocks_def)

lemma soundBlocks_Cons:
  "soundBlocks img options (b # bs) = (soundBlock img options b \<and> soundBlocks img options bs)"
  by (auto simp: soundBlocks_def)

lemma soundBlocks_map:
  "(\<And>d. soundBlock img options (f d)) \<Longrightarrow> soundBlocks img options (map f ds)"
  by (auto simp: soundBlocks_def)

lemma soundBlocks_concat:
  "(\<And>l. l \<in> set ls \<Longrightarrow> soundBlocks img options l) \<Longrightarrow> soundBlocks img options (concat ls)"
  by (auto simp: soundBlocks_def)

lemma soundBlocks_concat_upt:
  "(\<And>i. i < n \<Longrightarrow> soundBlocks img options (f i)) \<Longrightarrow> soundBlocks img options (concat (map f [0..<n]))"
  by (rule soundBlocks_concat) (auto simp only: set_map set_upt atLeastLessThan_iff image_iff)

lemma sound_filler:
  "soundBlock img options (BlockEntry x y z (resolveBlockName (opt_fillerBlock options)))"
  by (simp add: soundBlock_def)

lemma sound_addBlock_filler: "soundBlock img options (addBlock x y z (opt_fillerBlock options))"
  by (simp add: soundBlock_def addBlock_def)

lemma sound_pixel:
  "x < 128 \<Longrightarrow> z < 128 \<Longrightarrow> \<not> skippedPixel img options z x
   \<Longrightarrow> soundBlock img options (addBlock (int x) y (int z) block)"
  by (simp add: soundBlock_def addBlock_def pixelPlaced_def)

lemma sound_northFiller: "soundBlocks img options (northFiller options t x y z)"
  by (simp add: northFiller_def soundBlocks_Nil soundBlocks_Cons sound_addBlock_filler)

lemma sound_addY: "soundBlock img options (addY b d) = soundBlock img options b"
  by (simp add: soundBlock_def addY_def pixelPlaced_def)

lemma sound_update:
  assumes "soundBlocks img options bs"
  shows "soundBlocks img options (bs[i := addY (bs ! i) d])"
proof (cases "i < length bs")
  case True
  then have "bs ! i \<in> set bs" by simp
  with assms have "soundBlock img options (addY (bs ! i) d)"
    by (simp add: soundBlocks_def sound_addY)
  with assms set_update_subset_insert [of bs i "addY (bs ! i) d"] show ?thesis
    unfolding soundBlocks_def by blast
next
  case False
  then have "length bs \<le> i" by (simp add: not_less)
  then have "bs[i := addY (bs ! i) d] = bs" by (rule list_update_beyond)
  with assms show ?thesis by simp
qed

lemma sound_shiftAt:
  "soundBlocks img options bs \<Longrightarrow> soundBlocks img options (shiftAt bs idxs d)"
  unfolding shiftAt_def
  by (induction idxs arbitrary: bs) (simp_all add: sound_update)

lemma foldl_inv: "(\<And>s x. P s \<Longrightarrow> P (f s x)) \<Longrightarrow> P s \<Longrightarrow> P (foldl f s xs)"
  by (induction xs arbitrary: s) simp_all

lemma foldl_inv_upt:
  "(\<And>s i. i < n \<Longrightarrow> P s \<Longrightarrow> P (f s i)) \<Longrightarrow> P s \<Longrightarrow> P (foldl f s [0..<n])"
  by (induction n) simp_all

lemma foldl_inv_set: "(\<And>s x. x \<in> set xs \<Longrightarrow> P s \<Longrightarrow> P (f s x)) \<Longrightarrow> P s \<Longrightarrow> P (foldl f s xs)"
  by (induction xs arbitrary: s) simp_all

subsection \<open>The staircase builder\<close>

lemma staircasePixel_skipped:
  "skippedPixel img options z x \<Longrightarrow> fst (staircasePixel img options z x north blocks) = blocks"
  by (auto simp: skippedPixel_def staircasePixel_def Let_def)

lemma staircasePixel_sound:
  assumes "x < 128" "z < 128" "soundBlocks img options blocks"
  shows "soundBlocks img options (fst (staircasePixel img options z x north blocks))"
proof (cases "skippedPixel img options z x")
  case True
  with assms show ?thesis by (simp add: staircasePixel_skipped)
next
  case False
  have p: "\<And>y block. soundBlock img options (addBlock (int x) y (int z) block)"
    using assms False by (simp add: sound_pixel)
  show ?thesis
    using assms(3)
    by (simp add: staircasePixel_def Let_def soundBlocks_append soundBlocks_Cons soundBlocks_Nil
        sound_northFiller p soundBlocks_map split: option.splits prod.splits)
qed

lemma staircaseColumn_sound:
  "x < 128 \<Longrightarrow> z < 128 \<Longrightarrow> soundBlocks img options (fst st)
   \<Longrightarrow> soundBlocks img options (fst (staircaseColumn img options z prevRow st x))"
  by (simp add: staircaseColumn_def Let_def staircasePixel_sound)

lemma staircaseRow_sound:
  assumes "z < 128" "soundBlocks img options (fst st)"
  shows "soundBlocks img options (fst (staircaseRow img options st z))"
  unfolding staircaseRow_def
  by (rule foldl_inv_upt [where P = "\<lambda>s. soundBlocks img options (fst s)"])
     (simp_all only: staircaseColumn_sound assms fst_conv)

lemma buildStaircaseBlocks_sound: "soundBlocks img options (buildStaircaseBlocks img options)"
  unfolding buildStaircaseBlocks_def
  by (rule foldl_inv_upt [where P = "\<lambda>s. soundBlocks img options (fst s)"])
     (simp_all only: staircaseRow_sound soundBlocks_Nil fst_conv)

subsection \<open>The variants\<close>

lemma classicColumn_sound:
  "soundBlocks img options bs \<Longrightarrow> soundBlocks img options (classicColumn bs col)"
  by (simp add: classicColumn_def sound_shiftAt split: option.splits)

lemma southlineColumn_sound:
  "soundBlocks img options bs \<Longrightarrow> soundBlocks img options (southlineColumn bs col)"
  by (simp add: southlineColumn_def Let_def sound_shiftAt)

lemma cancerApplyStep_sound:
  "soundBlocks img options (fst st)
   \<Longrightarrow> soundBlocks img options (fst (cancerApplyStep zToBlocks origMaxY normalizedTopY st z))"
  by (simp add: cancerApplyStep_def Let_def sound_shiftAt split: option.splits)

lemma cancerFillerStep_sound:
  "soundBlocks img options bs
   \<Longrightarrow> soundBlocks img options (cancerFillerStep pixelInfo zToBlocks deltaApplied bs z)"
  by (simp add: cancerFillerStep_def sound_shiftAt split: option.splits)

lemma cancerColumn_sound:
  assumes "soundBlocks img options bs"
  shows "soundBlocks img options (cancerColumn roundScaled img options bs x col)"
proof -
  have a: "\<And>f zs ys. soundBlocks img options
      (fst (foldl (cancerApplyStep (groupByZ bs col) f zs) (bs, []) ys))"
    by (rule foldl_inv [where P = "\<lambda>s. soundBlocks img options (fst s)"])
       (simp_all add: cancerApplyStep_sound assms)
  have b: "\<And>p d s zs. soundBlocks img options s
      \<Longrightarrow> soundBlocks img options (foldl (cancerFillerStep p (groupByZ bs col) d) s zs)"
    by (rule foldl_inv [where P = "soundBlocks img options"]) (simp_all add: cancerFillerStep_sound)
  show ?thesis
    unfolding cancerColumn_def Let_def
    by (simp only: a b assms if_split [where P = "soundBlocks img options"] simp_thms)
qed

lemma moveRow_sound:
  "soundBlocks img options (vs_blocks st) \<Longrightarrow> soundBlocks img options (vs_blocks (moveRow delta st z))"
  by (simp add: moveRow_def sound_shiftAt)

lemma moveSegment_sound:
  "soundBlocks img options (vs_blocks st)
   \<Longrightarrow> soundBlocks img options (vs_blocks (moveSegment st zList delta))"
  unfolding moveSegment_def
  by (rule foldl_inv [where P = "\<lambda>s. soundBlocks img options (vs_blocks s)"])
     (simp_all add: moveRow_sound)

lemma pushFiller_sound:
  "soundBlocks img options (vs_blocks st)
   \<Longrightarrow> soundBlocks img options (vs_blocks (pushFiller x southY (opt_fillerBlock options) st z))"
  by (simp add: pushFiller_def Let_def soundBlocks_append soundBlocks_Cons soundBlocks_Nil sound_filler)

lemma pushFillers_sound:
  "soundBlocks img options (vs_blocks st)
   \<Longrightarrow> soundBlocks img options (vs_blocks (foldl (pushFiller x southY (opt_fillerBlock options)) st zs))"
  by (rule foldl_inv [where P = "\<lambda>s. soundBlocks img options (vs_blocks s)"])
     (simp_all add: pushFiller_sound)

lemma valleySegmentStep_sound:
  "soundBlocks img options (vs_blocks st)
   \<Longrightarrow> soundBlocks img options
         (vs_blocks (valleySegmentStep pixelShade waterZ x (opt_fillerBlock options) st seg))"
  unfolding valleySegmentStep_def Let_def
  by (simp only: moveSegment_sound pushFillers_sound
      if_split [where P = "\<lambda>s. soundBlocks img options (vs_blocks s)"] simp_thms)

lemma fillerRowStep_sound:
  "soundBlocks img options (vs_blocks st)
   \<Longrightarrow> soundBlocks img options (vs_blocks (fillerRowStep pixelShade st z))"
  by (simp add: fillerRowStep_def Let_def sound_shiftAt split: option.splits)

lemma valleyColumn_sound:
  assumes "soundBlocks img options bs"
  shows "soundBlocks img options (valleyColumn img options bs x col)"
proof -
  have a: "\<And>p w st segs. soundBlocks img options (vs_blocks st)
      \<Longrightarrow> soundBlocks img options
            (vs_blocks (foldl (valleySegmentStep p w x (opt_fillerBlock options)) st segs))"
    by (rule foldl_inv [where P = "\<lambda>s. soundBlocks img options (vs_blocks s)"])
       (simp_all add: valleySegmentStep_sound)
  have b: "\<And>p st zs. soundBlocks img options (vs_blocks st)
      \<Longrightarrow> soundBlocks img options (vs_blocks (foldl (fillerRowStep p) st zs))"
    by (rule foldl_inv [where P = "\<lambda>s. soundBlocks img options (vs_blocks s)"])
       (simp_all add: fillerRowStep_sound)
  show ?thesis
    unfolding valleyColumn_def Let_def
    by (intro a b) (simp add: assms)
qed

lemma applyStaircaseVariant_sound:
  assumes "soundBlocks img options blocks"
  shows "soundBlocks img options (applyStaircaseVariant roundScaled blocks mode img options)"
proof (cases mode)
  case StaircaseCancer
  show ?thesis
    unfolding applyStaircaseVariant_def StaircaseCancer BuildMode.case
    by (rule foldl_inv [where P = "soundBlocks img options"]) (simp_all add: cancerColumn_sound assms)
next
  case StaircaseClassic
  show ?thesis
    unfolding applyStaircaseVariant_def StaircaseClassic BuildMode.case
    by (rule foldl_inv [where P = "soundBlocks img options"]) (simp_all add: classicColumn_sound assms)
next
  case StaircaseSouthline
  show ?thesis
    unfolding applyStaircaseVariant_def StaircaseSouthline BuildMode.case
    by (rule foldl_inv [where P = "soundBlocks img options"]) (simp_all add: southlineColumn_sound assms)
next
  case StaircaseValley
  show ?thesis
    unfolding applyStaircaseVariant_def StaircaseValley BuildMode.case
    by (rule foldl_inv [where P = "soundBlocks img options"]) (simp_all add: valleyColumn_sound assms)
qed (simp_all add: applyStaircaseVariant_def assms)

subsection \<open>The support modes\<close>

lemma stepExtra_sound:
  "soundBlocks img options (stepExtra topY occupied (opt_fillerBlock options) kv)"
  by (simp add: stepExtra_def Let_def soundBlocks_Nil soundBlocks_Cons sound_filler split: list.splits)

lemma addStepSupport_sound:
  "soundBlocks img options bs \<Longrightarrow> soundBlocks img options (addStepSupport bs (opt_fillerBlock options))"
  unfolding addStepSupport_def Let_def soundBlocks_append
  by (auto intro!: soundBlocks_concat simp: stepExtra_sound)

lemma belowStep_sound:
  "soundBlocks img options (fst st)
   \<Longrightarrow> soundBlocks img options (fst (belowStep (opt_fillerBlock options) st b))"
  by (simp add: belowStep_def Let_def soundBlocks_append soundBlocks_Cons soundBlocks_Nil sound_filler)

lemma fragileStep_sound:
  "soundBlocks img options (fst st)
   \<Longrightarrow> soundBlocks img options (fst (fragileStep (opt_fillerBlock options) st b))"
  by (simp add: fragileStep_def Let_def belowStep_sound)

lemma addAllSupport_sound:
  assumes "soundBlocks img options bs"
  shows "soundBlocks img options (addAllSupport bs (opt_fillerBlock options))"
proof -
  have "\<And>s xs. soundBlocks img options (fst s)
      \<Longrightarrow> soundBlocks img options (fst (foldl (belowStep (opt_fillerBlock options)) s xs))"
    by (rule foldl_inv [where P = "\<lambda>s. soundBlocks img options (fst s)"])
       (simp_all add: belowStep_sound)
  then show ?thesis
    using assms by (simp add: addAllSupport_def Let_def soundBlocks_append soundBlocks_Nil)
qed

lemma addFragileSupport_sound:
  assumes "soundBlocks img options bs"
  shows "soundBlocks img options (addFragileSupport bs (opt_fillerBlock options))"
proof -
  have "\<And>s xs. soundBlocks img options (fst s)
      \<Longrightarrow> soundBlocks img options (fst (foldl (fragileStep (opt_fillerBlock options)) s xs))"
    by (rule foldl_inv [where P = "\<lambda>s. soundBlocks img options (fst s)"])
       (simp_all add: fragileStep_sound)
  then show ?thesis
    using assms by (simp add: addFragileSupport_def Let_def soundBlocks_append soundBlocks_Nil)
qed

lemma waterStep_sound:
  "soundBlocks img options (fst st)
   \<Longrightarrow> soundBlocks img options (fst (waterStep (resolveBlockName (opt_fillerBlock options)) st n))"
  by (cases st; cases n)
     (simp add: waterStep_def Let_def soundBlocks_append soundBlocks_Cons soundBlocks_Nil sound_filler)

lemma addWaterSupport_sound:
  assumes "soundBlocks img options bs"
  shows "soundBlocks img options (addWaterSupport bs (opt_fillerBlock options))"
  unfolding addWaterSupport_def Let_def
  by (rule foldl_inv [where P = "\<lambda>s. soundBlocks img options (fst s)"])
     (simp_all add: waterStep_sound assms)

lemma applySupport_sound:
  "soundBlocks img options bs \<Longrightarrow> soundBlocks img options (applySupport bs options)"
  by (cases "opt_supportMode options")
     (simp_all add: applySupport_def applySupportMode_def addStepSupport_sound addAllSupport_sound
        addFragileSupport_sound addWaterSupport_sound)

subsection \<open>The suppress builders\<close>

lemma suppressPixel_skipped: "skippedPixel img options z x \<Longrightarrow> suppressPixel img options z x = None"
  by (auto simp: skippedPixel_def suppressPixel_def Let_def)

lemma pairsPixel_skipped: "skippedPixel img options z x \<Longrightarrow> pairsPixel img options z x = []"
  by (simp add: pairsPixel_def suppressPixel_skipped)

lemma pairsEWPixel_skipped:
  "skippedPixel img options z x \<Longrightarrow> fst (pairsEWPixel img options baseY z x) = []"
  by (simp add: pairsEWPixel_def suppressPixel_skipped)

lemma dualPixel_skipped:
  "skippedPixel img options z x \<Longrightarrow> dualPixel img options x z = []"
  by (simp add: dualPixel_def dualInfo_def suppressPixel_skipped Let_def)

lemma pairsPixel_sound:
  assumes "x < 128" "z < 128"
  shows "soundBlocks img options (pairsPixel img options z x)"
proof (cases "skippedPixel img options z x")
  case True
  then show ?thesis by (simp add: pairsPixel_skipped soundBlocks_Nil)
next
  case False
  have p: "\<And>y block. soundBlock img options (addBlock (int x) y (int z) block)"
    using assms False by (simp add: sound_pixel)
  show ?thesis
    by (simp add: pairsPixel_def Let_def soundBlocks_Cons soundBlocks_Nil
        sound_addBlock_filler p soundBlocks_map split: option.splits)
qed

lemma pairsEWPixel_sound:
  assumes "x < 128" "z < 128"
  shows "soundBlocks img options (fst (pairsEWPixel img options baseY z x))"
proof (cases "skippedPixel img options z x")
  case True
  then show ?thesis by (simp add: pairsEWPixel_skipped soundBlocks_Nil)
next
  case False
  have p: "\<And>y block. soundBlock img options (addBlock (int x) y (int z) block)"
    using assms False by (simp add: sound_pixel)
  show ?thesis
    by (simp add: pairsEWPixel_def Let_def soundBlocks_Cons soundBlocks_Nil soundBlocks_append
        sound_addBlock_filler p soundBlocks_map split: option.splits)
qed

lemma dualPixel_sound:
  assumes "x < 128" "z < 128"
  shows "soundBlocks img options (dualPixel img options x z)"
proof (cases "skippedPixel img options z x")
  case True
  with assms show ?thesis by (simp add: dualPixel_skipped soundBlocks_Nil)
next
  case False
  have p: "\<And>y block. soundBlock img options (addBlock (int x) y (int z) block)"
    using assms False by (simp add: sound_pixel)
  show ?thesis
    by (simp add: dualPixel_def Let_def soundBlocks_Cons soundBlocks_Nil
        sound_addBlock_filler p soundBlocks_map split: option.splits)
qed

subsection \<open>The builders\<close>

lemma filter_upt_bound: "z \<in> set (filter p [0..<n]) \<Longrightarrow> z < n"
  by (simp only: set_filter set_upt atLeastLessThan_iff mem_Collect_eq)

lemma soundBlocks_concat_rows:
  "(\<And>i. i < n \<Longrightarrow> soundBlocks img options (f i))
   \<Longrightarrow> soundBlocks img options (concat (map f (filter p [0..<n])))"
  by (rule soundBlocks_concat) (auto simp only: set_map image_iff dest: filter_upt_bound)

lemma buildHalf_sound: "soundBlocks img options (buildHalf img options startRow)"
proof -
  have "soundBlocks img options
      (concat (map (\<lambda>z. concat (map (\<lambda>x. pairsPixel img options z x) [0..<128]))
                 (filter (\<lambda>z. z mod 2 = startRow) [0..<128])))"
    by (intro soundBlocks_concat_rows soundBlocks_concat_upt pairsPixel_sound)
  then show ?thesis
    by (simp only: buildHalf_def Let_def applySupport_sound if_split [where P = "soundBlocks img options"] simp_thms)
qed

lemma pairsEWCell_sound:
  "fst p < 128 \<Longrightarrow> snd p < 128 \<Longrightarrow> soundBlocks img options (fst st)
   \<Longrightarrow> soundBlocks img options (fst (pairsEWCell img options baseY st p))"
  by (simp add: pairsEWCell_def Let_def soundBlocks_append pairsEWPixel_sound)

lemma pairsEW_cells:
  fixes step :: nat and p :: "nat \<times> nat"
  assumes "step < 128"
    and "p \<in> set (concat (map (\<lambda>x. map (\<lambda>z. (x, z)) (filter q [0..<128]))
                     (if step = 0 then [127] else [127 - step + 1, 127 - step])))"
  shows "fst p < 128 \<and> snd p < 128"
proof -
  from assms(2) obtain x z where p: "p = (x, z)" and z: "z \<in> set (filter q [0..<128])"
    and x: "x \<in> set (if step = 0 then [127] else [127 - step + 1, 127 - step])"
    by (auto simp only: set_concat set_map image_iff)
  from z have "z < 128" by (rule filter_upt_bound)
  moreover from x assms(1) have "x < 128" by (auto split: if_splits)
  ultimately show ?thesis by (simp add: p)
qed

lemma pairsEWStep_sound:
  assumes "step < 128" "\<forall>l \<in> set (fst st). soundBlocks img options l"
  shows "\<forall>l \<in> set (fst (pairsEWStep img options st step)). soundBlocks img options l"
proof -
  have "soundBlocks img options
      (fst (foldl (pairsEWCell img options (snd st)) ([], snd st)
         (concat (map (\<lambda>x. map (\<lambda>z. (x, z))
                    (filter (\<lambda>z. if step mod 2 = 0 then z mod 2 = 1 else z mod 2 = 0) [0..<128]))
                  (if step = 0 then [127] else [127 - step + 1, 127 - step])))))"
  proof (rule foldl_inv_set [where P = "\<lambda>s. soundBlocks img options (fst s)"])
    fix s :: "BlockEntry list \<times> int" and p :: "nat \<times> nat"
    assume "p \<in> set (concat (map (\<lambda>x. map (\<lambda>z. (x, z))
                    (filter (\<lambda>z. if step mod 2 = 0 then z mod 2 = 1 else z mod 2 = 0) [0..<128]))
                  (if step = 0 then [127] else [127 - step + 1, 127 - step])))"
      and s: "soundBlocks img options (fst s)"
    with assms(1) have "fst p < 128 \<and> snd p < 128" by (intro pairsEW_cells)
    with s show "soundBlocks img options (fst (pairsEWCell img options (snd st) s p))"
      by (simp only: pairsEWCell_sound)
  next
    show "soundBlocks img options (fst ([], snd st))" by (simp only: fst_conv soundBlocks_Nil)
  qed
  with assms(2) show ?thesis
    unfolding pairsEWStep_def Let_def fst_conv set_append Un_iff ball_Un list.set ball_simps
    by (simp only: simp_thms)
qed

lemma buildSuppressPairsEWBlocks_sound: "soundBlocks img options (buildSuppressPairsEWBlocks img options)"
proof -
  have "\<forall>l \<in> set (fst (foldl (pairsEWStep img options) ([], 0) [0..<128])). soundBlocks img options l"
  proof (rule foldl_inv_upt [where P = "\<lambda>s. \<forall>l \<in> set (fst s). soundBlocks img options l"])
    fix s :: "BlockEntry list list \<times> int" and i :: nat
    assume "i < 128" "\<forall>l \<in> set (fst s). soundBlocks img options l"
    then show "\<forall>l \<in> set (fst (pairsEWStep img options s i)). soundBlocks img options l"
      by (rule pairsEWStep_sound)
  next
    show "\<forall>l \<in> set (fst ([], 0::int)). soundBlocks img options l" by simp
  qed
  then show ?thesis
    unfolding buildSuppressPairsEWBlocks_def buildSuppressPairsEWBlocksByStep_def
    by (intro soundBlocks_concat) blast
qed

lemma buildSuppressDualLayerBlocks_sound:
  "soundBlocks img options (buildSuppressDualLayerBlocks img options)"
  unfolding buildSuppressDualLayerBlocks_def
  by (intro soundBlocks_concat_upt dualPixel_sound)

lemma convertBlocks_sound: "soundBlocks img options (convertBlocks roundScaled img options)"
  unfolding convertBlocks_def
  by (simp only: applySupport_sound applyStaircaseVariant_sound buildStaircaseBlocks_sound
      buildSuppressPairsEWBlocks_sound buildSuppressDualLayerBlocks_sound if_split [where P = "soundBlocks img options"] simp_thms)

lemma builtStructures_sound:
  "blocks \<in> set (builtStructures roundScaled img options) \<Longrightarrow> soundBlocks img options blocks"
  by (auto simp: builtStructures_def buildHalf_sound convertBlocks_sound split: if_splits)

lemma normalize_names: "map blockName (fst (normalizeAndMeasure blocks)) = map blockName blocks"
  by (simp add: normalizeAndMeasure_def Let_def comp_def split: option.splits)

lemma emitted_names:
  assumes "bs \<in> set (emittedStructures roundScaled img options)" "b \<in> set bs"
  shows "blockName b \<in> range resolveBlockName"
proof -
  from assms(1) obtain blocks where bl: "blocks \<in> set (builtStructures roundScaled img options)"
    and bs: "bs = fst (normalizeAndMeasure blocks)"
    by (auto simp: emittedStructures_def)
  from assms(2) have "blockName b \<in> set (map blockName bs)" by simp
  then have "blockName b \<in> set (map blockName blocks)" by (simp only: bs normalize_names)
  then obtain b' where "b' \<in> set blocks" "blockName b = blockName b'" by auto
  with builtStructures_sound [OF bl] show ?thesis
    by (auto simp: soundBlocks_def soundBlock_def)
qed

lemma convertToNbt_emitted:
  "\<exists>sx sy sz. convertToNbt gzip roundScaled img options =
     (if opt_buildMode options = SuppressPairs
      then buildSuppressPairs gzip img options
      else (gzip (writeStructureNbt (hd (emittedStructures roundScaled img options)) sx sy sz), False))"
  by (auto simp: convertToNbt_def toNbt_def Let_def emittedStructures_def builtStructures_def)

section \<open>Names and pixels of the emitted placements\<close>

text \<open>
  An example for the statement below: the image whose only opaque pixel is the pixel of
  row 3 and column 5, of the colour (127, 178, 56) of GRASS, with \<open>oak_leaves\<close> mapped to
  GRASS, the filler \<open>stone\<close>, the build mode \<open>staircase_classic\<close> and the support mode
  \<open>none\<close>.
\<close>

lemma example_leaves_name: "resolveBlockName ''oak_leaves'' = ''minecraft:oak_leaves[persistent=true]''"
  by (simp add: resolveBlockName_def objSet_def objectKeys_def objGet_def isArrayIndex_def)

lemma example_leaves_built:
  "convertBlocks roundScaled
     (ImageData 128 128 (replicate 1556 0 @ [127, 178, 56, 255] @ replicate 63976 0))
     \<lparr>opt_blockMapping = [1 \<mapsto> ''oak_leaves''], opt_fillerBlock = ''stone'', opt_customColors = [],
      opt_buildMode = StaircaseClassic, opt_supportMode = SupportNone, opt_baseName = ''map'',
      opt_layerGap = None\<rparr>
   = [BlockEntry 5 0 3 ''minecraft:oak_leaves[persistent=true]'']"
proof -
  let ?options = "\<lparr>opt_blockMapping = [1 \<mapsto> ''oak_leaves''], opt_fillerBlock = ''stone'',
      opt_customColors = [], opt_buildMode = StaircaseClassic, opt_supportMode = SupportNone,
      opt_baseName = ''map'', opt_layerGap = None\<rparr>"
  have z: "(3::nat) < 128" by simp
  have c: "customLookup (opt_customColors ?options) (rgbKey (127, 178, 56)) = None"
    by (simp add: customLookup_def)
  have m: "opt_buildMode ?options = StaircaseClassic" and s: "opt_supportMode ?options = SupportNone"
    by simp_all
  have g: "grassBlock ?options = ''oak_leaves''"
    by (simp add: grassBlock_def)
  from single_grass_built [OF z example_image_pixel [THEN conjunct1]
      example_image_pixel [THEN conjunct2] example_image_others c m s, of roundScaled]
  show ?thesis
    by (simp only: g example_leaves_name of_nat_numeral)
qed

lemma example_skipped:
  "skippedPixel (ImageData 128 128 (replicate 1556 0 @ [127, 178, 56, 255] @ replicate 63976 0))
     options 0 0"
  using example_image_others by (simp add: skippedPixel_def)

text \<open>
  Claim C9. For every build mode, every image and all options: each placement of each
  structure that the conversion serialises has an identifier that is not empty, begins
  with \<open>minecraft:\<close>, is its name part alone or its name part followed by a bracketed list,
  and contains \<open>persistent=true\<close> when its name part contains \<open>leaves\<close>. Each placement
  that the builders produce (before the shift of \<open>normalizeAndMeasure\<close>, so in the
  coordinates of the image) either carries the resolved filler block or stands in the
  column of cells of a pixel inside the image that is opaque and matches the palette
  lookup or a custom colour. And the loop bodies of the builders add no placement for a
  pixel that is transparent or matches neither: the staircase body returns the block list
  unchanged, the bodies of the three suppress builders return no placement.
\<close>

theorem emitted_blocks_named_and_placed:
  "(\<forall>bs \<in> set (emittedStructures roundScaled img options). \<forall>b \<in> set bs.
       blockName b \<noteq> [] \<and> startsWith (blockName b) ''minecraft:''
       \<and> (blockBaseName (blockName b) = blockName b \<or> last (blockName b) = CHR '']'')
       \<and> (strIncludes (blockBaseName (blockName b)) ''leaves''
            \<longrightarrow> strIncludes (blockName b) ''persistent=true''))
   \<and> (\<forall>bs \<in> set (builtStructures roundScaled img options). \<forall>b \<in> set bs.
         blockName b = resolveBlockName (opt_fillerBlock options) \<or> pixelPlaced img options b)
   \<and> (skippedPixel img options z x \<longrightarrow>
         fst (staircasePixel img options z x north blocks) = blocks
         \<and> pairsPixel img options z x = []
         \<and> fst (pairsEWPixel img options baseY z x) = []
         \<and> dualPixel img options x z = [])"
proof (intro conjI ballI impI)
  fix bs b
  assume "bs \<in> set (emittedStructures roundScaled img options)" "b \<in> set bs"
  then have "blockName b \<in> range resolveBlockName" by (rule emitted_names)
  then obtain block where "blockName b = resolveBlockName block" ..
  with resolveBlockName_wellNamed [of block] have w: "wellNamed (blockName b)" by simp
  from w show "blockName b \<noteq> []" by (simp add: wellNamed_def)
  from w show "startsWith (blockName b) ''minecraft:''" by (simp add: wellNamed_def)
  from w show "blockBaseName (blockName b) = blockName b \<or> last (blockName b) = CHR '']''"
    by (simp add: wellNamed_def)
  assume "strIncludes (blockBaseName (blockName b)) ''leaves''"
  with w show "strIncludes (blockName b) ''persistent=true''" by (simp add: wellNamed_def)
next
  fix bs b
  assume "bs \<in> set (builtStructures roundScaled img options)" "b \<in> set bs"
  with builtStructures_sound [of bs roundScaled img options]
  show "blockName b = resolveBlockName (opt_fillerBlock options) \<or> pixelPlaced img options b"
    by (simp add: soundBlocks_def soundBlock_def)
next
  assume s: "skippedPixel img options z x"
  from s show "fst (staircasePixel img options z x north blocks) = blocks"
    by (rule staircasePixel_skipped)
  from s show "pairsPixel img options z x = []" by (rule pairsPixel_skipped)
  from s show "fst (pairsEWPixel img options baseY z x) = []" by (rule pairsEWPixel_skipped)
  from s show "dualPixel img options x z = []" by (rule dualPixel_skipped)
qed

theorem emitted_blocks_named_and_placed_witness:
  "emittedStructures (\<lambda>k s. k)
     (ImageData 128 128 (replicate 1556 0 @ [127, 178, 56, 255] @ replicate 63976 0))
     \<lparr>opt_blockMapping = [1 \<mapsto> ''oak_leaves''], opt_fillerBlock = ''stone'', opt_customColors = [],
      opt_buildMode = StaircaseClassic, opt_supportMode = SupportNone, opt_baseName = ''map'',
      opt_layerGap = None\<rparr>
     = [[BlockEntry 5 0 3 ''minecraft:oak_leaves[persistent=true]'']]
   \<and> startsWith ''minecraft:oak_leaves[persistent=true]'' ''minecraft:''
   \<and> last ''minecraft:oak_leaves[persistent=true]'' = CHR '']''
   \<and> strIncludes (blockBaseName ''minecraft:oak_leaves[persistent=true]'') ''leaves''
   \<and> strIncludes ''minecraft:oak_leaves[persistent=true]'' ''persistent=true''
   \<and> ''minecraft:oak_leaves[persistent=true]'' \<noteq> resolveBlockName ''stone''
   \<and> pixelPlaced (ImageData 128 128 (replicate 1556 0 @ [127, 178, 56, 255] @ replicate 63976 0))
       \<lparr>opt_blockMapping = [1 \<mapsto> ''oak_leaves''], opt_fillerBlock = ''stone'', opt_customColors = [],
        opt_buildMode = StaircaseClassic, opt_supportMode = SupportNone, opt_baseName = ''map'',
        opt_layerGap = None\<rparr>
       (BlockEntry 5 0 3 ''minecraft:oak_leaves[persistent=true]'')
   \<and> skippedPixel (ImageData 128 128 (replicate 1556 0 @ [127, 178, 56, 255] @ replicate 63976 0))
       \<lparr>opt_blockMapping = [1 \<mapsto> ''oak_leaves''], opt_fillerBlock = ''stone'', opt_customColors = [],
        opt_buildMode = StaircaseClassic, opt_supportMode = SupportNone, opt_baseName = ''map'',
        opt_layerGap = None\<rparr> 0 0
   \<and> fst (staircasePixel (ImageData 128 128 (replicate 1556 0 @ [127, 178, 56, 255] @ replicate 63976 0))
       \<lparr>opt_blockMapping = [1 \<mapsto> ''oak_leaves''], opt_fillerBlock = ''stone'', opt_customColors = [],
        opt_buildMode = StaircaseClassic, opt_supportMode = SupportNone, opt_baseName = ''map'',
        opt_layerGap = None\<rparr> 0 0 (plainState 64 True) []) = []"
proof -
  let ?img = "ImageData 128 128 (replicate 1556 0 @ [127, 178, 56, 255] @ replicate 63976 0)"
  let ?options = "\<lparr>opt_blockMapping = [1 \<mapsto> ''oak_leaves''], opt_fillerBlock = ''stone'',
      opt_customColors = [], opt_buildMode = StaircaseClassic, opt_supportMode = SupportNone,
      opt_baseName = ''map'', opt_layerGap = None\<rparr>"
  let ?name = "''minecraft:oak_leaves[persistent=true]''"
  let ?b = "BlockEntry 5 0 3 ?name"
  note t = emitted_blocks_named_and_placed [of "\<lambda>k s. k" ?img ?options 0 0 "plainState 64 True" "[]" 0]
  have mode: "(opt_buildMode ?options = SuppressPairs) = False" by simp
  have built: "builtStructures (\<lambda>k s. k) ?img ?options = [[?b]]"
    by (simp only: builtStructures_def mode if_False example_leaves_built)
  have emitted: "emittedStructures (\<lambda>k s. k) ?img ?options = [[?b]]"
    unfolding emittedStructures_def built
    by (simp add: normalizeAndMeasure_def lowest_def highest_def)
  have leaves: "strIncludes (blockBaseName ?name) ''leaves''"
    by (simp add: blockBaseName_def)
  have other: "?name \<noteq> resolveBlockName ''stone''"
    by (simp add: resolveBlockName_def objectKeys_def)
  have skipped: "skippedPixel ?img ?options 0 0" by (rule example_skipped)
  from t have "\<forall>b \<in> set [?b]. startsWith (blockName b) ''minecraft:''
       \<and> (blockBaseName (blockName b) = blockName b \<or> last (blockName b) = CHR '']'')
       \<and> (strIncludes (blockBaseName (blockName b)) ''leaves''
            \<longrightarrow> strIncludes (blockName b) ''persistent=true'')"
    unfolding emitted by simp
  with leaves have named: "startsWith ?name ''minecraft:'' \<and> strIncludes ?name ''persistent=true''"
    by simp
  from t have "\<forall>b \<in> set [?b]. blockName b = resolveBlockName (opt_fillerBlock ?options)
      \<or> pixelPlaced ?img ?options b"
    unfolding built by simp
  with other have placed: "pixelPlaced ?img ?options ?b" by simp
  from t skipped have body: "fst (staircasePixel ?img ?options 0 0 (plainState 64 True) []) = []"
    by blast
  have l: "last ?name = CHR '']''" by simp
  from emitted named l leaves other placed skipped body show ?thesis
    by (simp only: simp_thms)
qed

section \<open>The reader inverts the writer\<close>



















section \<open>The palette and the state indices of the output\<close>










section \<open>The bounds of a structure\<close>

text \<open>
  An example image: 128 by 128 pixels, all transparent but the pixel of row 127 and column
  5, which is opaque with the colour (64, 64, 255) of WATER; and options with no block
  mapping, no custom colour, the filler \<open>stone\<close>, the build mode \<open>staircase_classic\<close> and
  the support mode \<open>water\<close>.
\<close>

lemma water_image_pixel:
  "pixelAlpha (ImageData 128 128 (replicate 65044 0 @ [64, 64, 255, 255] @ replicate 488 0)) 127 5 \<noteq> 0
   \<and> pixelKey (ImageData 128 128 (replicate 65044 0 @ [64, 64, 255, 255] @ replicate 488 0)) 127 5
       = rgbKey (64, 64, 255)"
  by (simp add: pixelAlpha_def pixelKey_def Let_def nth_append)

lemma water_image_index:
  "z < 128 \<Longrightarrow> x < 128 \<Longrightarrow> z \<noteq> 127 \<or> x \<noteq> 5 \<Longrightarrow> (z * 128 + x) * 4 + 3 < 65044 \<or> 65048 \<le> (z * 128 + x) * 4 + 3"
  for z x :: nat
proof -
  assume z: "z < 128" and x: "x < 128" and ne: "z \<noteq> 127 \<or> x \<noteq> 5"
  have e: "(z * 128 + x) * 4 + 3 = 512 * z + 4 * x + 3" by simp
  consider "z \<le> 126" | "z = 127" "x \<le> 4" | "z = 127" "6 \<le> x"
    using ne z by linarith
  then show ?thesis
    unfolding e
  proof cases
    case 1
    with x show "512 * z + 4 * x + 3 < 65044 \<or> 65048 \<le> 512 * z + 4 * x + 3" by linarith
  next
    case 2
    then show "512 * z + 4 * x + 3 < 65044 \<or> 65048 \<le> 512 * z + 4 * x + 3" by linarith
  next
    case 3
    then show "512 * z + 4 * x + 3 < 65044 \<or> 65048 \<le> 512 * z + 4 * x + 3" by linarith
  qed
qed

lemma water_image_others:
  "\<forall>z < 128. \<forall>x < 128. (z, x) \<noteq> (127, 5) \<longrightarrow>
     pixelAlpha (ImageData 128 128 (replicate 65044 0 @ [64, 64, 255, 255] @ replicate 488 0)) z x = 0"
proof (intro allI impI)
  fix z x :: nat
  assume z: "z < 128" and x: "x < 128" and ne: "(z, x) \<noteq> (127, 5)"
  let ?i = "(z * 128 + x) * 4 + 3"
  have "?i = 512 * z + 4 * x + 3" by simp
  with z x have b: "?i < 65536" by linarith
  from ne have "z \<noteq> 127 \<or> x \<noteq> 5" by simp
  with z x have "?i < 65044 \<or> 65048 \<le> ?i"
    by (rule water_image_index)
  then show "pixelAlpha (ImageData 128 128 (replicate 65044 0 @ [64, 64, 255, 255] @ replicate 488 0)) z x = 0"
  proof
    assume "?i < 65044"
    then show ?thesis by (simp add: pixelAlpha_def nth_append)
  next
    assume h: "65048 \<le> ?i"
    with b have "\<not> ?i < 65044" and "\<not> ?i - 65044 < 4" and "?i - 65044 - 4 < 488" by auto
    then show ?thesis by (simp add: pixelAlpha_def nth_append)
  qed
qed

lemma water_light: "getColorLookup (rgbKey (64, 64, 255)) = Some (ColorMatch 12 2)"
proof -
  have "shadeEntry 12 2 = (rgbKey (64, 64, 255), ColorMatch 12 2)"
    by (simp add: shadeEntry_def shadedTriple_def BASE_COLORS_def SHADE_MULTIPLIERS_def)
  with shadeEntry_mem [of 12 2] have "(rgbKey (64, 64, 255), ColorMatch 12 2) \<in> set lookupEntries"
    by simp
  then show ?thesis by (rule getColorLookup_entry)
qed

lemma water_base: "isWater (BASE_COLORS ! 12) \<and> hd (color_blocks (BASE_COLORS ! 12)) = ''water''
    \<and> color_blocks (BASE_COLORS ! 12) \<noteq> []"
  by (simp add: BASE_COLORS_def blocks_WATER_def)

lemma water_name: "resolveBlockName ''water'' = ''minecraft:water''"
  by (simp add: resolveBlockName_def objectKeys_def)

lemma stone_name: "resolveBlockName ''stone'' = ''minecraft:stone''"
  by (simp add: resolveBlockName_def objectKeys_def)

lemma water_pixel_step:
  assumes "pixelAlpha img z 5 \<noteq> 0" and "pixelKey img z 5 = rgbKey (64, 64, 255)"
    and "opt_customColors options = []" and "opt_blockMapping options = Map.empty"
  shows "staircasePixel img options z 5 (plainState BASE_Y True) []
      = ([BlockEntry 5 64 (int z) ''minecraft:water''],
         ColState 64 False (Some 64) (Some 64) (Some 1) (Some 0) (Some [(0, 1)]))"
proof -
  have m: "mappedBlock options 12 = Some ''water''"
    using water_base assms(4) by (cases "color_blocks (BASE_COLORS ! 12)") (simp_all add: mappedBlock_def)
  have c: "customLookup (opt_customColors options) (rgbKey (64, 64, 255)) = None"
    by (simp add: assms(3) customLookup_def)
  show ?thesis
    using assms(1) water_base
    by (simp add: staircasePixel_def assms(2) c water_light m Let_def getWaterDepth_def addBlock_def
        water_name plainState_def BASE_Y_def)
qed

lemma water_support_single:
  "addWaterSupport [BlockEntry 5 0 127 ''minecraft:water''] ''stone''
     = [BlockEntry 5 0 127 ''minecraft:water'',
        BlockEntry 5 0 126 ''minecraft:stone'', BlockEntry 5 0 128 ''minecraft:stone'',
        BlockEntry 4 0 127 ''minecraft:stone'', BlockEntry 6 0 127 ''minecraft:stone'',
        BlockEntry 5 (- 1) 127 ''minecraft:stone'']"
  by (simp add: addWaterSupport_def Let_def occupiedKeys_eq blockKey_def isWaterBlock_def
      waterNeighbors_def waterStep_def stone_name)

lemma water_example_built:
  "convertBlocks roundScaled
     (ImageData 128 128 (replicate 65044 0 @ [64, 64, 255, 255] @ replicate 488 0))
     \<lparr>opt_blockMapping = Map.empty, opt_fillerBlock = ''stone'', opt_customColors = [],
      opt_buildMode = StaircaseClassic, opt_supportMode = SupportWater, opt_baseName = ''map'',
      opt_layerGap = None\<rparr>
   = [BlockEntry 5 0 127 ''minecraft:water'',
      BlockEntry 5 0 126 ''minecraft:stone'', BlockEntry 5 0 128 ''minecraft:stone'',
      BlockEntry 4 0 127 ''minecraft:stone'', BlockEntry 6 0 127 ''minecraft:stone'',
      BlockEntry 5 (- 1) 127 ''minecraft:stone'']"
proof -
  let ?img = "ImageData 128 128 (replicate 65044 0 @ [64, 64, 255, 255] @ replicate 488 0)"
  let ?options = "\<lparr>opt_blockMapping = Map.empty, opt_fillerBlock = ''stone'', opt_customColors = [],
      opt_buildMode = StaircaseClassic, opt_supportMode = SupportWater, opt_baseName = ''map'',
      opt_layerGap = None\<rparr>"
  have z: "(127::nat) < 128" and x: "(5::nat) < 128" by simp_all
  have step: "staircasePixel ?img ?options 127 5 (plainState BASE_Y True) []
      = ([BlockEntry 5 64 (int 127) ''minecraft:water''],
         ColState 64 False (Some 64) (Some 64) (Some 1) (Some 0) (Some [(0, 1)]))"
    using water_pixel_step [OF water_image_pixel [THEN conjunct1] water_image_pixel [THEN conjunct2],
        of ?options]
    by simp
  from single_pixel_build [OF z x water_image_others step]
  have b: "buildStaircaseBlocks ?img ?options = [BlockEntry 5 64 127 ''minecraft:water'']"
    by simp
  have off: "\<not> isFillerDisabled ''stone''"
    by (simp add: isFillerDisabled_def string_eval)
  have "convertBlocks roundScaled ?img ?options
      = applySupport (applyStaircaseVariant roundScaled (buildStaircaseBlocks ?img ?options)
          StaircaseClassic ?img ?options) ?options"
    by (simp add: convertBlocks_def)
  also have "\<dots> = applySupport [BlockEntry 5 0 127 ''minecraft:water''] ?options"
    unfolding b by (simp only: classic_single)
  also have "\<dots> = addWaterSupport [BlockEntry 5 0 127 ''minecraft:water''] ''stone''"
    by (simp add: applySupport_def applySupportMode_def off)
  finally show ?thesis
    by (simp only: water_support_single)
qed

text \<open>
  Claim C6, as the code has it: for a non-empty placement list, \<open>normalizeAndMeasure\<close>
  moves every placement down by the minimum Y, so that the new minimum Y is 0; it moves Z
  by the minimum Z only when that minimum is negative (then the new minimum Z is 0); X
  and the block names stay. The dimensions are \<open>sizeX = 128\<close>, \<open>sizeY = maxY - minY + 1\<close>
  and \<open>sizeZ\<close> the larger of the Z extent and 128, or 129 when the minimum Z was negative.
  The Z extent is counted from the minimum Z when that is negative, \<open>maxZ - minZ + 1\<close>,
  and from row 0 otherwise, \<open>maxZ + 1\<close>: placements that are not shifted keep their rows,
  and the structure has to hold the rows from 0 to the last one.
\<close>

theorem normalizeAndMeasure_shift_and_size:
  "blocks \<noteq> [] \<Longrightarrow>
     (let minY = Min (set (map blk_y blocks)); maxY = Max (set (map blk_y blocks));
          minZ = Min (set (map blk_z blocks)); maxZ = Max (set (map blk_z blocks));
          shifted = fst (normalizeAndMeasure blocks); dims = snd (normalizeAndMeasure blocks)
      in shifted = map (shiftBlock minY (if minZ < 0 then minZ else 0)) blocks
         \<and> Min (set (map blk_y shifted)) = 0
         \<and> (if minZ < 0 then Min (set (map blk_z shifted)) = 0 else map blk_z shifted = map blk_z blocks)
         \<and> sizeX dims = 128
         \<and> sizeY dims = maxY - minY + 1
         \<and> sizeZ dims = max ((if minZ < 0 then maxZ - minZ else maxZ) + 1) (if minZ < 0 then 129 else 128))"
proof -
  assume ne: "blocks \<noteq> []"
  have ys: "map blk_y (map (shiftBlock dy dz) blocks) = map (\<lambda>v. v - dy) (map blk_y blocks)" for dy dz
    by (simp add: shiftBlock_def)
  have zs: "map blk_z (map (shiftBlock dy dz) blocks) = map (\<lambda>v. v - dz) (map blk_z blocks)" for dy dz
    by (simp add: shiftBlock_def)
  have ne': "map blk_y blocks \<noteq> []" "map blk_z blocks \<noteq> []"
    using ne by simp_all
  show ?thesis
    unfolding normalize_nonempty [OF ne] Let_def fst_conv snd_conv ys zs
    using Min_shift [OF ne'(1)] Min_shift [OF ne'(2)]
    by (simp add: comp_def)
qed

theorem normalizeAndMeasure_shift_and_size_witness:
  "[BlockEntry 5 64 (- 1) ''minecraft:stone'', BlockEntry 5 66 3 ''minecraft:grass_block''] \<noteq> []
   \<and> normalizeAndMeasure
        [BlockEntry 5 64 (- 1) ''minecraft:stone'', BlockEntry 5 66 3 ''minecraft:grass_block'']
      = ([BlockEntry 5 0 0 ''minecraft:stone'', BlockEntry 5 2 4 ''minecraft:grass_block''],
         Dimensions 128 3 129)"
  using normalizeAndMeasure_shift_and_size
    [of "[BlockEntry 5 64 (- 1) ''minecraft:stone'', BlockEntry 5 66 3 ''minecraft:grass_block'']"]
  by (simp add: Let_def shiftBlock_def prod_eq_iff Dimensions.expand)

text \<open>
  Claim C6 as stated fails on this input, which a conversion reaches: the water voxel of
  row 127 gets filler on its north and south sides, so the placements have Z from 126 to
  128. The minimum Z is not negative, nothing is shifted in Z, the raw Z span is 3, and
  the larger of 3 and 128 is 128; the code returns \<open>sizeZ = 129\<close>, the extent from row 0 to
  the last row.
\<close>

theorem normalizeAndMeasure_span_counterexample:
  "Min (set (map blk_z (convertBlocks (\<lambda>k s. k)
       (ImageData 128 128 (replicate 65044 0 @ [64, 64, 255, 255] @ replicate 488 0))
       \<lparr>opt_blockMapping = Map.empty, opt_fillerBlock = ''stone'', opt_customColors = [],
        opt_buildMode = StaircaseClassic, opt_supportMode = SupportWater, opt_baseName = ''map'',
        opt_layerGap = None\<rparr>))) = 126
   \<and> Max (set (map blk_z (convertBlocks (\<lambda>k s. k)
       (ImageData 128 128 (replicate 65044 0 @ [64, 64, 255, 255] @ replicate 488 0))
       \<lparr>opt_blockMapping = Map.empty, opt_fillerBlock = ''stone'', opt_customColors = [],
        opt_buildMode = StaircaseClassic, opt_supportMode = SupportWater, opt_baseName = ''map'',
        opt_layerGap = None\<rparr>))) = 128
   \<and> max (128 - 126 + 1) 128 = (128::int)
   \<and> snd (normalizeAndMeasure (convertBlocks (\<lambda>k s. k)
       (ImageData 128 128 (replicate 65044 0 @ [64, 64, 255, 255] @ replicate 488 0))
       \<lparr>opt_blockMapping = Map.empty, opt_fillerBlock = ''stone'', opt_customColors = [],
        opt_buildMode = StaircaseClassic, opt_supportMode = SupportWater, opt_baseName = ''map'',
        opt_layerGap = None\<rparr>)) = Dimensions 128 2 129"
  unfolding water_example_built
  by (simp add: normalizeAndMeasure_def lowest_def highest_def)

section \<open>The output container\<close>




















end
